theory Spec2Isabelle
  imports Complex_Main "HOL-Library.AList" "HOL-Library.Log_Nat"
begin

section \<open>The turtle strategy and its backtesting engine\<close>

text \<open>
  A shallow embedding of \<^verbatim>\<open>examples/turtle/turtle_strategy.py\<close> and
  \<^verbatim>\<open>examples/turtle/turtle_engine.py\<close>.

  Modelling conventions.
  \<^item> Python numbers: unit counts and volumes are \<open>int\<close>; prices, volatilities and money
    are \<open>real\<close>, the value of a finite float. Sums, differences and comparisons of
    prices and money are taken exactly; the order unit, the one integer the code gets by
    rounding the result of float operations, is computed in binary64 arithmetic.
  \<^item> A method that mutates objects is a function from the state to a \<open>result\<close>:
    \<open>Return v s\<close> when it returns \<open>v\<close> in state \<open>s\<close>, \<open>Raise e s\<close> when the
    exception \<open>e\<close> propagates and leaves the (partially mutated) state \<open>s\<close> behind.
  \<^item> \<open>TurtleSignal\<close> objects are shared by reference between \<open>signals\<close> and
    \<open>trading_signals\<close> and compared with \<^verbatim>\<open>is not\<close>: they live in an explicit
    store \<open>heap\<close>, a reference is a \<open>nat\<close>.
  \<^item> The classes \<^verbatim>\<open>ArrayManager\<close>, \<^verbatim>\<open>BarData\<close>, \<^verbatim>\<open>Direction\<close> and
    \<^verbatim>\<open>Offset\<close> come from \<^verbatim>\<open>vnpy.trader\<close> and are not part of the two files:
    \<open>ArrayManager\<close> is a parameter (a record of its operations), the others carry
    exactly the members the two files use.
\<close>

subsection \<open>Exceptions and results\<close>

datatype error =
    AttributeError string
  | KeyError string
  | NameError string
  | IndexError
  | ValueError
  | ArithmeticError   \<comment> \<open>\<^verbatim>\<open>ZeroDivisionError\<close> (and \<^verbatim>\<open>OverflowError\<close>) are its subclasses\<close>

datatype ('a, 's) result = Return 'a 's | Raise error 's

fun state_of :: "('a, 's) result \<Rightarrow> 's" where
  "state_of (Return v s) = s"
| "state_of (Raise e s) = s"

fun raised :: "('a, 's) result \<Rightarrow> error option" where
  "raised (Return v s) = None"
| "raised (Raise e s) = Some e"

text \<open>Sequencing of two statements: an exception in the first skips the second.\<close>

definition and_then :: "('a, 's) result \<Rightarrow> ('a \<Rightarrow> 's \<Rightarrow> ('b, 's) result) \<Rightarrow> ('b, 's) result" where
  "and_then r f = (case r of Return v s \<Rightarrow> f v s | Raise e s \<Rightarrow> Raise e s)"

subsection \<open>Types of \<^verbatim>\<open>vnpy.trader\<close>\<close>

datatype Direction = LONG | SHORT

datatype Offset = OPEN | CLOSE

record BarData =
  vt_symbol_bar :: string
  open_bar :: real
  high :: real
  low :: real
  close :: real

text \<open>
  The operations of \<^verbatim>\<open>ArrayManager\<close> the strategy calls, over any representation
  \<open>'am\<close> of its rolling window.
\<close>

record 'am ArrayManager =
  new_am :: "nat \<Rightarrow> 'am"
  update_bar :: "'am \<Rightarrow> BarData \<Rightarrow> 'am"
  inited :: "'am \<Rightarrow> bool"
  donchian :: "'am \<Rightarrow> nat \<Rightarrow> real \<times> real"
  atr :: "'am \<Rightarrow> nat \<Rightarrow> real"

subsection \<open>\<^verbatim>\<open>turtle_strategy.py\<close>: constants and \<^verbatim>\<open>TurtleResult\<close>\<close>

definition MAX_PRODUCT_POS :: int where
  "MAX_PRODUCT_POS = 4"

definition MAX_DIRECTION_POS :: int where
  "MAX_DIRECTION_POS = 10"

record TurtleResult =
  unit_r :: int
  entry :: real
  exit :: real
  pnl :: real

definition TurtleResult_init :: TurtleResult where
  "TurtleResult_init = \<lparr>unit_r = 0, entry = 0, exit = 0, pnl = 0\<rparr>"

text \<open>\<^verbatim>\<open>TurtleResult.open\<close>: the division raises when the new unit count is zero.\<close>

definition open_r :: "real \<Rightarrow> int \<Rightarrow> TurtleResult \<Rightarrow> (unit, TurtleResult) result" where
  "open_r price change r =
     (let cost = of_int (unit_r r) * entry r;
          cost = cost + of_int change * price;
          r = r\<lparr>unit_r := unit_r r + change\<rparr>
      in if unit_r r = 0 then Raise ArithmeticError r
         else Return () (r\<lparr>entry := cost / of_int (unit_r r)\<rparr>))"

definition close_r :: "real \<Rightarrow> TurtleResult \<Rightarrow> TurtleResult" where
  "close_r price r =
     (let r = r\<lparr>exit := price\<rparr>
      in r\<lparr>pnl := of_int (unit_r r) * (exit r - entry r)\<rparr>)"

subsection \<open>\<^verbatim>\<open>TurtleSignal\<close> and \<^verbatim>\<open>TurtlePortfolio\<close>: the state\<close>

record 'am TurtleSignal =
  vt_symbol :: string
  entry_window :: nat
  exit_window :: nat
  atr_window :: nat
  profit_check :: bool
  am :: 'am
  atr_volatility :: real
  entry_up :: real
  entry_down :: real
  exit_up :: real
  exit_down :: real
  long_entry_1 :: real
  long_entry_2 :: real
  long_entry_3 :: real
  long_entry_4 :: real
  long_stop :: real
  short_entry_1 :: real
  short_entry_2 :: real
  short_entry_3 :: real
  short_entry_4 :: real
  short_stop :: real
  unit :: int
  last_result :: "TurtleResult option"
  results :: "TurtleResult list"
  last_bar :: "BarData option"

text \<open>\<^verbatim>\<open>TurtleSignal.__init__\<close> (the back reference \<^verbatim>\<open>portfolio\<close> is the state itself).\<close>

definition TurtleSignal_init ::
  "'am ArrayManager \<Rightarrow> string \<Rightarrow> nat \<Rightarrow> nat \<Rightarrow> nat \<Rightarrow> bool \<Rightarrow> 'am TurtleSignal" where
  "TurtleSignal_init AM v ew xw aw pc =
     \<lparr>vt_symbol = v, entry_window = ew, exit_window = xw, atr_window = aw,
      profit_check = pc, am = new_am AM 60,
      atr_volatility = 0, entry_up = 0, entry_down = 0, exit_up = 0, exit_down = 0,
      long_entry_1 = 0, long_entry_2 = 0, long_entry_3 = 0, long_entry_4 = 0, long_stop = 0,
      short_entry_1 = 0, short_entry_2 = 0, short_entry_3 = 0, short_entry_4 = 0,
      short_stop = 0,
      unit = 0, last_result = None, results = [], last_bar = None\<rparr>"

text \<open>A fill as the engine records it (\<^verbatim>\<open>TradeData\<close> of \<^verbatim>\<open>turtle_engine.py\<close>).\<close>

record TradeData =
  vt_symbol_trade :: string
  direction :: Direction
  offset :: Offset
  price :: real
  volume :: int

text \<open>
  \<^verbatim>\<open>DailyResult\<close> of \<^verbatim>\<open>turtle_engine.py\<close>: exactly the attributes its constructor
  sets. The dictionaries are association lists in insertion order (the code iterates over
  them).
\<close>

record DailyResult =
  date :: nat
  closes :: "(string \<times> real) list"
  previousCloseDict :: "(string \<times> real) list"
  trades :: "(string \<times> TradeData list) list"
  posDict :: "(string \<times> int) list"
  tradingPnl :: real
  holdingPnl :: real
  totalPnl :: real
  commission :: real
  slippage :: real
  netPnl :: real
  tradeCount :: int

definition DailyResult_init :: "nat \<Rightarrow> DailyResult" where
  "DailyResult_init d =
     \<lparr>date = d, closes = [], previousCloseDict = [], trades = [], posDict = [],
      tradingPnl = 0, holdingPnl = 0, totalPnl = 0, commission = 0, slippage = 0,
      netPnl = 0, tradeCount = 0\<rparr>"

text \<open>
  \<^verbatim>\<open>BacktestingEngine\<close>: the configuration dictionaries, the initial portfolio value
  and the list of daily results (the attributes the modelled methods read).
\<close>

record BacktestingEngine =
  sizes_e :: "string \<rightharpoonup> int"
  priceticks :: "string \<rightharpoonup> real"
  variable_commissions :: "string \<rightharpoonup> real"
  fixed_commissions :: "string \<rightharpoonup> real"
  slippages :: "string \<rightharpoonup> real"
  portfolio_value_e :: real
  results_e :: "DailyResult list"

text \<open>
  The attribute names of a \<^verbatim>\<open>BacktestingEngine\<close> object: what \<^verbatim>\<open>__init__\<close> assigns
  and the methods of the class.
\<close>

definition BacktestingEngine_attrs :: "string list" where
  "BacktestingEngine_attrs =
     [''portfolio'', ''vt_symbols'', ''sizes'', ''priceticks'', ''variable_commissions'',
      ''fixed_commissions'', ''slippages'', ''portfolio_value'', ''start_dt'', ''end_dt'',
      ''current_dt'', ''data'', ''trades'', ''result'', ''results'',
      ''set_period'', ''init_portfolio'', ''load_data'', ''run_backtesting'',
      ''calculate_result'', ''showResult'', ''sendOrder'', ''output'', ''getTradeData'']"

text \<open>
  The object handed to \<^verbatim>\<open>TurtlePortfolio(engine)\<close> is either the
  \<^verbatim>\<open>BacktestingEngine\<close> of this repository or, since the portfolio is duck typed, any
  object with a method \<^verbatim>\<open>send_order\<close>.
\<close>

text \<open>
  Modelled from the spec: \<open>FillRecorder\<close>, the engine the portfolio expects, which is
  not among the two files. It exposes \<^verbatim>\<open>send_order\<close> and appends the fill to its list
  (``the engine only needs an abstract record-a-fill callback'',
  \<^verbatim>\<open>record(instrument, direction, offset, price, volume)\<close>).
\<close>

datatype Engine = Backtesting BacktestingEngine | FillRecorder "TradeData list"

text \<open>
  The call \<^verbatim>\<open>self.engine.send_order(vt_symbol, direction, offset, price, volume)\<close>.
  A \<^verbatim>\<open>BacktestingEngine\<close> has no attribute of that name (its method is called
  \<^verbatim>\<open>sendOrder\<close>), so the attribute lookup raises.
\<close>

fun engine_send_order :: "Engine \<Rightarrow> TradeData \<Rightarrow> error + Engine" where
  "engine_send_order (Backtesting e) t = Inl (AttributeError ''send_order'')"
| "engine_send_order (FillRecorder fills) t = Inr (FillRecorder (fills @ [t]))"

text \<open>
  \<^verbatim>\<open>TurtlePortfolio\<close>. \<open>signals\<close> is a \<^verbatim>\<open>defaultdict(list)\<close> of references,
  \<open>units\<close> an insertion-ordered dictionary (\<^verbatim>\<open>send_order\<close> iterates over its values);
  \<open>heap\<close> holds the signal objects and \<open>next_ref\<close> is the next free reference
  (the store is total: a reference not yet handed out holds a fresh, flat signal).
\<close>

record 'am TurtlePortfolio =
  engine :: Engine
  signals :: "string \<Rightarrow> nat list"
  units :: "(string \<times> int) list"
  total_long :: int
  total_short :: int
  trading_signals :: "string \<rightharpoonup> nat"
  sizes :: "string \<rightharpoonup> int"
  multipliers :: "string \<rightharpoonup> int"
  poses :: "string \<rightharpoonup> int"
  portfolio_value :: real
  heap :: "nat \<Rightarrow> 'am TurtleSignal"
  next_ref :: nat

subsection \<open>\<^verbatim>\<open>TurtlePortfolio\<close>: the allocator\<close>

text \<open>
  Round half to even, to an integer: Python's \<^verbatim>\<open>round(x, 0)\<close> followed by
  \<^verbatim>\<open>int\<close>, on the exact value of a finite float.
\<close>

definition py_round :: "real \<Rightarrow> int" where
  "py_round x =
     (let f = \<lfloor>x\<rfloor>; d = x - of_int f
      in if d < 1 / 2 then f else if 1 / 2 < d then f + 1
         else if even f then f else f + 1)"

text \<open>
  The order unit is an integer that \<^verbatim>\<open>new_signal\<close> gets by rounding the result of
  three float operations, so there the floats are computed as the machine computes them.
  A Python float is a binary64 number: finite (a real with 53 significant bits), an
  infinity (\<open>Infinity True\<close> is the positive one) or not a number. Zero carries no sign
  here: a zero divisor raises whatever its sign, and \<^verbatim>\<open>int(round(-0.0, 0))\<close> is 0.
\<close>

datatype float = Finite real | Infinity bool | NaN

text \<open>\<open>2\<^sup>k\<close> for an integer \<open>k\<close>.\<close>

definition pow2 :: "int \<Rightarrow> real" where
  "pow2 k = (if 0 \<le> k then 2 ^ nat k else 1 / 2 ^ nat (- k))"

text \<open>
  The binary exponent of a non-zero real: the \<open>e\<close> with \<open>2\<^sup>e \<le> \<bar>x\<bar> < 2\<^sup>e\<^sup>+\<^sup>1\<close>, from the
  number of bits of \<open>\<lfloor>\<bar>x\<bar>\<rfloor>\<close>, or of \<open>\<lceil>1 / \<bar>x\<bar>\<rceil> - 1\<close> below 1.
\<close>

definition exponent :: "real \<Rightarrow> int" where
  "exponent x =
     (if 1 \<le> \<bar>x\<bar> then bitlen \<lfloor>\<bar>x\<bar>\<rfloor> - 1 else - bitlen (\<lceil>1 / \<bar>x\<bar>\<rceil> - 1))"

text \<open>
  Rounding to binary64, to nearest with ties to the even significand: the result is the
  multiple of \<open>2\<^sup>e\<^sup>-\<^sup>5\<^sup>2\<close> nearest to \<open>x\<close>, where \<open>e\<close> is the exponent of \<open>x\<close> and at
  least \<open>-1022\<close> (below \<open>2\<^sup>-\<^sup>1\<^sup>0\<^sup>2\<^sup>2\<close> the numbers stay \<open>2\<^sup>-\<^sup>1\<^sup>0\<^sup>7\<^sup>4\<close> apart), and an infinity
  when that multiple reaches \<open>2\<^sup>1\<^sup>0\<^sup>2\<^sup>4\<close>. It is what Python does with a literal
  (\<^verbatim>\<open>0.01\<close> is \<open>double 0.01\<close>) and with the exact result of every float operation.
\<close>

definition double :: "real \<Rightarrow> float" where
  "double x =
     (if x = 0 then Finite 0
      else
       (let e = max (exponent x) (- 1022);
            ulp = pow2 (e - 52);
            y = of_int (py_round (x / ulp)) * ulp
        in if \<bar>y\<bar> < 2 ^ 1024 then Finite y else Infinity (0 < x)))"

text \<open>
  A number as an operand of a float operation: a float is taken as it is (\<open>double\<close>
  leaves a binary64 number alone), an \<^verbatim>\<open>int\<close> is converted to the nearest float, and
  the conversion of an \<^verbatim>\<open>int\<close> beyond the range raises \<^verbatim>\<open>OverflowError\<close>.
\<close>

definition to_float :: "real \<Rightarrow> error + float" where
  "to_float x = (case double x of Infinity s \<Rightarrow> Inl ArithmeticError | y \<Rightarrow> Inr y)"

text \<open>\<^verbatim>\<open>x * y\<close> on floats.\<close>

fun fmul :: "float \<Rightarrow> float \<Rightarrow> float" where
  "fmul (Finite x) (Finite y) = double (x * y)"
| "fmul (Finite x) (Infinity t) = (if x = 0 then NaN else Infinity (t = (0 < x)))"
| "fmul (Infinity s) (Finite y) = (if y = 0 then NaN else Infinity (s = (0 < y)))"
| "fmul (Infinity s) (Infinity t) = Infinity (s = t)"
| "fmul NaN y = NaN"
| "fmul x NaN = NaN"

text \<open>
  \<^verbatim>\<open>x / y\<close> on floats: a zero divisor raises \<^verbatim>\<open>ZeroDivisionError\<close>. (The
  operands are taken to be Python floats; an array library's float that divided by zero
  without raising would reach \<^verbatim>\<open>int\<close> as an infinity or a NaN and raise there.)
\<close>

fun fdiv :: "float \<Rightarrow> float \<Rightarrow> error + float" where
  "fdiv x (Finite y) =
     (if y = 0 then Inl ArithmeticError
      else Inr (case x of
                  Finite x \<Rightarrow> double (x / y)
                | Infinity s \<Rightarrow> Infinity (s = (0 < y))
                | NaN \<Rightarrow> NaN))"
| "fdiv (Finite x) (Infinity t) = Inr (Finite 0)"
| "fdiv (Infinity s) (Infinity t) = Inr NaN"
| "fdiv NaN (Infinity t) = Inr NaN"
| "fdiv x NaN = Inr NaN"

text \<open>
  \<^verbatim>\<open>int(round(x, 0))\<close> on a float: \<^verbatim>\<open>round\<close> returns an infinity or a NaN as it
  is, and \<^verbatim>\<open>int\<close> raises \<^verbatim>\<open>OverflowError\<close> on the one and \<^verbatim>\<open>ValueError\<close> on the
  other.
\<close>

fun int_round :: "float \<Rightarrow> error + int" where
  "int_round (Finite x) = Inr (py_round x)"
| "int_round (Infinity s) = Inl ArithmeticError"
| "int_round NaN = Inl ValueError"

text \<open>\<^verbatim>\<open>TurtleSignal.get_last_pnl\<close>.\<close>

definition get_last_pnl :: "'am TurtleSignal \<Rightarrow> real" where
  "get_last_pnl s = (if results s = [] then 0 else pnl (last (results s)))"

text \<open>
  The loop of \<^verbatim>\<open>send_order\<close> that recomputes \<open>total_long\<close> and
  \<open>total_short\<close> over \<^verbatim>\<open>self.units.values()\<close>.
\<close>

fun sum_units :: "int list \<Rightarrow> int \<times> int \<Rightarrow> int \<times> int" where
  "sum_units [] (lng, sht) = (lng, sht)"
| "sum_units (u # us) (lng, sht) =
     (if u > 0 then sum_units us (lng + u, sht)
      else if u < 0 then sum_units us (lng, sht + u)
      else sum_units us (lng, sht))"

text \<open>
  \<^verbatim>\<open>TurtlePortfolio.send_order\<close>. Each dictionary update that can raise
  \<^verbatim>\<open>KeyError\<close> leaves the earlier updates in place, and so does the failing call of the
  engine.
\<close>

definition send_order ::
  "string \<Rightarrow> Direction \<Rightarrow> Offset \<Rightarrow> real \<Rightarrow> int \<Rightarrow> int \<Rightarrow> 'am TurtlePortfolio
     \<Rightarrow> (unit, 'am TurtlePortfolio) result" where
  "send_order v dir off p vol multiplier w =
     (let sgn = (if dir = LONG then 1 else - 1) in
      case map_of (units w) v of
        None \<Rightarrow> Raise (KeyError v) w
      | Some u \<Rightarrow>
         (let w = w\<lparr>units := AList.update v (u + sgn * vol) (units w)\<rparr> in
          case poses w v of
            None \<Rightarrow> Raise (KeyError v) w
          | Some q \<Rightarrow>
             (let w = w\<lparr>poses := (poses w)(v \<mapsto> q + sgn * (vol * multiplier))\<rparr>;
                  w = w\<lparr>total_long := 0, total_short := 0\<rparr>;
                  (lng, sht) = sum_units (map snd (units w)) (total_long w, total_short w);
                  w = w\<lparr>total_long := lng, total_short := sht\<rparr>
              in case engine_send_order (engine w)
                     \<lparr>vt_symbol_trade = v, direction = dir, offset = off, price = p,
                      volume = vol * multiplier\<rparr> of
                   Inl e \<Rightarrow> Raise e w
                 | Inr e' \<Rightarrow> Return () (w\<lparr>engine := e'\<rparr>))))"

text \<open>
  The arithmetic of the first block of \<^verbatim>\<open>new_signal\<close>, on the portfolio value, the
  volatility of the signal and the contract size:
  \<^verbatim>\<open>risk_value = self.portfolio_value * 0.01\<close>,
  \<^verbatim>\<open>multiplier = risk_value / (signal.atr_volatility * size)\<close>,
  \<^verbatim>\<open>multiplier = int(round(multiplier, 0))\<close>.
\<close>

definition risk_multiplier :: "real \<Rightarrow> real \<Rightarrow> int \<Rightarrow> error + int" where
  "risk_multiplier pv atr_v size' =
     (case to_float pv of
        Inl e \<Rightarrow> Inl e
      | Inr pv \<Rightarrow>
         (let risk_value = fmul pv (double 0.01) in
          case to_float atr_v of
            Inl e \<Rightarrow> Inl e
          | Inr atr_v \<Rightarrow>
             (case to_float (of_int size') of
                Inl e \<Rightarrow> Inl e
              | Inr size' \<Rightarrow>
                 (case fdiv risk_value (fmul atr_v size') of
                    Inl e \<Rightarrow> Inl e
                  | Inr multiplier \<Rightarrow> int_round multiplier))))"

text \<open>
  The first block of \<^verbatim>\<open>new_signal\<close>: the order unit of the instrument, recomputed
  while the instrument is flat. Nothing is assigned before the arithmetic has gone through.
\<close>

definition get_multiplier ::
  "'am TurtleSignal \<Rightarrow> int \<Rightarrow> 'am TurtlePortfolio \<Rightarrow> (int, 'am TurtlePortfolio) result" where
  "get_multiplier s u w =
     (if u = 0 then
        (case sizes w (vt_symbol s) of
           None \<Rightarrow> Raise (KeyError (vt_symbol s)) w
         | Some size' \<Rightarrow>
            (case risk_multiplier (portfolio_value w) (atr_volatility s) size' of
               Inl e \<Rightarrow> Raise e w
             | Inr multiplier \<Rightarrow>
                 Return multiplier
                   (w\<lparr>multipliers := (multipliers w)(vt_symbol s \<mapsto> multiplier)\<rparr>)))
      else
        (case multipliers w (vt_symbol s) of
           None \<Rightarrow> Raise (KeyError (vt_symbol s)) w
         | Some multiplier \<Rightarrow> Return multiplier w))"

text \<open>
  The filter of \<^verbatim>\<open>new_signal\<close>, from the comment ``open'' down to the test of the
  trading signal: \<open>None\<close> is one of its \<^verbatim>\<open>return\<close> statements (the proposal is
  dropped), \<open>Some volume\<close> lets the order through with the volume to trade. In source
  order: the profit check, the cap of the direction, the cap of the instrument, nothing to
  close, another signal trading the instrument.
\<close>

definition filter_signal ::
  "nat \<Rightarrow> Direction \<Rightarrow> Offset \<Rightarrow> int \<Rightarrow> int \<Rightarrow> 'am TurtlePortfolio \<Rightarrow> int option" where
  "filter_signal signal dir off vol u w =
     (let s = heap w signal;
          checked =
            (if off = OPEN then
               (if profit_check s \<and> get_last_pnl s > 0 then None
                else if dir = LONG then
                  (if total_long w \<ge> MAX_DIRECTION_POS then None
                   else if u \<ge> MAX_PRODUCT_POS then None
                   else Some vol)
                else
                  (if total_short w \<le> - MAX_DIRECTION_POS then None
                   else if u \<le> - MAX_PRODUCT_POS then None
                   else Some vol))
             else
               (if dir = LONG then
                  (if u \<ge> 0 then None else Some (min vol \<bar>u\<bar>))
                else
                  (if u \<le> 0 then None else Some (min vol \<bar>u\<bar>))))
      in case checked of
           None \<Rightarrow> None
         | Some vol' \<Rightarrow>
            (case trading_signals w (vt_symbol s) of
               None \<Rightarrow> Some vol'
             | Some current_signal \<Rightarrow>
                 if current_signal \<noteq> signal then None else Some vol'))"

text \<open>\<^verbatim>\<open>TurtlePortfolio.new_signal\<close>; \<open>signal\<close> is the reference of the proposing signal.\<close>

definition new_signal ::
  "nat \<Rightarrow> Direction \<Rightarrow> Offset \<Rightarrow> real \<Rightarrow> int \<Rightarrow> 'am TurtlePortfolio
     \<Rightarrow> (unit, 'am TurtlePortfolio) result" where
  "new_signal signal dir off p vol w =
     (let s = heap w signal in
      case map_of (units w) (vt_symbol s) of
        None \<Rightarrow> Raise (KeyError (vt_symbol s)) w
      | Some u \<Rightarrow>
          and_then (get_multiplier s u w) (\<lambda>multiplier w.
            case filter_signal signal dir off vol u w of
              None \<Rightarrow> Return () w
            | Some vol' \<Rightarrow>
                if off = OPEN then
                  send_order (vt_symbol s) dir off p vol' multiplier
                    (w\<lparr>trading_signals := (trading_signals w)(vt_symbol s \<mapsto> signal)\<rparr>)
                else
                  (case trading_signals w (vt_symbol s) of
                     None \<Rightarrow> Raise (KeyError (vt_symbol s)) w
                   | Some _ \<Rightarrow>
                       send_order (vt_symbol s) dir off p vol' multiplier
                         (w\<lparr>trading_signals := (trading_signals w)(vt_symbol s := None)\<rparr>))))"

subsection \<open>\<^verbatim>\<open>TurtleSignal\<close>: the methods\<close>

text \<open>Assignment to attributes of the signal object behind a reference.\<close>

definition upd_signal ::
  "nat \<Rightarrow> ('am TurtleSignal \<Rightarrow> 'am TurtleSignal) \<Rightarrow> 'am TurtlePortfolio \<Rightarrow> 'am TurtlePortfolio" where
  "upd_signal self f w = w\<lparr>heap := (heap w)(self := f (heap w self))\<rparr>"

text \<open>\<^verbatim>\<open>calculate_trade_price\<close>; \<^verbatim>\<open>self.last_bar\<close> is \<^verbatim>\<open>None\<close> before the first bar.\<close>

definition calculate_trade_price :: "Direction \<Rightarrow> real \<Rightarrow> 'am TurtleSignal \<Rightarrow> error + real" where
  "calculate_trade_price dir p s =
     (case last_bar s of
        None \<Rightarrow> Inl (AttributeError ''open'')
      | Some bar \<Rightarrow>
          if dir = LONG then Inr (max (open_bar bar) p)
          else Inr (min (open_bar bar) p))"

text \<open>\<^verbatim>\<open>TurtleSignal.open\<close>.\<close>

definition open_signal ::
  "nat \<Rightarrow> real \<Rightarrow> int \<Rightarrow> 'am TurtlePortfolio \<Rightarrow> (unit, 'am TurtlePortfolio) result" where
  "open_signal self p change w =
     (let w = upd_signal self (\<lambda>s. s\<lparr>unit := unit s + change\<rparr>) w;
          w = (if last_result (heap w self) = None
               then upd_signal self (\<lambda>s. s\<lparr>last_result := Some TurtleResult_init\<rparr>) w
               else w)
      in case last_result (heap w self) of
           None \<Rightarrow> Raise (AttributeError ''open'') w
         | Some r \<Rightarrow>
            (case open_r p change r of
               Raise e r' \<Rightarrow> Raise e (upd_signal self (\<lambda>s. s\<lparr>last_result := Some r'\<rparr>) w)
             | Return _ r' \<Rightarrow>
                 Return () (upd_signal self (\<lambda>s. s\<lparr>last_result := Some r'\<rparr>) w)))"

text \<open>\<^verbatim>\<open>TurtleSignal.close\<close>.\<close>

definition close_signal ::
  "nat \<Rightarrow> real \<Rightarrow> 'am TurtlePortfolio \<Rightarrow> (unit, 'am TurtlePortfolio) result" where
  "close_signal self p w =
     (let w = upd_signal self (\<lambda>s. s\<lparr>unit := 0\<rparr>) w
      in case last_result (heap w self) of
           None \<Rightarrow> Raise (AttributeError ''close'') w
         | Some r \<Rightarrow>
             Return ()
               (upd_signal self
                  (\<lambda>s. s\<lparr>results := results s @ [close_r p r], last_result := None\<rparr>) w))"

text \<open>\<^verbatim>\<open>buy\<close>, \<^verbatim>\<open>sell\<close>, \<^verbatim>\<open>short\<close> and \<^verbatim>\<open>cover\<close>.\<close>

definition buy ::
  "nat \<Rightarrow> real \<Rightarrow> int \<Rightarrow> 'am TurtlePortfolio \<Rightarrow> (unit, 'am TurtlePortfolio) result" where
  "buy self p vol w =
     (case calculate_trade_price LONG p (heap w self) of
        Inl e \<Rightarrow> Raise e w
      | Inr p \<Rightarrow>
          and_then (open_signal self p vol w) (\<lambda>_ w.
          and_then (new_signal self LONG OPEN p vol w) (\<lambda>_ w.
            Return ()
              (upd_signal self (\<lambda>s. s\<lparr>long_stop := p - atr_volatility s * 2\<rparr>) w))))"

definition sell ::
  "nat \<Rightarrow> real \<Rightarrow> 'am TurtlePortfolio \<Rightarrow> (unit, 'am TurtlePortfolio) result" where
  "sell self p w =
     (case calculate_trade_price SHORT p (heap w self) of
        Inl e \<Rightarrow> Raise e w
      | Inr p \<Rightarrow>
          (let vol = \<bar>unit (heap w self)\<bar> in
           and_then (close_signal self p w) (\<lambda>_ w.
             new_signal self SHORT CLOSE p vol w)))"

definition short ::
  "nat \<Rightarrow> real \<Rightarrow> int \<Rightarrow> 'am TurtlePortfolio \<Rightarrow> (unit, 'am TurtlePortfolio) result" where
  "short self p vol w =
     (case calculate_trade_price SHORT p (heap w self) of
        Inl e \<Rightarrow> Raise e w
      | Inr p \<Rightarrow>
          and_then (open_signal self p (- vol) w) (\<lambda>_ w.
          and_then (new_signal self SHORT OPEN p vol w) (\<lambda>_ w.
            Return ()
              (upd_signal self (\<lambda>s. s\<lparr>short_stop := p + atr_volatility s * 2\<rparr>) w))))"

definition cover ::
  "nat \<Rightarrow> real \<Rightarrow> 'am TurtlePortfolio \<Rightarrow> (unit, 'am TurtlePortfolio) result" where
  "cover self p w =
     (case calculate_trade_price LONG p (heap w self) of
        Inl e \<Rightarrow> Raise e w
      | Inr p \<Rightarrow>
          (let vol = \<bar>unit (heap w self)\<bar> in
           and_then (close_signal self p w) (\<lambda>_ w.
             new_signal self LONG CLOSE p vol w)))"

text \<open>
  One of the four \<^verbatim>\<open>if\<close> statements of the long block of \<^verbatim>\<open>generate_signal\<close>,
  for the entry level \<open>level\<close> with its index \<open>k\<close>; the flag \<open>trade\<close> is passed along.
  The statements follow each other (they are not \<^verbatim>\<open>elif\<close>), and each reads
  \<^verbatim>\<open>self.unit\<close> afresh.
\<close>

definition long_entry ::
  "nat \<Rightarrow> BarData \<Rightarrow> ('am TurtleSignal \<Rightarrow> real) \<Rightarrow> int \<Rightarrow> bool \<Rightarrow> 'am TurtlePortfolio
     \<Rightarrow> (bool, 'am TurtlePortfolio) result" where
  "long_entry self bar level k trade w =
     (if high bar \<ge> level (heap w self) \<and> unit (heap w self) < k then
        and_then (buy self (level (heap w self)) 1 w) (\<lambda>_ w. Return True w)
      else Return trade w)"

text \<open>The same for the short block, which keeps no flag.\<close>

definition short_entry ::
  "nat \<Rightarrow> BarData \<Rightarrow> ('am TurtleSignal \<Rightarrow> real) \<Rightarrow> int \<Rightarrow> 'am TurtlePortfolio
     \<Rightarrow> (unit, 'am TurtlePortfolio) result" where
  "short_entry self bar level k w =
     (if low bar \<le> level (heap w self) \<and> unit (heap w self) > - k then
        short self (level (heap w self)) 1 w
      else Return () w)"

text \<open>\<^verbatim>\<open>TurtleSignal.generate_signal\<close>.\<close>

definition generate_signal ::
  "nat \<Rightarrow> BarData \<Rightarrow> 'am TurtlePortfolio \<Rightarrow> (unit, 'am TurtlePortfolio) result" where
  "generate_signal self bar w =
     (let s = heap w self in
      if long_entry_1 s = 0 then Return () w
      else if unit s > 0 \<and> low bar \<le> max (long_stop s) (exit_down s) then
        sell self (max (long_stop s) (exit_down s)) w
      else if unit s < 0 \<and> high bar \<ge> min (short_stop s) (exit_up s) then
        cover self (min (short_stop s) (exit_up s)) w
      else
        and_then
          (if unit s \<ge> 0 then
             and_then (long_entry self bar long_entry_1 1 False w) (\<lambda>trade w.
             and_then (long_entry self bar long_entry_2 2 trade w) (\<lambda>trade w.
             and_then (long_entry self bar long_entry_3 3 trade w) (\<lambda>trade w.
               long_entry self bar long_entry_4 4 trade w)))
           else Return False w)
          (\<lambda>trade w.
             if trade then Return () w
             else if unit (heap w self) \<le> 0 then
               and_then (short_entry self bar short_entry_1 1 w) (\<lambda>_ w.
               and_then (short_entry self bar short_entry_2 2 w) (\<lambda>_ w.
               and_then (short_entry self bar short_entry_3 3 w) (\<lambda>_ w.
                 short_entry self bar short_entry_4 4 w)))
             else Return () w))"

text \<open>\<^verbatim>\<open>TurtleSignal.calculate_indicator\<close>.\<close>

definition calculate_indicator :: "'am ArrayManager \<Rightarrow> 'am TurtleSignal \<Rightarrow> 'am TurtleSignal" where
  "calculate_indicator AM s =
     (let s = s\<lparr>entry_up := fst (donchian AM (am s) (entry_window s)),
                entry_down := snd (donchian AM (am s) (entry_window s))\<rparr>;
          s = s\<lparr>exit_up := fst (donchian AM (am s) (exit_window s)),
                exit_down := snd (donchian AM (am s) (exit_window s))\<rparr>
      in if unit s = 0 then
           (let s = s\<lparr>atr_volatility := atr AM (am s) (atr_window s)\<rparr>
            in s\<lparr>long_entry_1 := entry_up s,
                 long_entry_2 := entry_up s + atr_volatility s * 0.5,
                 long_entry_3 := entry_up s + atr_volatility s * 1,
                 long_entry_4 := entry_up s + atr_volatility s * 1.5,
                 long_stop := 0,
                 short_entry_1 := entry_down s,
                 short_entry_2 := entry_down s - atr_volatility s * 0.5,
                 short_entry_3 := entry_down s - atr_volatility s * 1,
                 short_entry_4 := entry_down s - atr_volatility s * 1.5,
                 short_stop := 0\<rparr>)
         else s)"

text \<open>\<^verbatim>\<open>TurtleSignal.on_bar\<close>.\<close>

definition on_bar ::
  "'am ArrayManager \<Rightarrow> nat \<Rightarrow> BarData \<Rightarrow> 'am TurtlePortfolio
     \<Rightarrow> (unit, 'am TurtlePortfolio) result" where
  "on_bar AM self bar w =
     (let w = upd_signal self (\<lambda>s. s\<lparr>last_bar := Some bar\<rparr>) w;
          w = upd_signal self (\<lambda>s. s\<lparr>am := update_bar AM (am s) bar\<rparr>) w
      in if \<not> inited AM (am (heap w self)) then Return () w
         else
           and_then (generate_signal self bar w) (\<lambda>_ w.
             Return () (upd_signal self (calculate_indicator AM) w)))"

subsection \<open>\<^verbatim>\<open>TurtlePortfolio\<close>: \<^verbatim>\<open>init\<close> and \<^verbatim>\<open>on_bar\<close>\<close>

definition TurtlePortfolio_init :: "'am ArrayManager \<Rightarrow> Engine \<Rightarrow> 'am TurtlePortfolio" where
  "TurtlePortfolio_init AM e =
     \<lparr>engine = e, signals = (\<lambda>_. []), units = [], total_long = 0, total_short = 0,
      trading_signals = Map.empty, sizes = Map.empty, multipliers = Map.empty,
      poses = Map.empty, portfolio_value = 0,
      heap = (\<lambda>_. TurtleSignal_init AM [] 0 0 0 False), next_ref = 0\<rparr>"

text \<open>The body of the loop of \<^verbatim>\<open>init\<close> for one symbol.\<close>

definition init_symbol :: "'am ArrayManager \<Rightarrow> string \<Rightarrow> 'am TurtlePortfolio \<Rightarrow> 'am TurtlePortfolio" where
  "init_symbol AM v w =
     (let signal_1 = next_ref w; signal_2 = next_ref w + 1 in
      w\<lparr>heap := (heap w)(signal_1 := TurtleSignal_init AM v 20 10 20 True,
                          signal_2 := TurtleSignal_init AM v 55 20 20 False),
        next_ref := next_ref w + 2,
        signals := (signals w)(v := signals w v @ [signal_1, signal_2]),
        units := AList.update v 0 (units w),
        poses := (poses w)(v \<mapsto> 0)\<rparr>)"

definition init ::
  "'am ArrayManager \<Rightarrow> real \<Rightarrow> string list \<Rightarrow> (string \<rightharpoonup> int) \<Rightarrow> 'am TurtlePortfolio
     \<Rightarrow> 'am TurtlePortfolio" where
  "init AM pv vt_symbols szs w =
     foldl (\<lambda>w v. init_symbol AM v w) (w\<lparr>portfolio_value := pv, sizes := szs\<rparr>) vt_symbols"

text \<open>The loop of \<^verbatim>\<open>TurtlePortfolio.on_bar\<close> over the signals of the bar's symbol.\<close>

fun on_bar_signals ::
  "'am ArrayManager \<Rightarrow> nat list \<Rightarrow> BarData \<Rightarrow> 'am TurtlePortfolio
     \<Rightarrow> (unit, 'am TurtlePortfolio) result" where
  "on_bar_signals AM [] bar w = Return () w"
| "on_bar_signals AM (signal # rest) bar w =
     and_then (on_bar AM signal bar w) (\<lambda>_ w. on_bar_signals AM rest bar w)"

definition on_bar_portfolio ::
  "'am ArrayManager \<Rightarrow> BarData \<Rightarrow> 'am TurtlePortfolio \<Rightarrow> (unit, 'am TurtlePortfolio) result" where
  "on_bar_portfolio AM bar w = on_bar_signals AM (signals w (vt_symbol_bar bar)) bar w"

text \<open>
  A run: a caller feeds the bars to \<^verbatim>\<open>TurtlePortfolio.on_bar\<close> one after the
  other; an exception ends the run. (This is the sequence of \<^verbatim>\<open>portfolio.on_bar\<close>
  calls alone, not \<^verbatim>\<open>run_backtesting\<close>, which also keeps the daily results.)
\<close>

fun run ::
  "'am ArrayManager \<Rightarrow> BarData list \<Rightarrow> 'am TurtlePortfolio \<Rightarrow> (unit, 'am TurtlePortfolio) result" where
  "run AM [] w = Return () w"
| "run AM (bar # bars) w = and_then (on_bar_portfolio AM bar w) (\<lambda>_ w. run AM bars w)"

subsection \<open>\<^verbatim>\<open>turtle_engine.py\<close>: \<^verbatim>\<open>DailyResult\<close>\<close>

text \<open>
  The attribute names of a \<^verbatim>\<open>DailyResult\<close> object: what \<^verbatim>\<open>__init__\<close> assigns and
  the methods of the class. The names \<^verbatim>\<open>sizes\<close>, \<^verbatim>\<open>slippages\<close>,
  \<^verbatim>\<open>variable_commissions\<close> and \<^verbatim>\<open>fixed_commissions\<close> are attributes of
  \<^verbatim>\<open>BacktestingEngine\<close>, not of \<^verbatim>\<open>DailyResult\<close>.
\<close>

definition DailyResult_attrs :: "string list" where
  "DailyResult_attrs =
     [''date'', ''closes'', ''previousCloseDict'', ''trades'', ''posDict'', ''tradingPnl'',
      ''holdingPnl'', ''totalPnl'', ''commission'', ''slippage'', ''netPnl'', ''tradeCount'',
      ''updateTrade'', ''update_pos'', ''update_bar'', ''update_previous_close'',
      ''calculate_trading_pnl'', ''calculate_holding_pnl'', ''calculate_pnl'']"

text \<open>
  The names bound in the module \<^verbatim>\<open>turtle_engine\<close>: its imports, classes and
  function. \<^verbatim>\<open>Direction\<close> is imported by \<^verbatim>\<open>turtle_strategy\<close> only.
\<close>

definition engine_globals :: "string list" where
  "engine_globals =
     [''DictReader'', ''defaultdict'', ''datetime'', ''np'', ''plt'', ''BarData'',
      ''TurtlePortfolio'', ''BacktestingEngine'', ''TradeData'', ''DailyResult'',
      ''format_number'']"

text \<open>\<^verbatim>\<open>updateTrade\<close>; \<^verbatim>\<open>self.trades\<close> is a \<^verbatim>\<open>defaultdict(list)\<close>.\<close>

definition updateTrade :: "TradeData \<Rightarrow> DailyResult \<Rightarrow> DailyResult" where
  "updateTrade trade d =
     (let l = (case map_of (trades d) (vt_symbol_trade trade) of None \<Rightarrow> [] | Some l \<Rightarrow> l)
      in d\<lparr>trades := AList.update (vt_symbol_trade trade) (l @ [trade]) (trades d),
           tradeCount := tradeCount d + 1\<rparr>)"

text \<open>\<^verbatim>\<open>dict.update\<close> with another dictionary.\<close>

definition dict_update :: "('k \<times> 'v) list \<Rightarrow> ('k \<times> 'v) list \<Rightarrow> ('k \<times> 'v) list" where
  "dict_update d other = foldl (\<lambda>d (k, v). AList.update k v d) d other"

definition update_pos :: "(string \<times> int) list \<Rightarrow> DailyResult \<Rightarrow> DailyResult" where
  "update_pos other d = d\<lparr>posDict := dict_update (posDict d) other\<rparr>"

definition update_bar_d :: "BarData \<Rightarrow> DailyResult \<Rightarrow> DailyResult" where
  "update_bar_d bar d = d\<lparr>closes := AList.update (vt_symbol_bar bar) (close bar) (closes d)\<rparr>"

definition update_previous_close :: "(string \<times> real) list \<Rightarrow> DailyResult \<Rightarrow> DailyResult" where
  "update_previous_close other d =
     d\<lparr>previousCloseDict := dict_update (previousCloseDict d) other\<rparr>"

text \<open>
  \<^verbatim>\<open>calculate_holding_pnl\<close>. The body of the loop looks up the close of the symbol and
  then evaluates \<^verbatim>\<open>self.sizes\<close>; that attribute does not exist, so the first iteration
  raises before it changes anything and the statements after it are never reached.
\<close>

definition calculate_holding_pnl :: "DailyResult \<Rightarrow> (unit, DailyResult) result" where
  "calculate_holding_pnl d =
     (case posDict d of
        [] \<Rightarrow> Return () d
      | (v, pos) # rest \<Rightarrow>
         (case map_of (closes d) v of
            None \<Rightarrow> Raise (KeyError v) d
          | Some close' \<Rightarrow> Raise (AttributeError ''sizes'') d))"

text \<open>
  \<^verbatim>\<open>calculate_trading_pnl\<close>: the same two lookups open the body of its loop over
  \<^verbatim>\<open>self.trades.items()\<close>. (Further down the body also reads \<^verbatim>\<open>self.slippages\<close>,
  \<^verbatim>\<open>self.variable_commissions\<close>, \<^verbatim>\<open>self.fixed_commissions\<close> and the global
  \<^verbatim>\<open>Direction\<close>; none is reached.)
\<close>

definition calculate_trading_pnl :: "DailyResult \<Rightarrow> (unit, DailyResult) result" where
  "calculate_trading_pnl d =
     (case trades d of
        [] \<Rightarrow> Return () d
      | (v, l) # rest \<Rightarrow>
         (case map_of (closes d) v of
            None \<Rightarrow> Raise (KeyError v) d
          | Some close' \<Rightarrow> Raise (AttributeError ''sizes'') d))"

text \<open>\<^verbatim>\<open>calculate_pnl\<close>.\<close>

definition calculate_pnl :: "DailyResult \<Rightarrow> (unit, DailyResult) result" where
  "calculate_pnl d =
     and_then (calculate_holding_pnl d) (\<lambda>_ d.
     and_then (calculate_trading_pnl d) (\<lambda>_ d.
       (let d = d\<lparr>totalPnl := holdingPnl d + tradingPnl d\<rparr>
        in Return () (d\<lparr>netPnl := totalPnl d - commission d - slippage d\<rparr>))))"

subsection \<open>\<^verbatim>\<open>BacktestingEngine.calculate_result\<close>\<close>

text \<open>The first loop: \<^verbatim>\<open>calculate_pnl\<close> on every daily result, in place.\<close>

fun calculate_pnl_all :: "DailyResult list \<Rightarrow> (unit, DailyResult list) result" where
  "calculate_pnl_all [] = Return () []"
| "calculate_pnl_all (d # ds) =
     (case calculate_pnl d of
        Raise e d' \<Rightarrow> Raise e (d' # ds)
      | Return _ d' \<Rightarrow>
         (case calculate_pnl_all ds of
            Raise e ds' \<Rightarrow> Raise e (d' # ds')
          | Return _ ds' \<Rightarrow> Return () (d' # ds')))"

text \<open>
  The daily results on which that loop calls \<^verbatim>\<open>calculate_pnl\<close>, in the order of the
  calls: every element of \<^verbatim>\<open>self.results\<close> up to and including the first on which
  the call raises (the exception leaves the loop).
\<close>

fun calculate_pnl_calls :: "DailyResult list \<Rightarrow> DailyResult list" where
  "calculate_pnl_calls [] = []"
| "calculate_pnl_calls (d # ds) =
     (case calculate_pnl d of
        Raise e d' \<Rightarrow> [d]
      | Return _ d' \<Rightarrow> d # calculate_pnl_calls ds)"

text \<open>The local variables of the second loop.\<close>

record Tally =
  profit_days :: nat
  loss_days :: nat
  end_balance :: real
  highlevel :: real
  total_net_pnl :: real
  total_commission :: real
  total_slippage :: real
  total_trade_count :: int
  netPnlList :: "real list"
  balanceList :: "real list"
  highlevelList :: "real list"
  drawdownList :: "real list"
  ddPercentList :: "real list"
  returnList :: "real list"

definition Tally_init :: "real \<Rightarrow> Tally" where
  "Tally_init pv =
     \<lparr>profit_days = 0, loss_days = 0, end_balance = pv, highlevel = pv,
      total_net_pnl = 0, total_commission = 0, total_slippage = 0, total_trade_count = 0,
      netPnlList = [], balanceList = [], highlevelList = [], drawdownList = [],
      ddPercentList = [], returnList = []\<rparr>"

text \<open>One iteration of the second loop; the two divisions raise on a zero divisor.\<close>

definition tally_step :: "DailyResult \<Rightarrow> Tally \<Rightarrow> error + Tally" where
  "tally_step r t =
     (let t = (if netPnl r > 0 then t\<lparr>profit_days := profit_days t + 1\<rparr>
               else if netPnl r < 0 then t\<lparr>loss_days := loss_days t + 1\<rparr>
               else t);
          t = t\<lparr>netPnlList := netPnlList t @ [netPnl r]\<rparr>;
          prevBalance = end_balance t;
          t = t\<lparr>end_balance := end_balance t + netPnl r\<rparr>;
          t = t\<lparr>balanceList := balanceList t @ [end_balance t]\<rparr>
      in if prevBalance = 0 then Inl ArithmeticError
         else
          (let t = t\<lparr>returnList := returnList t @ [end_balance t / prevBalance - 1]\<rparr>;
               t = t\<lparr>highlevel := max (highlevel t) (end_balance t)\<rparr>;
               t = t\<lparr>highlevelList := highlevelList t @ [highlevel t]\<rparr>;
               drawdown = end_balance t - highlevel t;
               t = t\<lparr>drawdownList := drawdownList t @ [drawdown]\<rparr>
           in if highlevel t = 0 then Inl ArithmeticError
              else
                Inr (t\<lparr>ddPercentList := ddPercentList t @ [drawdown / highlevel t * 100],
                       total_commission := total_commission t + commission r,
                       total_slippage := total_slippage t + slippage r,
                       total_trade_count := total_trade_count t + tradeCount r,
                       total_net_pnl := total_net_pnl t + netPnl r\<rparr>)))"

fun tally_loop :: "DailyResult list \<Rightarrow> Tally \<Rightarrow> error + Tally" where
  "tally_loop [] t = Inr t"
| "tally_loop (r # rs) t =
     (case tally_step r t of Inl e \<Rightarrow> Inl e | Inr t' \<Rightarrow> tally_loop rs t')"

text \<open>\<^verbatim>\<open>np.mean\<close> and \<^verbatim>\<open>np.std\<close> of a list.\<close>

definition np_mean :: "real list \<Rightarrow> real" where
  "np_mean xs = sum_list xs / of_nat (length xs)"

definition np_std :: "real list \<Rightarrow> real" where
  "np_std xs = sqrt (np_mean (map (\<lambda>x. (x - np_mean xs)\<^sup>2) xs))"

text \<open>The values of the two dictionaries \<^verbatim>\<open>calculate_result\<close> returns.\<close>

datatype pyval = Num real | Date nat | Series "real list" | Dates "nat list"

text \<open>
  The statements of \<^verbatim>\<open>calculate_result\<close> after the first loop, on the list of daily
  results; \<open>pv\<close> is \<^verbatim>\<open>self.portfolio_value\<close>.
\<close>

definition summarise ::
  "real \<Rightarrow> real \<Rightarrow> DailyResult list \<Rightarrow> error + (string \<times> pyval) list \<times> (string \<times> pyval) list" where
  "summarise annual_days pv rs =
     (let dates = map date rs in
      if dates = [] then Inl IndexError
      else
       (let start_date = hd dates; end_date = last dates; total_days = length dates in
        case tally_loop rs (Tally_init pv) of
          Inl e \<Rightarrow> Inl e
        | Inr t \<Rightarrow>
           if drawdownList t = [] \<or> ddPercentList t = [] then Inl ValueError
           else if pv = 0 then Inl ArithmeticError
           else
            (let maxDrawdown = Min (set (drawdownList t));
                 maxDdPercent = Min (set (ddPercentList t));
                 totalReturn = (end_balance t / pv - 1) * 100;
                 dailyReturn = np_mean (returnList t) * 100;
                 annualizedReturn = dailyReturn * annual_days;
                 returnStd = np_std (returnList t) * 100;
                 sharpeRatio =
                   (if returnStd \<noteq> 0 then dailyReturn / returnStd * sqrt annual_days else 0)
             in Inr
                 ([(''balance'', Series (balanceList t)),
                   (''return'', Series (returnList t)),
                   (''highLevel'', Num (highlevel t)),
                   (''drawdown'', Series (drawdownList t)),
                   (''ddPercent'', Series (ddPercentList t)),
                   (''date'', Dates dates),
                   (''netPnl'', Series (netPnlList t))],
                  [(''start_date'', Date start_date),
                   (''end_date'', Date end_date),
                   (''total_days'', Num (of_nat total_days)),
                   (''profit_days'', Num (of_nat (profit_days t))),
                   (''loss_days'', Num (of_nat (loss_days t))),
                   (''end_balance'', Num (end_balance t)),
                   (''maxDrawdown'', Num maxDrawdown),
                   (''maxDdPercent'', Num maxDdPercent),
                   (''total_net_pnl'', Num (total_net_pnl t)),
                   (''dailyNetPnl'', Num (total_net_pnl t / of_nat total_days)),
                   (''total_commission'', Num (total_commission t)),
                   (''dailyCommission'', Num (total_commission t / of_nat total_days)),
                   (''total_slippage'', Num (total_slippage t)),
                   (''dailySlippage'', Num (total_slippage t / of_nat total_days)),
                   (''total_trade_count'', Num (of_int (total_trade_count t))),
                   (''dailyTradeCount'', Num (of_int (total_trade_count t) / of_nat total_days)),
                   (''totalReturn'', Num totalReturn),
                   (''annualizedReturn'', Num annualizedReturn),
                   (''dailyReturn'', Num dailyReturn),
                   (''returnStd'', Num returnStd),
                   (''sharpeRatio'', Num sharpeRatio)]))))"

text \<open>
  \<^verbatim>\<open>calculate_result\<close>: it returns the pair \<open>(timeseries, result)\<close>; the daily
  results of the engine are mutated by the first loop.
\<close>

definition calculate_result ::
  "real \<Rightarrow> BacktestingEngine
     \<Rightarrow> ((string \<times> pyval) list \<times> (string \<times> pyval) list, BacktestingEngine) result" where
  "calculate_result annual_days e =
     (case calculate_pnl_all (results_e e) of
        Raise x rs \<Rightarrow> Raise x (e\<lparr>results_e := rs\<rparr>)
      | Return _ rs \<Rightarrow>
         (let e = e\<lparr>results_e := rs\<rparr> in
          case summarise annual_days (portfolio_value_e e) (results_e e) of
            Inl x \<Rightarrow> Raise x e
          | Inr out \<Rightarrow> Return out e))"

subsection \<open>A reference \<^verbatim>\<open>ArrayManager\<close> and bars for concrete runs\<close>

text \<open>
  Modelled from the spec: an \<^verbatim>\<open>ArrayManager\<close> (the class itself is in
  \<^verbatim>\<open>vnpy.trader.utility\<close>, not among the two files), following ``given a finite
  lookback, return high/low of window'' and ``given a lookback, return a volatility
  estimate''. It keeps the bars (newest first), is initialised once \<open>size\<close> bars have
  arrived, takes the Donchian channel as the highest high and lowest low of the last \<open>n\<close>
  bars and the volatility as the mean range of the last \<open>n\<close> bars. The general theorems
  hold for every \<^verbatim>\<open>ArrayManager\<close>; this one only drives the concrete runs.
\<close>

record Window =
  am_size :: nat
  am_bars :: "BarData list"

definition WindowAM :: "Window ArrayManager" where
  "WindowAM =
     \<lparr>new_am = (\<lambda>n. \<lparr>am_size = n, am_bars = []\<rparr>),
      update_bar = (\<lambda>a b. a\<lparr>am_bars := b # am_bars a\<rparr>),
      inited = (\<lambda>a. am_size a \<le> length (am_bars a)),
      donchian = (\<lambda>a n. (Max (set (map high (take n (am_bars a)))),
                          Min (set (map low (take n (am_bars a)))))),
      atr = (\<lambda>a n. sum_list (map (\<lambda>b. high b - low b) (take n (am_bars a))) / of_nat n)\<rparr>"

text \<open>A quiet bar between 95 and 100, and a bar that opens at 99 and rises to 110.\<close>

definition quiet_bar :: BarData where
  "quiet_bar = \<lparr>vt_symbol_bar = ''IF'', open_bar = 97, high = 100, low = 95, close = 97\<rparr>"

definition breakout_bar :: BarData where
  "breakout_bar = \<lparr>vt_symbol_bar = ''IF'', open_bar = 99, high = 110, low = 99, close = 109\<rparr>"

text \<open>
  A portfolio for the single instrument \<^verbatim>\<open>IF\<close> (contract size 10, portfolio value
  10,000,000) on engine \<open>e\<close>.
\<close>

definition portfolio0 :: "Engine \<Rightarrow> Window TurtlePortfolio" where
  "portfolio0 e =
     init WindowAM 10000000 [''IF''] [''IF'' \<mapsto> 10] (TurtlePortfolio_init WindowAM e)"

definition engine0 :: BacktestingEngine where
  "engine0 =
     \<lparr>sizes_e = [''IF'' \<mapsto> 10], priceticks = [''IF'' \<mapsto> 1],
      variable_commissions = [''IF'' \<mapsto> 0], fixed_commissions = [''IF'' \<mapsto> 0],
      slippages = [''IF'' \<mapsto> 0], portfolio_value_e = 10000000, results_e = []\<rparr>"

text \<open>
  The two signals of \<^verbatim>\<open>IF\<close> after \<open>k\<close> quiet bars, before the window is full, and
  the portfolio holding them.
\<close>

definition signal_after :: "nat \<Rightarrow> nat \<Rightarrow> bool \<Rightarrow> nat \<Rightarrow> Window TurtleSignal" where
  "signal_after ew xw pc k =
     (TurtleSignal_init WindowAM ''IF'' ew xw 20 pc)
       \<lparr>am := \<lparr>am_size = 60, am_bars = replicate k quiet_bar\<rparr>,
        last_bar := (if k = 0 then None else Some quiet_bar)\<rparr>"

definition warm :: "nat \<Rightarrow> Engine \<Rightarrow> Window TurtlePortfolio" where
  "warm k e =
     (portfolio0 e)\<lparr>heap := (heap (portfolio0 e))
        (0 := signal_after 20 10 True k, 1 := signal_after 55 20 False k)\<rparr>"

text \<open>
  The signals and the portfolio after 60 quiet bars: the window is full, the channel is
  95 to 100, the volatility is 5 and the entry levels are set.
\<close>

definition ready_signal :: "nat \<Rightarrow> nat \<Rightarrow> bool \<Rightarrow> Window TurtleSignal" where
  "ready_signal ew xw pc =
     (signal_after ew xw pc 60)
       \<lparr>atr_volatility := 5, entry_up := 100, entry_down := 95, exit_up := 100, exit_down := 95,
        long_entry_1 := 100, long_entry_2 := 102.5, long_entry_3 := 105, long_entry_4 := 107.5,
        short_entry_1 := 95, short_entry_2 := 92.5, short_entry_3 := 90, short_entry_4 := 87.5\<rparr>"

definition ready :: "Engine \<Rightarrow> Window TurtlePortfolio" where
  "ready e =
     (portfolio0 e)\<lparr>heap := (heap (portfolio0 e))
        (0 := ready_signal 20 10 True, 1 := ready_signal 55 20 False)\<rparr>"

text \<open>
  Daily results for concrete checks: two days without positions and fills whose holding
  profit is given, and a day with the close of \<^verbatim>\<open>IF\<close> and one fill.
\<close>

definition ledger_up :: DailyResult where
  "ledger_up = (DailyResult_init 1)\<lparr>holdingPnl := 50000\<rparr>"

definition ledger_down :: DailyResult where
  "ledger_down = (DailyResult_init 2)\<lparr>holdingPnl := - 30000\<rparr>"

definition ledger_fill :: DailyResult where
  "ledger_fill =
     updateTrade \<lparr>vt_symbol_trade = ''IF'', direction = LONG, offset = OPEN, price = 100,
                  volume = 2000\<rparr>
       (update_bar_d breakout_bar (DailyResult_init 3))"

subsection \<open>Predicates for the proofs about the unit of a signal\<close>

text \<open>
  The long block relative to the state \<open>w0\<close> at its start: the unit of the signal has not
  fallen and, if it has risen, it is at most 4; the other signals keep their units.
\<close>

definition long_progress :: "nat \<Rightarrow> 'am TurtlePortfolio \<Rightarrow> 'am TurtlePortfolio \<Rightarrow> bool" where
  "long_progress self w0 w =
     (unit (heap w0 self) \<le> unit (heap w self) \<and>
      (unit (heap w self) = unit (heap w0 self) \<or> unit (heap w self) \<le> 4) \<and>
      (\<forall>a. a \<noteq> self \<longrightarrow> unit (heap w a) = unit (heap w0 a)))"

definition short_progress :: "nat \<Rightarrow> 'am TurtlePortfolio \<Rightarrow> 'am TurtlePortfolio \<Rightarrow> bool" where
  "short_progress self w0 w =
     (unit (heap w self) \<le> unit (heap w0 self) \<and>
      (unit (heap w self) = unit (heap w0 self) \<or> - 4 \<le> unit (heap w self)) \<and>
      (\<forall>a. a \<noteq> self \<longrightarrow> unit (heap w a) = unit (heap w0 a)))"

definition long_block_ok ::
  "nat \<Rightarrow> 'am TurtlePortfolio \<Rightarrow> (bool, 'am TurtlePortfolio) result \<Rightarrow> bool" where
  "long_block_ok self w0 r =
     (case r of
        Return trade w \<Rightarrow> (if trade then long_progress self w0 w else w = w0)
      | Raise e w \<Rightarrow> long_progress self w0 w)"

text \<open>How one call of \<^verbatim>\<open>generate_signal\<close> can move the unit of the signal.\<close>

definition unit_move :: "int \<Rightarrow> int \<Rightarrow> bool" where
  "unit_move u u' =
     (u' = u \<or> u' = 0 \<or> (0 \<le> u \<and> u < u' \<and> u' \<le> 4) \<or> (u \<le> 0 \<and> u' < u \<and> - 4 \<le> u'))"

subsection \<open>The ownership invariant of the allocator\<close>

text \<open>
  \<open>exposure w v\<close> is the entry of \<^verbatim>\<open>units\<close> for the instrument (0 if it has none).
  \<open>held_by x u\<close>: the exposure \<open>x\<close> is not zero, has the sign of the unit \<open>u\<close> of a
  signal and is at most as large. \<open>owner_ok w v\<close>: with no trading signal recorded the
  instrument is flat; with one recorded, that signal is a signal of the instrument, the
  order unit of the instrument exists and the exposure is held by the unit of that
  signal. \<open>exclusive w\<close>: this holds for every instrument, and every signal with a
  non-zero unit has its open trade.
\<close>

definition exposure :: "'am TurtlePortfolio \<Rightarrow> string \<Rightarrow> int" where
  "exposure w v = (case map_of (units w) v of None \<Rightarrow> 0 | Some u \<Rightarrow> u)"

definition held_by :: "int \<Rightarrow> int \<Rightarrow> bool" where
  "held_by x u = ((0 < x \<and> x \<le> u) \<or> (u \<le> x \<and> x < 0))"

definition owner_ok :: "'am TurtlePortfolio \<Rightarrow> string \<Rightarrow> bool" where
  "owner_ok w v =
     (case trading_signals w v of
        None \<Rightarrow> exposure w v = 0
      | Some a \<Rightarrow>
          vt_symbol (heap w a) = v \<and> multipliers w v \<noteq> None \<and>
          held_by (exposure w v) (unit (heap w a)))"

definition exclusive :: "'am TurtlePortfolio \<Rightarrow> bool" where
  "exclusive w =
     ((\<forall>v. owner_ok w v) \<and> (\<forall>a. unit (heap w a) \<noteq> 0 \<longrightarrow> last_result (heap w a) \<noteq> None))"

section \<open>Basic facts about the allocator\<close>

lemma and_then_simps [simp]:
  "and_then (Return v s) f = f v s"
  "and_then (Raise e s) f = Raise e s"
  by (simp_all add: and_then_def)

lemma state_of_and_then:
  "state_of (and_then r f) = (case r of Return v s \<Rightarrow> state_of (f v s) | Raise e s \<Rightarrow> s)"
  by (cases r) simp_all

text \<open>The order unit: what \<^verbatim>\<open>new_signal\<close> may change before it filters.\<close>

lemma get_multiplier_Raise:
  "get_multiplier s u w = Raise e w' \<Longrightarrow> w' = w"
  by (auto simp add: get_multiplier_def split: option.splits sum.splits if_splits)

lemma get_multiplier_Return:
  "get_multiplier s u w = Return m w' \<Longrightarrow>
     (u = 0 \<and> w' = w\<lparr>multipliers := (multipliers w)(vt_symbol s \<mapsto> m)\<rparr>) \<or>
     (u \<noteq> 0 \<and> w' = w \<and> multipliers w (vt_symbol s) = Some m)"
  by (auto simp add: get_multiplier_def split: option.splits sum.splits if_splits)

lemma new_signal_cases [case_names nokey nomult reject order_open close_nokey order_close]:
  assumes "map_of (units w) (vt_symbol (heap w self)) = None \<Longrightarrow>
             new_signal self dir off p vol w = Raise (KeyError (vt_symbol (heap w self))) w \<Longrightarrow> P"
    and "\<And>u e. map_of (units w) (vt_symbol (heap w self)) = Some u \<Longrightarrow>
             get_multiplier (heap w self) u w = Raise e w \<Longrightarrow>
             new_signal self dir off p vol w = Raise e w \<Longrightarrow> P"
    and "\<And>u m w1. map_of (units w) (vt_symbol (heap w self)) = Some u \<Longrightarrow>
             get_multiplier (heap w self) u w = Return m w1 \<Longrightarrow>
             filter_signal self dir off vol u w1 = None \<Longrightarrow>
             new_signal self dir off p vol w = Return () w1 \<Longrightarrow> P"
    and "\<And>u m w1 vol'. map_of (units w) (vt_symbol (heap w self)) = Some u \<Longrightarrow>
             get_multiplier (heap w self) u w = Return m w1 \<Longrightarrow>
             filter_signal self dir off vol u w1 = Some vol' \<Longrightarrow> off = OPEN \<Longrightarrow>
             new_signal self dir off p vol w =
               send_order (vt_symbol (heap w self)) dir off p vol' m
                 (w1\<lparr>trading_signals := (trading_signals w1)(vt_symbol (heap w self) \<mapsto> self)\<rparr>) \<Longrightarrow> P"
    and "\<And>u m w1 vol'. map_of (units w) (vt_symbol (heap w self)) = Some u \<Longrightarrow>
             get_multiplier (heap w self) u w = Return m w1 \<Longrightarrow>
             filter_signal self dir off vol u w1 = Some vol' \<Longrightarrow> off = CLOSE \<Longrightarrow>
             trading_signals w1 (vt_symbol (heap w self)) = None \<Longrightarrow>
             new_signal self dir off p vol w = Raise (KeyError (vt_symbol (heap w self))) w1 \<Longrightarrow> P"
    and "\<And>u m w1 vol' c. map_of (units w) (vt_symbol (heap w self)) = Some u \<Longrightarrow>
             get_multiplier (heap w self) u w = Return m w1 \<Longrightarrow>
             filter_signal self dir off vol u w1 = Some vol' \<Longrightarrow> off = CLOSE \<Longrightarrow>
             trading_signals w1 (vt_symbol (heap w self)) = Some c \<Longrightarrow>
             new_signal self dir off p vol w =
               send_order (vt_symbol (heap w self)) dir off p vol' m
                 (w1\<lparr>trading_signals := (trading_signals w1)(vt_symbol (heap w self) := None)\<rparr>) \<Longrightarrow> P"
  shows P
proof (cases "map_of (units w) (vt_symbol (heap w self))")
  case None
  then show ?thesis using assms(1) by (simp add: new_signal_def Let_def)
next
  case (Some u)
  note u = this
  show ?thesis
  proof (cases "get_multiplier (heap w self) u w")
    case (Raise e w')
    then have "w' = w" by (rule get_multiplier_Raise)
    then show ?thesis using assms(2) [of u e] u Raise by (simp add: new_signal_def Let_def)
  next
    case (Return m w1)
    note m = this
    show ?thesis
    proof (cases "filter_signal self dir off vol u w1")
      case None
      then show ?thesis using assms(3) [of u m w1] u m by (simp add: new_signal_def Let_def)
    next
      case (Some vol')
      note f = this
      show ?thesis
      proof (cases off)
        case OPEN
        then show ?thesis using assms(4) [of u m w1 vol'] u m f by (simp add: new_signal_def Let_def)
      next
        case CLOSE
        show ?thesis
        proof (cases "trading_signals w1 (vt_symbol (heap w self))")
          case None
          then show ?thesis using assms(5) [of u m w1 vol'] u m f CLOSE
            by (simp add: new_signal_def Let_def)
        next
          case (Some c)
          then show ?thesis using assms(6) [of u m w1 vol' c] u m f CLOSE
            by (simp add: new_signal_def Let_def)
        qed
      qed
    qed
  qed
qed

lemma send_order_engine:
  "engine w = FillRecorder fs \<Longrightarrow>
   engine (state_of (send_order v dir off p vol m w)) = FillRecorder fs \<or>
   engine (state_of (send_order v dir off p vol m w)) =
     FillRecorder (fs @ [\<lparr>vt_symbol_trade = v, direction = dir, offset = off, price = p, volume = vol * m\<rparr>])"
  by (simp add: send_order_def Let_def split: option.splits prod.splits)

lemma new_signal_engine:
  assumes "engine w = FillRecorder fs"
  shows "engine (state_of (new_signal self dir off p vol w)) = FillRecorder fs \<or>
   (\<exists>t. engine (state_of (new_signal self dir off p vol w)) = FillRecorder (fs @ [t]) \<and>
      direction t = dir \<and> offset t = off \<and> price t = p)"
proof (cases rule: new_signal_cases [of w self dir off p vol])
  case nokey
  then show ?thesis using assms by simp
next
  case (nomult u e)
  then show ?thesis using assms by simp
next
  case (reject u m w1)
  then show ?thesis using assms get_multiplier_Return [of "heap w self" u w m w1] by auto
next
  case (order_open u m w1 vol')
  let ?w2 = "w1\<lparr>trading_signals := (trading_signals w1)(vt_symbol (heap w self) \<mapsto> self)\<rparr>"
  have "engine ?w2 = FillRecorder fs"
    using assms get_multiplier_Return [of "heap w self" u w m w1] order_open by auto
  from send_order_engine [OF this, of "vt_symbol (heap w self)" dir off p vol' m]
  show ?thesis using order_open by auto
next
  case (close_nokey u m w1 vol')
  then show ?thesis using assms get_multiplier_Return [of "heap w self" u w m w1] by auto
next
  case (order_close u m w1 vol' c)
  let ?w2 = "w1\<lparr>trading_signals := (trading_signals w1)(vt_symbol (heap w self) := None)\<rparr>"
  have "engine ?w2 = FillRecorder fs"
    using assms get_multiplier_Return [of "heap w self" u w m w1] order_close by auto
  from send_order_engine [OF this, of "vt_symbol (heap w self)" dir off p vol' m]
  show ?thesis using order_close by auto
qed


lemma send_order_multipliers:
  "multipliers (state_of (send_order v dir off p vol m w)) = multipliers w"
  by (simp add: send_order_def Let_def split: option.splits prod.splits sum.splits)

lemma new_signal_multipliers_frozen:
  assumes "map_of (units w) v \<noteq> Some 0"
  shows "multipliers (state_of (new_signal self dir off p vol w)) v = multipliers w v"
proof (cases rule: new_signal_cases [of w self dir off p vol])
  case nokey
  then show ?thesis by simp
next
  case (nomult u e)
  then show ?thesis by simp
next
  case (reject u m w1)
  then show ?thesis using assms get_multiplier_Return [of "heap w self" u w m w1] by auto
next
  case (order_open u m w1 vol')
  then show ?thesis using assms get_multiplier_Return [of "heap w self" u w m w1]
    by (auto simp add: send_order_multipliers)
next
  case (close_nokey u m w1 vol')
  then show ?thesis using assms get_multiplier_Return [of "heap w self" u w m w1] by auto
next
  case (order_close u m w1 vol' c)
  then show ?thesis using assms get_multiplier_Return [of "heap w self" u w m w1]
    by (auto simp add: send_order_multipliers)
qed

lemma get_multiplier_flat:
  "sizes w (vt_symbol s) = Some sz \<Longrightarrow>
   risk_multiplier (portfolio_value w) (atr_volatility s) sz = Inr m \<Longrightarrow>
   get_multiplier s 0 w = Return m (w\<lparr>multipliers := (multipliers w)(vt_symbol s \<mapsto> m)\<rparr>)"
  by (simp add: get_multiplier_def)

lemma new_signal_multipliers_flat:
  assumes u: "map_of (units w) (vt_symbol (heap w self)) = Some 0"
    and sz: "sizes w (vt_symbol (heap w self)) = Some sz"
    and m: "risk_multiplier (portfolio_value w) (atr_volatility (heap w self)) sz = Inr m"
  shows "multipliers (state_of (new_signal self dir off p vol w)) (vt_symbol (heap w self)) =
     Some m"
proof (cases rule: new_signal_cases [of w self dir off p vol])
  case nokey
  then show ?thesis using u by simp
next
  case (nomult u' e)
  then show ?thesis using u get_multiplier_flat [OF sz m] by simp
next
  case (reject u' m' w1)
  then show ?thesis using u get_multiplier_flat [OF sz m] by auto
next
  case (order_open u' m' w1 vol')
  then show ?thesis using u get_multiplier_flat [OF sz m]
    by (auto simp add: send_order_multipliers)
next
  case (close_nokey u' m' w1 vol')
  then show ?thesis using u get_multiplier_flat [OF sz m] by auto
next
  case (order_close u' m' w1 vol' c)
  then show ?thesis using u get_multiplier_flat [OF sz m]
    by (auto simp add: send_order_multipliers)
qed

lemma new_signal_multipliers_raise:
  assumes u: "map_of (units w) (vt_symbol (heap w self)) = Some 0"
    and sz: "sizes w (vt_symbol (heap w self)) = Some sz"
    and m: "risk_multiplier (portfolio_value w) (atr_volatility (heap w self)) sz = Inl e"
  shows "new_signal self dir off p vol w = Raise e w"
  using assms by (simp add: new_signal_def get_multiplier_def)

lemma py_round_of_int [simp]: "py_round (of_int n) = n"
  by (simp add: py_round_def)

text \<open>
  Rounding to binary64 gives a binary64 number: \<open>double\<close> leaves its own results as
  they are, so a float operand is used unchanged.
\<close>

lemma pow2_powi: "pow2 k = 2 powi k"
  by (simp add: pow2_def power_int_def power_one_over inverse_eq_divide)

lemma pow2_pos [simp]: "0 < pow2 k"
  by (simp add: pow2_powi)

lemma pow2_nonneg [simp]: "0 \<le> pow2 k"
  using pow2_pos [of k] by (simp only: less_imp_le)

lemma pow2_neq_0 [simp]: "pow2 k \<noteq> 0"
  using pow2_pos [of k] by (simp only: less_imp_neq [THEN not_sym] not_False_eq_True)

lemma pow2_add: "pow2 (a + b) = pow2 a * pow2 b"
  by (simp add: pow2_powi power_int_add)

lemma pow2_mono: "a \<le> b \<Longrightarrow> pow2 a \<le> pow2 b"
  by (simp add: pow2_powi power_int_increasing)

lemma pow2_strict_mono: "a < b \<Longrightarrow> pow2 a < pow2 b"
  by (simp add: pow2_powi power_int_strict_increasing)

lemma pow2_nat: "0 \<le> k \<Longrightarrow> pow2 k = of_int (2 ^ nat k)"
  by (simp add: pow2_def)

lemma py_round_near: "\<bar>of_int (py_round t) - t\<bar> \<le> 1 / 2"
  unfolding py_round_def Let_def by (auto; linarith)

lemma exponent_bounds:
  assumes "x \<noteq> 0"
  shows "pow2 (exponent x) \<le> \<bar>x\<bar> \<and> \<bar>x\<bar> < pow2 (exponent x + 1)"
proof (cases "1 \<le> \<bar>x\<bar>")
  case True
  define n where "n = \<lfloor>\<bar>x\<bar>\<rfloor>"
  have n: "0 < n" using True by (simp add: n_def)
  then have b: "1 \<le> bitlen n" by (simp add: bitlen_alt_def)
  from bitlen_bounds [OF n] have lo: "2 ^ nat (bitlen n - 1) \<le> n" and hi: "n < 2 ^ nat (bitlen n)"
    by simp_all
  have e: "exponent x = bitlen n - 1" using True by (simp add: exponent_def n_def)
  have "pow2 (bitlen n - 1) = of_int (2 ^ nat (bitlen n - 1))" using b by (simp add: pow2_nat)
  also have "\<dots> \<le> of_int n" using lo by (simp only: of_int_le_iff)
  also have "\<dots> \<le> \<bar>x\<bar>" by (simp add: n_def)
  finally have 1: "pow2 (exponent x) \<le> \<bar>x\<bar>" using e by simp
  have "n + 1 \<le> 2 ^ nat (bitlen n)" using hi by simp
  then have "real_of_int (n + 1) \<le> of_int (2 ^ nat (bitlen n))" by (simp only: of_int_le_iff)
  moreover have "\<bar>x\<bar> < of_int (n + 1)" unfolding n_def by linarith
  moreover have "pow2 (bitlen n) = of_int (2 ^ nat (bitlen n))" using b by (simp add: pow2_nat)
  ultimately have "\<bar>x\<bar> < pow2 (exponent x + 1)" using e by simp
  then show ?thesis using 1 by simp
next
  case False
  define t where "t = 1 / \<bar>x\<bar>"
  define c where "c = \<lceil>t\<rceil>"
  have x: "0 < \<bar>x\<bar>" "\<bar>x\<bar> < 1" using assms False by simp_all
  then have t1: "1 < t" by (simp add: t_def)
  then have c2: "0 < c - 1" unfolding c_def by linarith
  then have b: "1 \<le> bitlen (c - 1)" by (simp add: bitlen_alt_def)
  from bitlen_bounds [OF c2] have lo: "2 ^ nat (bitlen (c - 1) - 1) \<le> c - 1"
    and hi: "c - 1 < 2 ^ nat (bitlen (c - 1))"
    by simp_all
  define k where "k = bitlen (c - 1)"
  have e: "exponent x = - k" using False by (simp add: exponent_def c_def t_def k_def)
  have "real_of_int (2 ^ nat (k - 1)) \<le> of_int (c - 1)" using lo unfolding k_def by (simp only: of_int_le_iff)
  moreover have "of_int (c - 1) < t" unfolding c_def by linarith
  moreover have "pow2 (k - 1) = of_int (2 ^ nat (k - 1))" using b by (simp add: pow2_nat k_def)
  ultimately have lo': "pow2 (k - 1) < t" by linarith
  have "c \<le> 2 ^ nat k" using hi unfolding k_def by simp
  then have "real_of_int c \<le> of_int (2 ^ nat k)" by (simp only: of_int_le_iff)
  moreover have "t \<le> of_int c" unfolding c_def by linarith
  moreover have "pow2 k = of_int (2 ^ nat k)" using b by (simp add: pow2_nat k_def)
  ultimately have hi': "t \<le> pow2 k" by linarith
  have inv: "pow2 (- j) = 1 / pow2 j" for j
    by (simp add: pow2_powi power_int_minus inverse_eq_divide)
  have "pow2 (- k) \<le> \<bar>x\<bar>"
  proof -
    have "1 / pow2 k \<le> 1 / t" using hi' t1 by (simp add: frac_le)
    then show ?thesis using x by (simp add: inv t_def)
  qed
  moreover have "\<bar>x\<bar> < pow2 (- k + 1)"
  proof -
    have "1 / t < 1 / pow2 (k - 1)" using lo' by (simp add: frac_less2)
    moreover have "pow2 (- k + 1) = 1 / pow2 (k - 1)" using inv [of "k - 1"] by simp
    ultimately show ?thesis using x by (simp add: t_def)
  qed
  ultimately show ?thesis using e by simp
qed

lemma exponent_less:
  assumes "y \<noteq> 0" and "\<bar>y\<bar> < pow2 (e + 1)"
  shows "exponent y \<le> e"
proof (rule ccontr)
  assume "\<not> exponent y \<le> e"
  then have "e + 1 \<le> exponent y" by simp
  then have "pow2 (e + 1) \<le> pow2 (exponent y)" by (rule pow2_mono)
  then show False using exponent_bounds [OF assms(1)] assms(2) by linarith
qed

lemma exponent_unique:
  assumes "pow2 e \<le> \<bar>y\<bar>" and "\<bar>y\<bar> < pow2 (e + 1)"
  shows "exponent y = e"
proof -
  have "0 < pow2 e" by simp
  then have "0 < \<bar>y\<bar>" using assms(1) by linarith
  then have y: "y \<noteq> 0" by simp
  have "exponent y \<le> e" using y assms(2) by (rule exponent_less)
  moreover have "e \<le> exponent y"
  proof (rule ccontr)
    assume "\<not> e \<le> exponent y"
    then have "exponent y + 1 \<le> e" by simp
    then have "pow2 (exponent y + 1) \<le> pow2 e" by (rule pow2_mono)
    then show False using exponent_bounds [OF y] assms(1) by linarith
  qed
  ultimately show ?thesis by simp
qed


lemma pow2_split: "pow2 a = pow2 b * pow2 (a - b)"
proof -
  have "a = b + (a - b)" by simp
  then have "pow2 a = pow2 (b + (a - b))" by (rule arg_cong)
  then show ?thesis by (simp only: pow2_add)
qed

lemma py_round_bound:
  assumes "\<bar>t\<bar> < of_int n"
  shows "\<bar>py_round t\<bar> \<le> n"
proof -
  have "\<bar>real_of_int (py_round t)\<bar> \<le> \<bar>t\<bar> + 1 / 2" using py_round_near [of t] by linarith
  then have "\<bar>real_of_int (py_round t)\<bar> < of_int n + 1 / 2" using assms by linarith
  then have "real_of_int \<bar>py_round t\<bar> < of_int (n + 1)" by simp
  then have "\<bar>py_round t\<bar> < n + 1" by (simp only: of_int_less_iff)
  then show ?thesis by simp
qed

lemma double_multiple:
  assumes "y = of_int k * pow2 (e - 52)" and "y \<noteq> 0" and "- 1022 \<le> e"
    and "\<bar>y\<bar> \<le> pow2 (e + 1)" and "\<bar>y\<bar> < 2 ^ 1024"
  shows "double y = Finite y"
proof -
  define e' where "e' = max (exponent y) (- 1022)"
  have "\<exists>j. y / pow2 (e' - 52) = of_int j"
  proof (cases "\<bar>y\<bar> = pow2 (e + 1)")
    case True
    then have "exponent y = e + 1"
      using exponent_unique [of "e + 1" y] pow2_strict_mono [of "e + 1" "e + 1 + 1"] by simp
    then have e': "e' = e + 1" using assms(3) by (simp add: e'_def)
    have "pow2 (e + 1) = pow2 52 * pow2 (e' - 52)" unfolding e' by (rule pow2_split)
    then have "\<bar>y\<bar> / pow2 (e' - 52) = pow2 52" using True by simp
    then have "\<bar>y / pow2 (e' - 52)\<bar> = of_int (2 ^ 52)" by (simp add: pow2_def)
    then have "y / pow2 (e' - 52) = of_int (2 ^ 52) \<or> y / pow2 (e' - 52) = of_int (- (2 ^ 52))"
      by (simp only: of_int_minus) linarith
    then show ?thesis by blast
  next
    case False
    then have "\<bar>y\<bar> < pow2 (e + 1)" using assms(4) by simp
    then have "exponent y \<le> e" using assms(2) exponent_less by blast
    then have le: "e' \<le> e" using assms(3) by (simp add: e'_def)
    have "pow2 (e - 52) = pow2 (e - e') * pow2 (e - 52 - (e - e'))" by (rule pow2_split)
    then have "pow2 (e - 52) = pow2 (e - e') * pow2 (e' - 52)" by simp
    then have "y / pow2 (e' - 52) = of_int k * pow2 (e - e')" using assms(1) by simp
    also have "\<dots> = of_int (k * 2 ^ nat (e - e'))" using le by (simp add: pow2_nat)
    finally show ?thesis by blast
  qed
  then obtain j where j: "y / pow2 (e' - 52) = of_int j" by blast
  have "y / pow2 (e' - 52) * pow2 (e' - 52) = y" by simp
  then have "of_int (py_round (y / pow2 (e' - 52))) * pow2 (e' - 52) = y"
    unfolding j by (simp only: py_round_of_int)
  then show ?thesis using assms(2,5) by (simp add: double_def Let_def e'_def)
qed

lemma double_idem:
  assumes "double x = Finite y"
  shows "double y = Finite y"
proof (cases "y = 0")
  case True
  then show ?thesis by (simp add: double_def)
next
  case False
  then have x: "x \<noteq> 0" using assms by (auto simp add: double_def)
  define e where "e = max (exponent x) (- 1022)"
  define k where "k = py_round (x / pow2 (e - 52))"
  have y: "y = of_int k * pow2 (e - 52)" and fin: "\<bar>y\<bar> < 2 ^ 1024"
    using assms x by (auto simp add: double_def Let_def e_def k_def split: if_splits)
  have "\<bar>x\<bar> < pow2 (exponent x + 1)" using exponent_bounds [OF x] by simp
  also have "\<dots> \<le> pow2 (e + 1)" by (rule pow2_mono) (simp add: e_def)
  finally have "\<bar>x\<bar> < pow2 (e + 1)" .
  moreover have s: "pow2 (e + 1) = pow2 53 * pow2 (e - 52)"
    using pow2_split [of "e + 1" 53] by simp
  ultimately have "\<bar>x\<bar> / pow2 (e - 52) < pow2 53" by (simp add: pos_divide_less_eq)
  then have "\<bar>x / pow2 (e - 52)\<bar> < of_int (2 ^ 53)" by (simp add: pow2_def)
  then have "\<bar>k\<bar> \<le> 2 ^ 53" unfolding k_def by (rule py_round_bound)
  then have "real_of_int \<bar>k\<bar> \<le> of_int (2 ^ 53)" by (simp only: of_int_le_iff)
  then have "\<bar>real_of_int k\<bar> \<le> pow2 53" by (simp add: pow2_def)
  then have "\<bar>real_of_int k\<bar> * pow2 (e - 52) \<le> pow2 53 * pow2 (e - 52)"
    by (rule mult_right_mono) simp
  then have "\<bar>y\<bar> \<le> pow2 (e + 1)" unfolding y s by (simp add: abs_mult)
  from double_multiple [OF y False _ this fin] show ?thesis by (simp add: e_def)
qed

lemma to_float_idem:
  assumes "to_float x = Inr (Finite y)"
  shows "to_float y = Inr (Finite y)"
proof -
  from assms have "double x = Finite y"
    by (simp add: to_float_def split: float.splits)
  then have "double y = Finite y" by (rule double_idem)
  then show ?thesis by (simp add: to_float_def)
qed

text \<open>Binary64 numbers met in the concrete runs.\<close>

lemmas float_defs = double_def exponent_def pow2_def py_round_def to_float_def Let_def

lemma double_001: "double 0.01 = Finite (5764607523034235 / 2 ^ 59)"
  by (simp add: float_defs compute_bitlen)

lemma risk_multiplier_2000 [simp]: "risk_multiplier 10000000 5 10 = Inr 2000"
  by (simp add: risk_multiplier_def double_001) (simp add: float_defs compute_bitlen)

lemma risk_multiplier_tie:
  "risk_multiplier 240 (1080863910568919 / 2 ^ 50) 5 = Inr 0"
  by (simp add: risk_multiplier_def double_001) (simp add: float_defs compute_bitlen)

lemma open_signal_engine:
  "engine (state_of (open_signal self p c w)) = engine w"
  by (simp add: open_signal_def upd_signal_def Let_def split: option.splits result.splits)

lemma close_signal_engine:
  "engine (state_of (close_signal self p w)) = engine w"
  by (simp add: close_signal_def upd_signal_def Let_def split: option.splits)

lemma upd_signal_engine [simp]: "engine (upd_signal self f w) = engine w"
  by (simp add: upd_signal_def)

text \<open>
  An order method records at most the one fill of its proposal: the engine after the method
  is the engine before, or the engine after \<^verbatim>\<open>new_signal\<close> called on a state with the
  engine before.
\<close>

lemma open_order_engine:
  fixes w :: "'am TurtlePortfolio"
  shows "\<exists>w1 :: 'am TurtlePortfolio. engine w1 = engine w \<and>
     (engine (state_of
        (and_then (open_signal self P c w) (\<lambda>_ w.
         and_then (new_signal self dir off P vol w) (\<lambda>_ w. Return () (upd_signal self f w))))) = engine w \<or>
      engine (state_of
        (and_then (open_signal self P c w) (\<lambda>_ w.
         and_then (new_signal self dir off P vol w) (\<lambda>_ w. Return () (upd_signal self f w))))) =
        engine (state_of (new_signal self dir off P vol w1)))"
proof (cases "open_signal self P c w")
  case (Raise e w1)
  then show ?thesis using open_signal_engine [of self P c w] by auto
next
  case (Return v w1)
  then have "engine w1 = engine w" using open_signal_engine [of self P c w] by simp
  then show ?thesis using Return
    by (cases "new_signal self dir off P vol w1") (auto intro!: exI [of _ w1])
qed

lemma close_order_engine:
  fixes w :: "'am TurtlePortfolio"
  shows "\<exists>w1 :: 'am TurtlePortfolio. engine w1 = engine w \<and>
     (engine (state_of
        (and_then (close_signal self P w) (\<lambda>_ w. new_signal self dir off P vol w))) = engine w \<or>
      engine (state_of
        (and_then (close_signal self P w) (\<lambda>_ w. new_signal self dir off P vol w))) =
        engine (state_of (new_signal self dir off P vol w1)))"
proof (cases "close_signal self P w")
  case (Raise e w1)
  then show ?thesis using close_signal_engine [of self P w] by auto
next
  case (Return v w1)
  then have "engine w1 = engine w" using close_signal_engine [of self P w] by simp
  then show ?thesis using Return by (auto intro!: exI [of _ w1])
qed

lemma fill_of_order:
  fixes w w' :: "'am TurtlePortfolio"
  assumes "engine w = FillRecorder fs"
    and "\<exists>w1 :: 'am TurtlePortfolio. engine w1 = engine w \<and>
           (engine w' = engine w \<or> engine w' = engine (state_of (new_signal self dir off P vol w1)))"
  shows "engine w' = FillRecorder fs \<or>
     (\<exists>t. engine w' = FillRecorder (fs @ [t]) \<and> direction t = dir \<and> offset t = off \<and> price t = P)"
proof -
  from assms(2) obtain w1 :: "'am TurtlePortfolio" where w1: "engine w1 = engine w"
    and d: "engine w' = engine w \<or> engine w' = engine (state_of (new_signal self dir off P vol w1))"
    by blast
  have "engine w1 = FillRecorder fs" using w1 assms(1) by simp
  from new_signal_engine [OF this, of self dir off P vol] d assms(1)
  show ?thesis by auto
qed

section \<open>Concrete runs\<close>

text \<open>Sixty quiet bars fill the window and leave the portfolio in the state \<open>ready\<close>.\<close>

lemma portfolio0_eq:
  "portfolio0 e =
     \<lparr>engine = e, signals = (\<lambda>_. [])(''IF'' := [0, 1]), units = [(''IF'', 0)],
      total_long = 0, total_short = 0, trading_signals = Map.empty,
      sizes = [''IF'' \<mapsto> 10], multipliers = Map.empty, poses = [''IF'' \<mapsto> 0],
      portfolio_value = 10000000,
      heap = (\<lambda>_. TurtleSignal_init WindowAM [] 0 0 0 False)
        (0 := TurtleSignal_init WindowAM ''IF'' 20 10 20 True,
         1 := TurtleSignal_init WindowAM ''IF'' 55 20 20 False),
      next_ref = 2\<rparr>"
  by (simp add: portfolio0_def init_def init_symbol_def TurtlePortfolio_init_def Let_def)

lemma WindowAM_simps [simp]:
  "new_am WindowAM n = \<lparr>am_size = n, am_bars = []\<rparr>"
  "update_bar WindowAM a b = a\<lparr>am_bars := b # am_bars a\<rparr>"
  "inited WindowAM a = (am_size a \<le> length (am_bars a))"
  "donchian WindowAM a n = (Max (set (map high (take n (am_bars a)))),
                          Min (set (map low (take n (am_bars a)))))"
  "atr WindowAM a n = sum_list (map (\<lambda>b. high b - low b) (take n (am_bars a))) / of_nat n"
  by (simp_all add: WindowAM_def)

lemma warm_0: "warm 0 e = portfolio0 e"
  by (simp add: warm_def signal_after_def portfolio0_eq TurtleSignal_init_def)

lemma warm_step:
  "k < 59 \<Longrightarrow> on_bar_portfolio WindowAM quiet_bar (warm k e) = Return () (warm (Suc k) e)"
  by (simp add: on_bar_portfolio_def on_bar_def upd_signal_def warm_def signal_after_def
      portfolio0_eq TurtleSignal_init_def quiet_bar_def Let_def)

lemma run_warm:
  "k + n \<le> 59 \<Longrightarrow> run WindowAM (replicate n quiet_bar) (warm k e) = Return () (warm (k + n) e)"
proof (induction n arbitrary: k)
  case 0
  then show ?case by simp
next
  case (Suc n)
  then have "k < 59" and "Suc k + n \<le> 59" by simp_all
  then show ?case using Suc.IH [of "Suc k"] by (simp add: warm_step)
qed

lemma replicate_60: "x # replicate 59 x = replicate 60 x"
proof -
  have "replicate (Suc 59) x = x # replicate 59 x" by (rule replicate_Suc)
  then show ?thesis by simp
qed

lemma ready_step:
  "on_bar_portfolio WindowAM quiet_bar (warm 59 e) = Return () (ready e)"
  apply (simp add: on_bar_portfolio_def on_bar_def upd_signal_def warm_def signal_after_def
      portfolio0_eq TurtleSignal_init_def Let_def generate_signal_def calculate_indicator_def
      ready_def ready_signal_def)
  apply (simp add: quiet_bar_def sum_list_replicate replicate_60)
  done

lemma run_append:
  "run AM (xs @ ys) w = and_then (run AM xs w) (\<lambda>_ w. run AM ys w)"
  by (induction xs arbitrary: w) (simp_all add: and_then_def split: result.splits)

lemma run_ready:
  "run WindowAM (replicate 60 quiet_bar @ bars) (portfolio0 e) = run WindowAM bars (ready e)"
proof -
  have "replicate (Suc 59) quiet_bar = replicate 59 quiet_bar @ [quiet_bar]"
    by (simp only: replicate_Suc replicate_append_same)
  then have "replicate 60 quiet_bar = replicate 59 quiet_bar @ [quiet_bar]"
    by simp
  then have "run WindowAM (replicate 60 quiet_bar) (portfolio0 e) = Return () (ready e)"
    using run_warm [of 0 59 e] by (simp add: run_append warm_0 ready_step)
  then show ?thesis by (simp add: run_append)
qed

lemmas exec_defs =
  on_bar_portfolio_def on_bar_def upd_signal_def generate_signal_def calculate_indicator_def
  long_entry_def short_entry_def buy_def short_def sell_def cover_def open_signal_def
  close_signal_def new_signal_def get_multiplier_def filter_signal_def send_order_def
  calculate_trade_price_def open_r_def close_r_def TurtleResult_init_def get_last_pnl_def
  MAX_PRODUCT_POS_def MAX_DIRECTION_POS_def Let_def

lemmas ready_defs = ready_def ready_signal_def signal_after_def portfolio0_eq TurtleSignal_init_def

lemma py_round_numeral [simp]: "py_round (numeral n) = numeral n"
  using py_round_of_int [of "numeral n"] by simp

section \<open>Trade prices\<close>

text \<open>
  Claim C7. A stop or breakout fill is never priced better than the open of the bar:
  \<^verbatim>\<open>calculate_trade_price\<close> gives \<open>max (open, trigger)\<close> for a buy and
  \<open>min (open, trigger)\<close> for a sell, and the fill that \<^verbatim>\<open>buy\<close>, \<^verbatim>\<open>cover\<close>,
  \<^verbatim>\<open>sell\<close> and \<^verbatim>\<open>short\<close> hand to the engine (if the allocator lets the order
  through) carries exactly that price. \<open>bar\<close> is the bar \<^verbatim>\<open>on_bar\<close> stored in
  \<^verbatim>\<open>last_bar\<close>; the fills are read off a recording engine.
\<close>

theorem trade_price_realism:
  assumes bar: "last_bar (heap w self) = Some bar"
    and e: "engine w = FillRecorder fs"
  shows
   "calculate_trade_price LONG p (heap w self) = Inr (max (open_bar bar) p) \<and>
    calculate_trade_price SHORT p (heap w self) = Inr (min (open_bar bar) p) \<and>
    (engine (state_of (buy self p vol w)) = FillRecorder fs \<or>
       (\<exists>t. engine (state_of (buy self p vol w)) = FillRecorder (fs @ [t]) \<and>
            direction t = LONG \<and> price t = max (open_bar bar) p \<and> open_bar bar \<le> price t)) \<and>
    (engine (state_of (cover self p w)) = FillRecorder fs \<or>
       (\<exists>t. engine (state_of (cover self p w)) = FillRecorder (fs @ [t]) \<and>
            direction t = LONG \<and> price t = max (open_bar bar) p \<and> open_bar bar \<le> price t)) \<and>
    (engine (state_of (sell self p w)) = FillRecorder fs \<or>
       (\<exists>t. engine (state_of (sell self p w)) = FillRecorder (fs @ [t]) \<and>
            direction t = SHORT \<and> price t = min (open_bar bar) p \<and> price t \<le> open_bar bar)) \<and>
    (engine (state_of (short self p vol w)) = FillRecorder fs \<or>
       (\<exists>t. engine (state_of (short self p vol w)) = FillRecorder (fs @ [t]) \<and>
            direction t = SHORT \<and> price t = min (open_bar bar) p \<and> price t \<le> open_bar bar))"
proof -
  have L: "calculate_trade_price LONG p (heap w self) = Inr (max (open_bar bar) p)"
    and S: "calculate_trade_price SHORT p (heap w self) = Inr (min (open_bar bar) p)"
    using bar by (simp_all add: calculate_trade_price_def)
  have b: "engine (state_of (buy self p vol w)) = FillRecorder fs \<or>
       (\<exists>t. engine (state_of (buy self p vol w)) = FillRecorder (fs @ [t]) \<and>
            direction t = LONG \<and> offset t = OPEN \<and> price t = max (open_bar bar) p)"
    unfolding buy_def L sum.case by (rule fill_of_order [OF e open_order_engine])
  have c: "engine (state_of (cover self p w)) = FillRecorder fs \<or>
       (\<exists>t. engine (state_of (cover self p w)) = FillRecorder (fs @ [t]) \<and>
            direction t = LONG \<and> offset t = CLOSE \<and> price t = max (open_bar bar) p)"
    unfolding cover_def L sum.case Let_def by (rule fill_of_order [OF e close_order_engine])
  have s: "engine (state_of (sell self p w)) = FillRecorder fs \<or>
       (\<exists>t. engine (state_of (sell self p w)) = FillRecorder (fs @ [t]) \<and>
            direction t = SHORT \<and> offset t = CLOSE \<and> price t = min (open_bar bar) p)"
    unfolding sell_def S sum.case Let_def by (rule fill_of_order [OF e close_order_engine])
  have t: "engine (state_of (short self p vol w)) = FillRecorder fs \<or>
       (\<exists>t. engine (state_of (short self p vol w)) = FillRecorder (fs @ [t]) \<and>
            direction t = SHORT \<and> offset t = OPEN \<and> price t = min (open_bar bar) p)"
    unfolding short_def S sum.case by (rule fill_of_order [OF e open_order_engine])
  show ?thesis using L S b c s t by auto
qed

theorem trade_price_realism_witness:
  "last_bar (heap (ready (FillRecorder [])) 0) = Some quiet_bar \<and>
   calculate_trade_price LONG 96 (heap (ready (FillRecorder [])) 0) = Inr 97 \<and>
   calculate_trade_price SHORT 98 (heap (ready (FillRecorder [])) 0) = Inr 97 \<and>
   engine (state_of (buy 0 96 1 (ready (FillRecorder [])))) =
     FillRecorder [\<lparr>vt_symbol_trade = ''IF'', direction = LONG, offset = OPEN, price = 97,
                    volume = 2000\<rparr>] \<and>
   max (open_bar quiet_bar) 96 = 97"
proof -
  have b: "last_bar (heap (ready (FillRecorder [])) 0) = Some quiet_bar"
    by (simp add: ready_defs)
  have e: "engine (ready (FillRecorder [])) = FillRecorder []"
    by (simp add: ready_defs)
  have f: "engine (state_of (buy 0 96 1 (ready (FillRecorder [])))) =
     FillRecorder [\<lparr>vt_symbol_trade = ''IF'', direction = LONG, offset = OPEN, price = 97,
                    volume = 2000\<rparr>]"
    by (simp add: exec_defs ready_defs quiet_bar_def)
  show ?thesis
    using trade_price_realism [OF b e, of 96 1] trade_price_realism [OF b e, of 98 1] b f
    by (simp add: quiet_bar_def)
qed

section \<open>The order unit\<close>

text \<open>
  Claim C8. A proposal that arrives while the instrument is flat (\<open>units\<close> holds 0 for
  it) recomputes the order unit as \<open>round (0.01 * portfolio_value / (volatility * size))\<close>,
  the two products and the quotient being the float operations of the code on the
  operands as floats (where the quotient exists and is finite; otherwise the proposal
  raises and nothing has changed); a proposal of any signal leaves the order unit of every
  instrument that is not flat as it was; and with portfolio value 10,000,000, contract
  size 10 and volatility 5 the order unit is 2000. An operand that is a float already
  enters the operations unchanged.
\<close>

theorem size_multiplier:
  "(map_of (units w) (vt_symbol (heap w self)) = Some 0 \<and>
    sizes w (vt_symbol (heap w self)) = Some sz \<and>
    to_float (portfolio_value w) = Inr pv \<and>
    to_float (atr_volatility (heap w self)) = Inr volatility \<and>
    to_float (of_int sz) = Inr contract_size \<and>
    fdiv (fmul pv (double 0.01)) (fmul volatility contract_size) = Inr (Finite q) \<longrightarrow>
      multipliers (state_of (new_signal self dir off p vol w)) (vt_symbol (heap w self)) =
        Some (py_round q))
   \<and> (map_of (units w) (vt_symbol (heap w self)) = Some 0 \<and>
      sizes w (vt_symbol (heap w self)) = Some sz \<and>
      risk_multiplier (portfolio_value w) (atr_volatility (heap w self)) sz = Inl e \<longrightarrow>
      new_signal self dir off p vol w = Raise e w)
   \<and> (map_of (units w) v \<noteq> Some 0 \<longrightarrow>
      multipliers (state_of (new_signal self dir off p vol w)) v = multipliers w v)
   \<and> (map_of (units w) (vt_symbol (heap w self)) = Some 0 \<and>
      sizes w (vt_symbol (heap w self)) = Some 10 \<and>
      atr_volatility (heap w self) = 5 \<and> portfolio_value w = 10000000 \<longrightarrow>
      multipliers (state_of (new_signal self dir off p vol w)) (vt_symbol (heap w self)) =
        Some 2000)
   \<and> (to_float x = Inr (Finite y) \<longrightarrow> to_float y = Inr (Finite y))"
proof (intro conjI impI)
  assume a: "map_of (units w) (vt_symbol (heap w self)) = Some 0 \<and>
    sizes w (vt_symbol (heap w self)) = Some sz \<and>
    to_float (portfolio_value w) = Inr pv \<and>
    to_float (atr_volatility (heap w self)) = Inr volatility \<and>
    to_float (of_int sz) = Inr contract_size \<and>
    fdiv (fmul pv (double 0.01)) (fmul volatility contract_size) = Inr (Finite q)"
  then have "risk_multiplier (portfolio_value w) (atr_volatility (heap w self)) sz =
      Inr (py_round q)"
    by (simp add: risk_multiplier_def)
  from new_signal_multipliers_flat [OF _ _ this, of dir off p vol] a
  show "multipliers (state_of (new_signal self dir off p vol w)) (vt_symbol (heap w self)) =
        Some (py_round q)"
    by simp
next
  assume "map_of (units w) (vt_symbol (heap w self)) = Some 0 \<and>
      sizes w (vt_symbol (heap w self)) = Some sz \<and>
      risk_multiplier (portfolio_value w) (atr_volatility (heap w self)) sz = Inl e"
  then show "new_signal self dir off p vol w = Raise e w"
    using new_signal_multipliers_raise by blast
next
  assume "map_of (units w) v \<noteq> Some 0"
  then show "multipliers (state_of (new_signal self dir off p vol w)) v = multipliers w v"
    by (rule new_signal_multipliers_frozen)
next
  assume a: "map_of (units w) (vt_symbol (heap w self)) = Some 0 \<and>
      sizes w (vt_symbol (heap w self)) = Some 10 \<and>
      atr_volatility (heap w self) = 5 \<and> portfolio_value w = 10000000"
  then have "risk_multiplier (portfolio_value w) (atr_volatility (heap w self)) 10 = Inr 2000"
    by simp
  from new_signal_multipliers_flat [OF _ _ this, of dir off p vol] a
  show "multipliers (state_of (new_signal self dir off p vol w)) (vt_symbol (heap w self)) =
        Some 2000"
    by simp
next
  assume "to_float x = Inr (Finite y)"
  then show "to_float y = Inr (Finite y)" by (rule to_float_idem)
qed

theorem size_multiplier_witness:
  "map_of (units (ready (FillRecorder []))) (vt_symbol (heap (ready (FillRecorder [])) 0)) = Some 0 \<and>
   sizes (ready (FillRecorder [])) ''IF'' = Some 10 \<and>
   atr_volatility (heap (ready (FillRecorder [])) 0) = 5 \<and>
   portfolio_value (ready (FillRecorder [])) = 10000000 \<and>
   to_float 10000000 = Inr (Finite 10000000) \<and>
   to_float 5 = Inr (Finite 5) \<and>
   to_float (of_int 10) = Inr (Finite 10) \<and>
   fdiv (fmul (Finite 10000000) (double 0.01)) (fmul (Finite 5) (Finite 10)) = Inr (Finite 2000) \<and>
   py_round 2000 = 2000 \<and>
   multipliers (state_of (new_signal 0 LONG OPEN 100 1 (ready (FillRecorder [])))) ''IF'' = Some 2000 \<and>
   map_of (units (state_of (new_signal 0 LONG OPEN 100 1 (ready (FillRecorder []))))) ''IF'' = Some 1 \<and>
   multipliers
     (state_of (new_signal 1 SHORT OPEN 90 1
        (state_of (new_signal 0 LONG OPEN 100 1 (ready (FillRecorder [])))))) ''IF'' = Some 2000 \<and>
   risk_multiplier 10000000 0 10 = Inl ArithmeticError \<and>
   new_signal 0 LONG OPEN 100 1
     (upd_signal 0 (\<lambda>s. s\<lparr>atr_volatility := 0\<rparr>) (ready (FillRecorder []))) =
     Raise ArithmeticError (upd_signal 0 (\<lambda>s. s\<lparr>atr_volatility := 0\<rparr>) (ready (FillRecorder []))) \<and>
   to_float (24 / 25) = Inr (Finite (1080863910568919 / 2 ^ 50)) \<and>
   to_float (1080863910568919 / 2 ^ 50) = Inr (Finite (1080863910568919 / 2 ^ 50)) \<and>
   fdiv (fmul (Finite 240) (double 0.01)) (fmul (Finite (1080863910568919 / 2 ^ 50)) (Finite 5)) =
     Inr (Finite (1 / 2)) \<and>
   py_round (1 / 2) = 0 \<and>
   py_round (0.01 * 240 / (1080863910568919 / 2 ^ 50 * 5)) = 1 \<and>
   multipliers
     (state_of (new_signal 0 LONG OPEN 100 1
        ((upd_signal 0 (\<lambda>s. s\<lparr>atr_volatility := 1080863910568919 / 2 ^ 50\<rparr>)
            (ready (FillRecorder [])))
         \<lparr>sizes := [''IF'' \<mapsto> 5], portfolio_value := 240\<rparr>))) ''IF'' = Some 0"
proof -
  let ?w = "ready (FillRecorder [])"
  let ?w1 = "state_of (new_signal 0 LONG OPEN 100 1 ?w)"
  let ?z = "upd_signal 0 (\<lambda>s. s\<lparr>atr_volatility := 0\<rparr>) ?w"
  have v: "vt_symbol (heap ?w 0) = ''IF''" by (simp add: ready_defs)
  have h: "map_of (units ?w) (vt_symbol (heap ?w 0)) = Some 0 \<and>
      sizes ?w (vt_symbol (heap ?w 0)) = Some 10 \<and>
      atr_volatility (heap ?w 0) = 5 \<and> portfolio_value ?w = 10000000"
    by (simp add: ready_defs)
  have f: "to_float 10000000 = Inr (Finite 10000000) \<and> to_float 5 = Inr (Finite 5) \<and>
      to_float (of_int 10) = Inr (Finite 10)"
    by (simp add: float_defs compute_bitlen)
  have q: "fdiv (fmul (Finite 10000000) (double 0.01)) (fmul (Finite 5) (Finite 10)) =
      Inr (Finite 2000)"
    by (simp add: double_001) (simp add: float_defs compute_bitlen)
  have m: "multipliers ?w1 ''IF'' = Some (py_round 2000)"
    using size_multiplier [of ?w 0 10 "Finite 10000000" "Finite 5" "Finite 10" 2000
        LONG OPEN 100 1 ArithmeticError "''IF''"] h v f q
    by simp
  have u: "map_of (units ?w1) ''IF'' = Some 1"
    by (simp add: exec_defs ready_defs update_conv')
  then have "map_of (units ?w1) ''IF'' \<noteq> Some 0" by simp
  then have z: "multipliers (state_of (new_signal 1 SHORT OPEN 90 1 ?w1)) ''IF'' = multipliers ?w1 ''IF''"
    using size_multiplier [of ?w1 1 10 "Finite 10000000" "Finite 5" "Finite 10" 2000
        SHORT OPEN 90 1 ArithmeticError "''IF''"] by blast
  have r0: "risk_multiplier 10000000 0 10 = Inl ArithmeticError"
    by (simp add: risk_multiplier_def double_001) (simp add: float_defs compute_bitlen)
  have h0: "map_of (units ?z) (vt_symbol (heap ?z 0)) = Some 0 \<and>
      sizes ?z (vt_symbol (heap ?z 0)) = Some 10 \<and>
      risk_multiplier (portfolio_value ?z) (atr_volatility (heap ?z 0)) 10 = Inl ArithmeticError"
    using r0 by (simp add: ready_defs upd_signal_def)
  have e: "new_signal 0 LONG OPEN 100 1 ?z = Raise ArithmeticError ?z"
    using size_multiplier [of ?z 0 10 "Finite 10000000" "Finite 5" "Finite 10" 2000
        LONG OPEN 100 1 ArithmeticError "''IF''"] h0
    by blast
  let ?t = "(upd_signal 0 (\<lambda>s. s\<lparr>atr_volatility := 1080863910568919 / 2 ^ 50\<rparr>) ?w)
         \<lparr>sizes := [''IF'' \<mapsto> 5], portfolio_value := 240\<rparr>"
  have lit: "to_float (24 / 25) = Inr (Finite (1080863910568919 / 2 ^ 50))"
    by (simp add: float_defs compute_bitlen)
  then have idem: "to_float (1080863910568919 / 2 ^ 50) = Inr (Finite (1080863910568919 / 2 ^ 50))"
    using size_multiplier [where x = "24 / 25" and y = "1080863910568919 / 2 ^ 50"] by blast
  have "to_float 240 = Inr (Finite 240) \<and> to_float (of_int 5) = Inr (Finite 5)"
    by (simp add: float_defs compute_bitlen)
  then have ft: "to_float 240 = Inr (Finite 240) \<and>
      to_float (1080863910568919 / 2 ^ 50) = Inr (Finite (1080863910568919 / 2 ^ 50)) \<and>
      to_float (of_int 5) = Inr (Finite 5)"
    using idem by blast
  have qt: "fdiv (fmul (Finite 240) (double 0.01))
      (fmul (Finite (1080863910568919 / 2 ^ 50)) (Finite 5)) = Inr (Finite (1 / 2))"
    by (simp add: double_001) (simp add: float_defs compute_bitlen)
  have t1: "portfolio_value ?t = 240" by simp
  have t2: "atr_volatility (heap ?t 0) = 1080863910568919 / 2 ^ 50"
    by (simp add: upd_signal_def)
  have t3: "vt_symbol (heap ?t 0) = ''IF''" by (simp add: ready_defs upd_signal_def)
  have t4: "map_of (units ?t) ''IF'' = Some 0" by (simp add: ready_defs upd_signal_def)
  have t5: "sizes ?t ''IF'' = Some 5" by simp
  have ht: "map_of (units ?t) (vt_symbol (heap ?t 0)) = Some 0 \<and>
      sizes ?t (vt_symbol (heap ?t 0)) = Some 5 \<and>
      to_float (portfolio_value ?t) = Inr (Finite 240) \<and>
      to_float (atr_volatility (heap ?t 0)) = Inr (Finite (1080863910568919 / 2 ^ 50)) \<and>
      to_float (of_int 5) = Inr (Finite 5) \<and>
      fdiv (fmul (Finite 240) (double 0.01))
        (fmul (Finite (1080863910568919 / 2 ^ 50)) (Finite 5)) = Inr (Finite (1 / 2))"
    unfolding t1 t2 t3 using t4 t5 ft qt by blast
  have pt: "py_round (1 / 2) = 0 \<and>
      py_round (0.01 * 240 / (1080863910568919 / 2 ^ 50 * 5)) = 1"
    by (simp add: py_round_def)
  have "multipliers (state_of (new_signal 0 LONG OPEN 100 1 ?t)) (vt_symbol (heap ?t 0)) =
      Some (py_round (1 / 2))"
    using size_multiplier [of ?t 0 5 "Finite 240" "Finite (1080863910568919 / 2 ^ 50)"
        "Finite 5" "1 / 2" LONG OPEN 100 1 ArithmeticError "''IF''"] ht
    by blast
  then have mt: "multipliers (state_of (new_signal 0 LONG OPEN 100 1 ?t)) ''IF'' = Some 0"
    unfolding t3 using pt by simp
  show ?thesis using h v f q m u z r0 e lit idem qt pt mt by simp
qed

section \<open>The daily results\<close>

lemma calculate_holding_pnl_cases:
  "(posDict d = [] \<and> calculate_holding_pnl d = Return () d) \<or>
   (posDict d \<noteq> [] \<and> (\<exists>x. calculate_holding_pnl d = Raise x d))"
  by (auto simp add: calculate_holding_pnl_def split: list.splits option.splits)

lemma calculate_trading_pnl_cases:
  "(trades d = [] \<and> calculate_trading_pnl d = Return () d) \<or>
   (trades d \<noteq> [] \<and> (\<exists>x. calculate_trading_pnl d = Raise x d))"
  by (auto simp add: calculate_trading_pnl_def split: list.splits option.splits)

lemma calculate_pnl_Raise:
  "calculate_pnl d = Raise x d' \<Longrightarrow> d' = d"
  using calculate_holding_pnl_cases [of d] calculate_trading_pnl_cases [of d]
  by (auto simp add: calculate_pnl_def Let_def)

lemma calculate_pnl_Return:
  "calculate_pnl d = Return v d' \<Longrightarrow>
     posDict d = [] \<and> trades d = [] \<and>
     d' = d\<lparr>totalPnl := holdingPnl d + tradingPnl d,
            netPnl := holdingPnl d + tradingPnl d - commission d - slippage d\<rparr>"
  using calculate_holding_pnl_cases [of d] calculate_trading_pnl_cases [of d]
  by (auto simp add: calculate_pnl_def Let_def)

lemma calculate_pnl_empty:
  "posDict d = [] \<Longrightarrow> trades d = [] \<Longrightarrow>
   calculate_pnl d =
     Return () (d\<lparr>totalPnl := holdingPnl d + tradingPnl d,
                  netPnl := holdingPnl d + tradingPnl d - commission d - slippage d\<rparr>)"
  by (simp add: calculate_pnl_def calculate_holding_pnl_def calculate_trading_pnl_def Let_def)

lemma calculate_pnl_trades:
  "trades d \<noteq> [] \<Longrightarrow> \<exists>x. calculate_pnl d = Raise x d"
  using calculate_holding_pnl_cases [of d] calculate_trading_pnl_cases [of d]
  by (auto simp add: calculate_pnl_def Let_def)

lemma calculate_pnl_again:
  "calculate_pnl (state_of (calculate_pnl d)) = calculate_pnl d"
proof (cases "calculate_pnl d")
  case (Return v d')
  from calculate_pnl_Return [OF this] show ?thesis
    using Return by (simp add: calculate_pnl_empty)
next
  case (Raise x d')
  then show ?thesis using calculate_pnl_Raise [OF Raise] by simp
qed

lemma calculate_pnl_all_again:
  "calculate_pnl_all (state_of (calculate_pnl_all ds)) = calculate_pnl_all ds"
proof (induction ds)
  case Nil
  then show ?case by simp
next
  case (Cons d ds)
  show ?case
  proof (cases "calculate_pnl d")
    case (Raise x d')
    then show ?thesis using calculate_pnl_again [of d] by simp
  next
    case (Return v d')
    then have again: "calculate_pnl d' = Return v d'"
      using calculate_pnl_again [of d] by simp
    show ?thesis
    proof (cases "calculate_pnl_all ds")
      case (Return v' ds')
      then show ?thesis using \<open>calculate_pnl d = Return v d'\<close> again Cons.IH by simp
    next
      case (Raise x ds')
      then show ?thesis using \<open>calculate_pnl d = Return v d'\<close> again Cons.IH by simp
    qed
  qed
qed

lemma calculate_pnl_all_raises:
  "\<exists>d\<in>set ds. trades d \<noteq> [] \<Longrightarrow> \<exists>x ds'. calculate_pnl_all ds = Raise x ds'"
proof (induction ds)
  case Nil
  then show ?case by simp
next
  case (Cons d ds)
  show ?case
  proof (cases "calculate_pnl d")
    case (Raise x d')
    then show ?thesis by simp
  next
    case (Return v d')
    then have "trades d = []" using calculate_pnl_Return by blast
    then have "\<exists>d\<in>set ds. trades d \<noteq> []" using Cons.prems by auto
    then obtain x ds' where "calculate_pnl_all ds = Raise x ds'" using Cons.IH by blast
    then show ?thesis using Return by simp
  qed
qed

lemma updateTrade_trades: "trades (updateTrade t d) \<noteq> []"
  by (cases "trades d") (simp_all add: updateTrade_def Let_def)

section \<open>The summary\<close>

lemma tally_step_drawdown:
  assumes "tally_step r t = Inr t'"
  shows "\<exists>x. drawdownList t' = drawdownList t @ [x] \<and> x \<le> 0"
  using assms by (auto simp add: tally_step_def Let_def split: if_splits)

lemma tally_loop_drawdown:
  "tally_loop rs t = Inr t' \<Longrightarrow> \<forall>x\<in>set (drawdownList t). x \<le> 0 \<Longrightarrow>
     \<forall>x\<in>set (drawdownList t'). x \<le> 0"
proof (induction rs arbitrary: t)
  case Nil
  then show ?case by simp
next
  case (Cons r rs)
  from Cons.prems(1) obtain t1 where s: "tally_step r t = Inr t1" and l: "tally_loop rs t1 = Inr t'"
    by (auto split: sum.splits)
  from tally_step_drawdown [OF s] Cons.prems(2) have "\<forall>x\<in>set (drawdownList t1). x \<le> 0"
    by auto
  then show ?case using Cons.IH [OF l] by simp
qed

lemma summarise_drawdown:
  assumes "summarise a pv rs = Inr (ts, res)"
  shows "\<exists>dd. map_of ts ''drawdown'' = Some (Series dd) \<and> dd \<noteq> [] \<and>
           (\<forall>x\<in>set dd. x \<le> 0) \<and>
           map_of res ''maxDrawdown'' = Some (Num (Min (set dd)))"
proof -
  from assms obtain t where t: "tally_loop rs (Tally_init pv) = Inr t"
    by (auto simp add: summarise_def Let_def split: if_splits sum.splits)
  have "\<forall>x\<in>set (drawdownList (Tally_init pv)). x \<le> 0" by (simp add: Tally_init_def)
  from tally_loop_drawdown [OF t this] have neg: "\<forall>x\<in>set (drawdownList t). x \<le> 0" .
  from assms t have "drawdownList t \<noteq> []"
    and "map_of ts ''drawdown'' = Some (Series (drawdownList t))"
    and "map_of res ''maxDrawdown'' = Some (Num (Min (set (drawdownList t))))"
    by (auto simp add: summarise_def Let_def split: if_splits)
  then show ?thesis using neg by blast
qed

text \<open>
  Claim C9. Whenever the summary is produced, the drawdown series is not empty, each of
  its elements is at most 0, and the reported \<^verbatim>\<open>maxDrawdown\<close> is the least element of
  the series. This holds for the second part of \<^verbatim>\<open>calculate_result\<close> on any list of
  daily results (whatever their net profits), and so for \<^verbatim>\<open>calculate_result\<close>.
\<close>

theorem drawdown_series:
  "(summarise a pv rs = Inr (ts, res) \<longrightarrow>
      (\<exists>dd. map_of ts ''drawdown'' = Some (Series dd) \<and> dd \<noteq> [] \<and>
         (\<forall>x\<in>set dd. x \<le> 0) \<and> map_of res ''maxDrawdown'' = Some (Num (Min (set dd))))) \<and>
   (calculate_result a e = Return (ts, res) e' \<longrightarrow>
      (\<exists>dd. map_of ts ''drawdown'' = Some (Series dd) \<and> dd \<noteq> [] \<and>
         (\<forall>x\<in>set dd. x \<le> 0) \<and> map_of res ''maxDrawdown'' = Some (Num (Min (set dd)))))"
proof (intro conjI impI)
  assume "summarise a pv rs = Inr (ts, res)"
  then show "\<exists>dd. map_of ts ''drawdown'' = Some (Series dd) \<and> dd \<noteq> [] \<and>
         (\<forall>x\<in>set dd. x \<le> 0) \<and> map_of res ''maxDrawdown'' = Some (Num (Min (set dd)))"
    by (rule summarise_drawdown)
next
  assume "calculate_result a e = Return (ts, res) e'"
  then obtain rs' where "summarise a (portfolio_value_e e) rs' = Inr (ts, res)"
    by (auto simp add: calculate_result_def Let_def split: result.splits sum.splits)
  then show "\<exists>dd. map_of ts ''drawdown'' = Some (Series dd) \<and> dd \<noteq> [] \<and>
         (\<forall>x\<in>set dd. x \<le> 0) \<and> map_of res ''maxDrawdown'' = Some (Num (Min (set dd)))"
    by (rule summarise_drawdown)
qed

theorem drawdown_series_witness:
  "\<exists>ts res e'.
     calculate_result 240 (engine0\<lparr>results_e := [ledger_up, ledger_down]\<rparr>) = Return (ts, res) e' \<and>
     map_of ts ''drawdown'' = Some (Series [0, - 30000]) \<and>
     map_of res ''maxDrawdown'' = Some (Num (- 30000)) \<and>
     Min (set [0, - 30000 :: real]) = - 30000"
proof -
  let ?e = "engine0\<lparr>results_e := [ledger_up, ledger_down]\<rparr>"
  have p: "calculate_pnl_all [ledger_up, ledger_down] =
      Return () [ledger_up\<lparr>totalPnl := 50000, netPnl := 50000\<rparr>,
                 ledger_down\<lparr>totalPnl := - 30000, netPnl := - 30000\<rparr>]"
    by (simp add: calculate_pnl_empty ledger_up_def ledger_down_def DailyResult_init_def)
  have t: "tally_loop [ledger_up\<lparr>totalPnl := 50000, netPnl := 50000\<rparr>,
                 ledger_down\<lparr>totalPnl := - 30000, netPnl := - 30000\<rparr>] (Tally_init 10000000) =
      Inr \<lparr>profit_days = 1, loss_days = 1, end_balance = 10020000, highlevel = 10050000,
           total_net_pnl = 20000, total_commission = 0, total_slippage = 0,
           total_trade_count = 0, netPnlList = [50000, - 30000],
           balanceList = [10050000, 10020000], highlevelList = [10050000, 10050000],
           drawdownList = [0, - 30000], ddPercentList = [0, - 30000 / 10050000 * 100],
           returnList = [10050000 / 10000000 - 1, 10020000 / 10050000 - 1]\<rparr>"
    by (simp add: tally_step_def Tally_init_def Let_def ledger_up_def ledger_down_def
        DailyResult_init_def)
  have "\<exists>ts res. summarise 240 10000000 [ledger_up\<lparr>totalPnl := 50000, netPnl := 50000\<rparr>,
                 ledger_down\<lparr>totalPnl := - 30000, netPnl := - 30000\<rparr>] = Inr (ts, res) \<and>
          map_of ts ''drawdown'' = Some (Series [0, - 30000])"
    unfolding summarise_def t by (simp add: Let_def)
  then obtain ts res where s: "summarise 240 10000000 [ledger_up\<lparr>totalPnl := 50000, netPnl := 50000\<rparr>,
                 ledger_down\<lparr>totalPnl := - 30000, netPnl := - 30000\<rparr>] = Inr (ts, res)"
    and dd: "map_of ts ''drawdown'' = Some (Series [0, - 30000])" by blast
  have r: "calculate_result 240 ?e = Return (ts, res)
      (?e\<lparr>results_e := [ledger_up\<lparr>totalPnl := 50000, netPnl := 50000\<rparr>,
                 ledger_down\<lparr>totalPnl := - 30000, netPnl := - 30000\<rparr>]\<rparr>)"
    using p s by (simp add: calculate_result_def engine0_def Let_def)
  from drawdown_series [of 240 10000000
      "[ledger_up\<lparr>totalPnl := 50000, netPnl := 50000\<rparr>,
        ledger_down\<lparr>totalPnl := - 30000, netPnl := - 30000\<rparr>]" ts res ?e] s r dd
  have "map_of res ''maxDrawdown'' = Some (Num (Min (set [0, - 30000])))" by auto
  moreover have "Min (set [0, - 30000 :: real]) = - 30000" by simp
  ultimately show ?thesis using r dd by auto
qed

section \<open>Finalising the daily results\<close>

text \<open>
  Claim C10. \<^verbatim>\<open>calculate_pnl\<close> raises on every daily result that holds a fill, and
  changes nothing: after \<^verbatim>\<open>updateTrade\<close> the dictionary of fills is not empty, the
  loop of \<^verbatim>\<open>calculate_trading_pnl\<close> (or already that of
  \<^verbatim>\<open>calculate_holding_pnl\<close>) enters its body, and the body evaluates
  \<^verbatim>\<open>self.sizes\<close>, which no \<^verbatim>\<open>DailyResult\<close> has; with the close of the symbol
  known and no opening position the exception is that \<^verbatim>\<open>AttributeError\<close>. So
  \<^verbatim>\<open>calculate_result\<close> raises as soon as one day has a fill.
\<close>

theorem finalization_fails:
  "(\<exists>x. calculate_pnl (updateTrade t d) = Raise x (updateTrade t d)) \<and>
   (trades d \<noteq> [] \<longrightarrow> (\<exists>x. calculate_pnl d = Raise x d)) \<and>
   (posDict d = [] \<and> trades d = (v, l) # rest \<and> map_of (closes d) v = Some c \<longrightarrow>
      calculate_pnl d = Raise (AttributeError ''sizes'') d) \<and>
   ((\<exists>r\<in>set (results_e e). trades r \<noteq> []) \<longrightarrow> (\<exists>x e'. calculate_result a e = Raise x e')) \<and>
   {''sizes'', ''slippages'', ''variable_commissions'', ''fixed_commissions''} \<inter>
      set DailyResult_attrs = {} \<and>
   ''Direction'' \<notin> set engine_globals"
proof (intro conjI impI)
  show "\<exists>x. calculate_pnl (updateTrade t d) = Raise x (updateTrade t d)"
    using calculate_pnl_trades [OF updateTrade_trades] .
  show "\<exists>x. calculate_pnl d = Raise x d" if "trades d \<noteq> []"
    using that by (rule calculate_pnl_trades)
  show "calculate_pnl d = Raise (AttributeError ''sizes'') d"
    if "posDict d = [] \<and> trades d = (v, l) # rest \<and> map_of (closes d) v = Some c"
    using that
    by (simp add: calculate_pnl_def calculate_holding_pnl_def calculate_trading_pnl_def)
  show "\<exists>x e'. calculate_result a e = Raise x e'" if "\<exists>r\<in>set (results_e e). trades r \<noteq> []"
  proof -
    from calculate_pnl_all_raises [OF that] obtain x rs where
      "calculate_pnl_all (results_e e) = Raise x rs" by blast
    then show ?thesis by (simp add: calculate_result_def)
  qed
  show "{''sizes'', ''slippages'', ''variable_commissions'', ''fixed_commissions''} \<inter>
      set DailyResult_attrs = {}"
    by (simp add: DailyResult_attrs_def)
  show "''Direction'' \<notin> set engine_globals"
    by (simp add: engine_globals_def)
qed

theorem finalization_fails_witness:
  "trades ledger_fill \<noteq> [] \<and>
   calculate_pnl ledger_fill = Raise (AttributeError ''sizes'') ledger_fill \<and>
   calculate_result 240 (engine0\<lparr>results_e := [ledger_fill]\<rparr>) =
     Raise (AttributeError ''sizes'') (engine0\<lparr>results_e := [ledger_fill]\<rparr>)"
proof -
  let ?t = "\<lparr>vt_symbol_trade = ''IF'', direction = LONG, offset = OPEN, price = 100,
                  volume = 2000\<rparr>"
  have l: "posDict ledger_fill = [] \<and> trades ledger_fill = (''IF'', [?t]) # [] \<and>
      map_of (closes ledger_fill) ''IF'' = Some 109"
    by (simp add: ledger_fill_def updateTrade_def update_bar_d_def DailyResult_init_def
        breakout_bar_def Let_def)
  then have n: "trades ledger_fill \<noteq> []" by simp
  have c: "calculate_pnl ledger_fill = Raise (AttributeError ''sizes'') ledger_fill"
    using finalization_fails [of ?t ledger_fill "''IF''" "[?t]" "[]" 109 engine0 240] l by blast
  have "\<exists>r\<in>set (results_e (engine0\<lparr>results_e := [ledger_fill]\<rparr>)). trades r \<noteq> []"
    using n by simp
  then have "\<exists>x e'. calculate_result 240 (engine0\<lparr>results_e := [ledger_fill]\<rparr>) = Raise x e'"
    using finalization_fails [of ?t ledger_fill "''IF''" "[?t]" "[]" 109
        "engine0\<lparr>results_e := [ledger_fill]\<rparr>" 240] by blast
  then have "calculate_result 240 (engine0\<lparr>results_e := [ledger_fill]\<rparr>) =
     Raise (AttributeError ''sizes'') (engine0\<lparr>results_e := [ledger_fill]\<rparr>)"
    using c by (simp add: calculate_result_def)
  then show ?thesis using n c by simp
qed

lemma calculate_pnl_all_calls:
  "state_of (calculate_pnl_all ds) =
     map (\<lambda>d. state_of (calculate_pnl d)) (calculate_pnl_calls ds) @
     drop (length (calculate_pnl_calls ds)) ds"
proof (induction ds)
  case Nil
  then show ?case by simp
next
  case (Cons d ds)
  show ?case
  proof (cases "calculate_pnl d")
    case (Raise x d')
    then show ?thesis by simp
  next
    case (Return v d')
    then show ?thesis using Cons.IH by (cases "calculate_pnl_all ds") simp_all
  qed
qed

lemma calculate_pnl_calls_again:
  "calculate_pnl_calls (state_of (calculate_pnl_all ds)) =
     map (\<lambda>d. state_of (calculate_pnl d)) (calculate_pnl_calls ds)"
proof (induction ds)
  case Nil
  then show ?case by simp
next
  case (Cons d ds)
  show ?case
  proof (cases "calculate_pnl d")
    case (Raise x d')
    then show ?thesis using calculate_pnl_again [of d] by simp
  next
    case (Return v d')
    then have again: "calculate_pnl d' = Return v d'"
      using calculate_pnl_again [of d] by simp
    then show ?thesis using Return Cons.IH by (cases "calculate_pnl_all ds") simp_all
  qed
qed

lemma calculate_pnl_calls_all:
  "calculate_pnl_all ds = Return v ds' \<Longrightarrow> calculate_pnl_calls ds = ds"
proof (induction ds arbitrary: ds')
  case Nil
  then show ?case by simp
next
  case (Cons d ds)
  then show ?case
    by (cases "calculate_pnl d"; cases "calculate_pnl_all ds") simp_all
qed

lemma calculate_result_results:
  "results_e (state_of (calculate_result a e)) = state_of (calculate_pnl_all (results_e e))"
proof (cases "calculate_pnl_all (results_e e)")
  case (Raise x rs)
  then show ?thesis by (simp add: calculate_result_def)
next
  case (Return v rs)
  then show ?thesis
    by (cases "summarise a (portfolio_value_e e) rs") (simp_all add: calculate_result_def Let_def)
qed

lemma calculate_result_first_loop:
  "calculate_result a e = Return out e' \<Longrightarrow> \<exists>v rs. calculate_pnl_all (results_e e) = Return v rs"
  by (cases "calculate_pnl_all (results_e e)") (simp_all add: calculate_result_def)

text \<open>
  Claim C5, as stated, fails: \<^verbatim>\<open>calculate_pnl\<close> is applied to the same daily result
  more than once. On an engine with two days (no positions, no fills, holding profits of
  50000 and -30000) the first \<^verbatim>\<open>calculate_result\<close> returns and has called
  \<^verbatim>\<open>calculate_pnl\<close> on both days; the second \<^verbatim>\<open>calculate_result\<close>, on the
  engine the first one left, calls it on both days again, and each of these calls goes
  through. The two calls of \<^verbatim>\<open>calculate_result\<close> nevertheless give the same.
\<close>

theorem finalization_repeated:
  "raised (calculate_result 240 (engine0\<lparr>results_e := [ledger_up, ledger_down]\<rparr>)) = None \<and>
   calculate_pnl_calls (results_e (engine0\<lparr>results_e := [ledger_up, ledger_down]\<rparr>)) =
     [ledger_up, ledger_down] \<and>
   results_e (state_of (calculate_result 240 (engine0\<lparr>results_e := [ledger_up, ledger_down]\<rparr>))) =
     [ledger_up\<lparr>totalPnl := 50000, netPnl := 50000\<rparr>,
      ledger_down\<lparr>totalPnl := - 30000, netPnl := - 30000\<rparr>] \<and>
   calculate_pnl_calls
     (results_e (state_of (calculate_result 240 (engine0\<lparr>results_e := [ledger_up, ledger_down]\<rparr>)))) =
     [ledger_up\<lparr>totalPnl := 50000, netPnl := 50000\<rparr>,
      ledger_down\<lparr>totalPnl := - 30000, netPnl := - 30000\<rparr>] \<and>
   calculate_pnl (ledger_up\<lparr>totalPnl := 50000, netPnl := 50000\<rparr>) =
     Return () (ledger_up\<lparr>totalPnl := 50000, netPnl := 50000\<rparr>) \<and>
   calculate_pnl (ledger_down\<lparr>totalPnl := - 30000, netPnl := - 30000\<rparr>) =
     Return () (ledger_down\<lparr>totalPnl := - 30000, netPnl := - 30000\<rparr>) \<and>
   raised (calculate_result 240
     (state_of (calculate_result 240 (engine0\<lparr>results_e := [ledger_up, ledger_down]\<rparr>)))) = None"
proof -
  let ?e = "engine0\<lparr>results_e := [ledger_up, ledger_down]\<rparr>"
  let ?u = "ledger_up\<lparr>totalPnl := 50000, netPnl := 50000\<rparr>"
  let ?d = "ledger_down\<lparr>totalPnl := - 30000, netPnl := - 30000\<rparr>"
  have u: "calculate_pnl ledger_up = Return () ?u" and d: "calculate_pnl ledger_down = Return () ?d"
    by (simp_all add: calculate_pnl_empty ledger_up_def ledger_down_def DailyResult_init_def)
  have u': "calculate_pnl ?u = Return () ?u" and d': "calculate_pnl ?d = Return () ?d"
    by (simp_all add: calculate_pnl_empty ledger_up_def ledger_down_def DailyResult_init_def)
  have c: "calculate_pnl_calls (results_e ?e) = [ledger_up, ledger_down]"
    using u d by simp
  have r: "results_e (state_of (calculate_result 240 ?e)) = [?u, ?d]"
    using u d by (simp add: calculate_result_results)
  have c': "calculate_pnl_calls (results_e (state_of (calculate_result 240 ?e))) = [?u, ?d]"
    unfolding r using u' d' by simp
  have t: "tally_loop [?u, ?d] (Tally_init 10000000) =
      Inr \<lparr>profit_days = 1, loss_days = 1, end_balance = 10020000, highlevel = 10050000,
           total_net_pnl = 20000, total_commission = 0, total_slippage = 0,
           total_trade_count = 0, netPnlList = [50000, - 30000],
           balanceList = [10050000, 10020000], highlevelList = [10050000, 10050000],
           drawdownList = [0, - 30000], ddPercentList = [0, - 30000 / 10050000 * 100],
           returnList = [10050000 / 10000000 - 1, 10020000 / 10050000 - 1]\<rparr>"
    by (simp add: tally_step_def Tally_init_def Let_def ledger_up_def ledger_down_def
        DailyResult_init_def)
  have "\<exists>out. summarise 240 10000000 [?u, ?d] = Inr out"
    unfolding summarise_def t by (simp add: Let_def)
  then obtain out where s: "summarise 240 10000000 [?u, ?d] = Inr out" by blast
  have n: "raised (calculate_result 240 ?e) = None"
    using u d s by (simp add: calculate_result_def engine0_def Let_def)
  have e1: "state_of (calculate_result 240 ?e) = ?e\<lparr>results_e := [?u, ?d]\<rparr>"
    using u d s by (simp add: calculate_result_def engine0_def Let_def)
  have n': "raised (calculate_result 240 (state_of (calculate_result 240 ?e))) = None"
    unfolding e1 using u' d' s by (simp add: calculate_result_def engine0_def Let_def)
  show ?thesis using n c r c' u' d' n' by simp
qed

text \<open>
  Claim C5, amended. A second call of \<^verbatim>\<open>calculate_result\<close>, on the engine as the
  first call left it, gives what the first call gave (the same pair of dictionaries, or
  the same exception), although it applies \<^verbatim>\<open>calculate_pnl\<close> once more to every daily
  result the first call applied it to (all of them when the first loop got through): the
  daily results after a call are those \<^verbatim>\<open>calculate_pnl\<close> left, and the second call
  applies it to exactly these. Applying \<^verbatim>\<open>calculate_pnl\<close> again changes nothing and
  gives the same: it returns only on a day without opening positions and fills, where it
  assigns \<^verbatim>\<open>totalPnl\<close> and \<^verbatim>\<open>netPnl\<close> from fields it does not write, and when it
  raises it has changed nothing.
\<close>

theorem calculate_result_twice:
  "calculate_result a (state_of (calculate_result a e)) = calculate_result a e \<and>
   calculate_pnl (state_of (calculate_pnl d)) = calculate_pnl d \<and>
   results_e (state_of (calculate_result a e)) =
     map (\<lambda>d. state_of (calculate_pnl d)) (calculate_pnl_calls (results_e e)) @
     drop (length (calculate_pnl_calls (results_e e))) (results_e e) \<and>
   calculate_pnl_calls (results_e (state_of (calculate_result a e))) =
     map (\<lambda>d. state_of (calculate_pnl d)) (calculate_pnl_calls (results_e e)) \<and>
   (calculate_result a e = Return out e' \<longrightarrow>
      calculate_pnl_calls (results_e e) = results_e e \<and>
      calculate_pnl_calls (results_e e') = results_e e') \<and>
   (calculate_pnl d = Return v d' \<longrightarrow>
      posDict d = [] \<and> trades d = [] \<and>
      d' = d\<lparr>totalPnl := holdingPnl d + tradingPnl d,
             netPnl := holdingPnl d + tradingPnl d - commission d - slippage d\<rparr>) \<and>
   (calculate_pnl d = Raise x d' \<longrightarrow> d' = d)"
proof (intro conjI impI)
  show "calculate_result a (state_of (calculate_result a e)) = calculate_result a e"
  proof (cases "calculate_pnl_all (results_e e)")
    case (Raise x rs)
    then have "calculate_pnl_all rs = Raise x rs"
      using calculate_pnl_all_again [of "results_e e"] by simp
    then show ?thesis using Raise by (simp add: calculate_result_def)
  next
    case (Return v rs)
    then have "calculate_pnl_all rs = Return v rs"
      using calculate_pnl_all_again [of "results_e e"] by simp
    then show ?thesis using Return
      by (cases "summarise a (portfolio_value_e e) rs") (simp_all add: calculate_result_def Let_def)
  qed
  show "calculate_pnl (state_of (calculate_pnl d)) = calculate_pnl d"
    by (rule calculate_pnl_again)
  show "results_e (state_of (calculate_result a e)) =
     map (\<lambda>d. state_of (calculate_pnl d)) (calculate_pnl_calls (results_e e)) @
     drop (length (calculate_pnl_calls (results_e e))) (results_e e)"
    by (simp only: calculate_result_results calculate_pnl_all_calls)
  show "calculate_pnl_calls (results_e (state_of (calculate_result a e))) =
     map (\<lambda>d. state_of (calculate_pnl d)) (calculate_pnl_calls (results_e e))"
    by (simp only: calculate_result_results calculate_pnl_calls_again)
  show "calculate_pnl_calls (results_e e) = results_e e" if "calculate_result a e = Return out e'"
    using calculate_result_first_loop [OF that] calculate_pnl_calls_all by blast
  show "calculate_pnl_calls (results_e e') = results_e e'" if "calculate_result a e = Return out e'"
  proof -
    from calculate_result_first_loop [OF that] obtain v rs where
      r: "calculate_pnl_all (results_e e) = Return v rs" by blast
    then have "calculate_pnl_all rs = Return v rs"
      using calculate_pnl_all_again [of "results_e e"] by simp
    then have "calculate_pnl_calls rs = rs" by (rule calculate_pnl_calls_all)
    moreover have "results_e e' = rs"
      using calculate_result_results [of a e] that r by simp
    ultimately show ?thesis by simp
  qed
  show "posDict d = []" if "calculate_pnl d = Return v d'"
    using calculate_pnl_Return [OF that] by simp
  show "trades d = []" if "calculate_pnl d = Return v d'"
    using calculate_pnl_Return [OF that] by simp
  show "d' = d\<lparr>totalPnl := holdingPnl d + tradingPnl d,
             netPnl := holdingPnl d + tradingPnl d - commission d - slippage d\<rparr>"
    if "calculate_pnl d = Return v d'"
    using calculate_pnl_Return [OF that] by simp
  show "d' = d" if "calculate_pnl d = Raise x d'"
    using that by (rule calculate_pnl_Raise)
qed

theorem calculate_result_twice_witness:
  "calculate_result 240
     (state_of (calculate_result 240 (engine0\<lparr>results_e := [ledger_up, ledger_down]\<rparr>))) =
   calculate_result 240 (engine0\<lparr>results_e := [ledger_up, ledger_down]\<rparr>) \<and>
   calculate_result 240
     (state_of (calculate_result 240 (engine0\<lparr>results_e := [ledger_fill]\<rparr>))) =
   calculate_result 240 (engine0\<lparr>results_e := [ledger_fill]\<rparr>) \<and>
   (\<exists>out e'. calculate_result 240 (engine0\<lparr>results_e := [ledger_up, ledger_down]\<rparr>) =
        Return out e' \<and>
      calculate_pnl_calls [ledger_up, ledger_down] = [ledger_up, ledger_down] \<and>
      calculate_pnl_calls (results_e e') = results_e e' \<and> length (results_e e') = 2) \<and>
   calculate_pnl ledger_up = Return () (ledger_up\<lparr>totalPnl := 50000, netPnl := 50000\<rparr>) \<and>
   posDict ledger_up = [] \<and> trades ledger_up = [] \<and>
   calculate_pnl ledger_fill = Raise (AttributeError ''sizes'') ledger_fill"
proof -
  let ?e = "engine0\<lparr>results_e := [ledger_up, ledger_down]\<rparr>"
  let ?u = "ledger_up\<lparr>totalPnl := 50000, netPnl := 50000\<rparr>"
  let ?d = "ledger_down\<lparr>totalPnl := - 30000, netPnl := - 30000\<rparr>"
  have u: "calculate_pnl ledger_up = Return () ?u" and d: "calculate_pnl ledger_down = Return () ?d"
    by (simp_all add: calculate_pnl_empty ledger_up_def ledger_down_def DailyResult_init_def)
  have f: "calculate_pnl ledger_fill = Raise (AttributeError ''sizes'') ledger_fill"
    by (simp add: calculate_pnl_def calculate_holding_pnl_def calculate_trading_pnl_def
        ledger_fill_def updateTrade_def update_bar_d_def DailyResult_init_def breakout_bar_def
        Let_def)
  have t: "tally_loop [?u, ?d] (Tally_init 10000000) =
      Inr \<lparr>profit_days = 1, loss_days = 1, end_balance = 10020000, highlevel = 10050000,
           total_net_pnl = 20000, total_commission = 0, total_slippage = 0,
           total_trade_count = 0, netPnlList = [50000, - 30000],
           balanceList = [10050000, 10020000], highlevelList = [10050000, 10050000],
           drawdownList = [0, - 30000], ddPercentList = [0, - 30000 / 10050000 * 100],
           returnList = [10050000 / 10000000 - 1, 10020000 / 10050000 - 1]\<rparr>"
    by (simp add: tally_step_def Tally_init_def Let_def ledger_up_def ledger_down_def
        DailyResult_init_def)
  have "\<exists>out. summarise 240 10000000 [?u, ?d] = Inr out"
    unfolding summarise_def t by (simp add: Let_def)
  then obtain out where s: "summarise 240 10000000 [?u, ?d] = Inr out" by blast
  have r: "calculate_result 240 ?e = Return out (?e\<lparr>results_e := [?u, ?d]\<rparr>)"
    using u d s by (simp add: calculate_result_def engine0_def Let_def)
  have "calculate_pnl_calls (results_e ?e) = results_e ?e \<and>
      calculate_pnl_calls (results_e (?e\<lparr>results_e := [?u, ?d]\<rparr>)) =
        results_e (?e\<lparr>results_e := [?u, ?d]\<rparr>)"
    using calculate_result_twice [of 240 ?e ledger_up out "?e\<lparr>results_e := [?u, ?d]\<rparr>" "()" ?u
        "AttributeError ''sizes''"] r
    by blast
  then have c: "\<exists>out e'. calculate_result 240 ?e = Return out e' \<and>
      calculate_pnl_calls [ledger_up, ledger_down] = [ledger_up, ledger_down] \<and>
      calculate_pnl_calls (results_e e') = results_e e' \<and> length (results_e e') = 2"
    using r by auto
  have p: "posDict ledger_up = [] \<and> trades ledger_up = []"
    using calculate_result_twice [of 240 ?e ledger_up out "?e\<lparr>results_e := [?u, ?d]\<rparr>" "()" ?u
        "AttributeError ''sizes''"] u
    by blast
  have a1: "calculate_result 240 (state_of (calculate_result 240 ?e)) = calculate_result 240 ?e"
    using calculate_result_twice [of 240 ?e] by (rule conjunct1)
  have a2: "calculate_result 240
      (state_of (calculate_result 240 (engine0\<lparr>results_e := [ledger_fill]\<rparr>))) =
    calculate_result 240 (engine0\<lparr>results_e := [ledger_fill]\<rparr>)"
    using calculate_result_twice [of 240 "engine0\<lparr>results_e := [ledger_fill]\<rparr>"]
    by (rule conjunct1)
  show ?thesis using a1 a2 c u p f by blast
qed

section \<open>Handing the order to the engine\<close>

lemma send_order_backtesting:
  assumes "engine w = Backtesting e" and "map_of (units w) v = Some u" and "poses w v = Some q"
  shows "\<exists>w'. send_order v dir off p vol m w = Raise (AttributeError ''send_order'') w' \<and>
          map_of (units w') v = Some (u + (if dir = LONG then vol else - vol)) \<and>
          poses w' v = Some (q + (if dir = LONG then vol * m else - (vol * m))) \<and>
          engine w' = engine w"
  using assms
  by (simp add: send_order_def Let_def update_conv' split: prod.splits)

text \<open>
  Claim C6. With the \<^verbatim>\<open>BacktestingEngine\<close> of this repository as the engine,
  \<^verbatim>\<open>send_order\<close> never records a fill: it updates \<open>units\<close>, \<open>poses\<close> and the
  totals and then raises \<^verbatim>\<open>AttributeError\<close>, because the engine has a method
  \<^verbatim>\<open>sendOrder\<close> and no attribute \<^verbatim>\<open>send_order\<close>. The witness is the first
  breakout of a run: the run ends with that exception, one unit booked and no fill.
\<close>

theorem hand_off_fails:
  "(engine w = Backtesting e \<and> map_of (units w) v = Some u \<and> poses w v = Some q \<longrightarrow>
     (\<exists>w'. send_order v dir off p vol m w = Raise (AttributeError ''send_order'') w' \<and>
          map_of (units w') v = Some (u + (if dir = LONG then vol else - vol)) \<and>
          poses w' v = Some (q + (if dir = LONG then vol * m else - (vol * m))) \<and>
          engine w' = engine w)) \<and>
   ''send_order'' \<notin> set BacktestingEngine_attrs \<and> ''sendOrder'' \<in> set BacktestingEngine_attrs"
  using send_order_backtesting [of w e v u q dir off p vol m]
  by (simp add: BacktestingEngine_attrs_def)

theorem hand_off_fails_witness:
  "engine (ready (Backtesting engine0)) = Backtesting engine0 \<and>
   map_of (units (ready (Backtesting engine0))) ''IF'' = Some 0 \<and>
   poses (ready (Backtesting engine0)) ''IF'' = Some 0 \<and>
   raised (send_order ''IF'' LONG OPEN 100 1 2000 (ready (Backtesting engine0))) =
     Some (AttributeError ''send_order'') \<and>
   raised (run WindowAM (replicate 60 quiet_bar @ [breakout_bar]) (portfolio0 (Backtesting engine0))) =
     Some (AttributeError ''send_order'') \<and>
   units (state_of (run WindowAM (replicate 60 quiet_bar @ [breakout_bar])
     (portfolio0 (Backtesting engine0)))) = [(''IF'', 1)] \<and>
   poses (state_of (run WindowAM (replicate 60 quiet_bar @ [breakout_bar])
     (portfolio0 (Backtesting engine0)))) ''IF'' = Some 2000 \<and>
   total_long (state_of (run WindowAM (replicate 60 quiet_bar @ [breakout_bar])
     (portfolio0 (Backtesting engine0)))) = 1 \<and>
   trading_signals (state_of (run WindowAM (replicate 60 quiet_bar @ [breakout_bar])
     (portfolio0 (Backtesting engine0)))) ''IF'' = Some 0 \<and>
   engine (state_of (run WindowAM (replicate 60 quiet_bar @ [breakout_bar])
     (portfolio0 (Backtesting engine0)))) = Backtesting engine0"
  using hand_off_fails [of "ready (Backtesting engine0)" engine0 "''IF''" 0 0 LONG OPEN 100 1 2000]
  unfolding run_ready
  by (simp add: exec_defs ready_defs breakout_bar_def)

section \<open>What the methods do to the signal objects\<close>

lemma and_then_state:
  assumes "P (state_of r)" and "\<And>v s. r = Return v s \<Longrightarrow> P (state_of (f v s))"
  shows "P (state_of (and_then r f))"
  using assms by (cases r) simp_all

lemma send_order_heap: "heap (state_of (send_order v dir off p vol m w)) = heap w"
  by (simp add: send_order_def Let_def split: option.splits prod.splits sum.splits)

lemma new_signal_heap: "heap (state_of (new_signal self dir off p vol w)) = heap w"
proof (cases rule: new_signal_cases [of w self dir off p vol])
  case (reject u m w1)
  then show ?thesis using get_multiplier_Return [of "heap w self" u w m w1] by auto
next
  case (order_open u m w1 vol')
  then show ?thesis using get_multiplier_Return [of "heap w self" u w m w1]
    by (auto simp add: send_order_heap)
next
  case (close_nokey u m w1 vol')
  then show ?thesis using get_multiplier_Return [of "heap w self" u w m w1] by auto
next
  case (order_close u m w1 vol' c)
  then show ?thesis using get_multiplier_Return [of "heap w self" u w m w1]
    by (auto simp add: send_order_heap)
qed simp_all

text \<open>\<^verbatim>\<open>open\<close> adds the change to the unit, whether or not the division raises.\<close>

lemma open_signal_unit:
  "unit (heap (state_of (open_signal self p c w)) a) =
     (if a = self then unit (heap w self) + c else unit (heap w a))"
  by (simp add: open_signal_def upd_signal_def Let_def split: option.splits result.splits)

lemma close_signal_unit:
  "unit (heap (state_of (close_signal self p w)) a) = (if a = self then 0 else unit (heap w a))"
  by (simp add: close_signal_def upd_signal_def Let_def split: option.splits)

lemma open_order_unit:
  "unit (heap (state_of
      (and_then (open_signal self P c w) (\<lambda>_ w.
       and_then (new_signal self dir off P vol w) (\<lambda>_ w. Return () (upd_signal self f w))))) a) =
   (if a = self then unit (f (heap (state_of (new_signal self dir off P vol (state_of (open_signal self P c w)))) self))
    else unit (heap w a)) \<or>
   unit (heap (state_of
      (and_then (open_signal self P c w) (\<lambda>_ w.
       and_then (new_signal self dir off P vol w) (\<lambda>_ w. Return () (upd_signal self f w))))) a) =
   (if a = self then unit (heap w self) + c else unit (heap w a))"
proof (cases "open_signal self P c w")
  case (Raise e w1)
  then show ?thesis using open_signal_unit [of self P c w a] by simp
next
  case (Return v w1)
  note o = this
  show ?thesis
  proof (cases "new_signal self dir off P vol w1")
    case (Raise e w2)
    then show ?thesis using o open_signal_unit [of self P c w a] new_signal_heap [of self dir off P vol w1]
      by simp
  next
    case (Return v' w2)
    then show ?thesis using o open_signal_unit [of self P c w a] new_signal_heap [of self dir off P vol w1]
      by (simp add: upd_signal_def)
  qed
qed

lemma buy_unit:
  "unit (heap (state_of (buy self p vol w)) a) =
     (if a = self \<and> last_bar (heap w self) \<noteq> None then unit (heap w self) + vol
      else unit (heap w a))"
proof (cases "last_bar (heap w self)")
  case None
  then show ?thesis by (simp add: buy_def calculate_trade_price_def)
next
  case (Some bar)
  have "unit (heap (state_of (buy self p vol w)) a) =
      (if a = self then unit (heap w self) + vol else unit (heap w a))"
    using Some
      open_order_unit [of self "max (open_bar bar) p" vol w LONG OPEN vol
        "\<lambda>s. s\<lparr>long_stop := max (open_bar bar) p - atr_volatility s * 2\<rparr>" a]
      open_signal_unit [of self "max (open_bar bar) p" vol w self]
      new_signal_heap [of self LONG OPEN "max (open_bar bar) p" vol
        "state_of (open_signal self (max (open_bar bar) p) vol w)"]
    by (auto simp add: buy_def calculate_trade_price_def)
  then show ?thesis using Some by simp
qed

lemma short_unit:
  "unit (heap (state_of (short self p vol w)) a) =
     (if a = self \<and> last_bar (heap w self) \<noteq> None then unit (heap w self) - vol
      else unit (heap w a))"
proof (cases "last_bar (heap w self)")
  case None
  then show ?thesis by (simp add: short_def calculate_trade_price_def)
next
  case (Some bar)
  have "unit (heap (state_of (short self p vol w)) a) =
      (if a = self then unit (heap w self) - vol else unit (heap w a))"
    using Some
      open_order_unit [of self "min (open_bar bar) p" "- vol" w SHORT OPEN vol
        "\<lambda>s. s\<lparr>short_stop := min (open_bar bar) p + atr_volatility s * 2\<rparr>" a]
      open_signal_unit [of self "min (open_bar bar) p" "- vol" w self]
      new_signal_heap [of self SHORT OPEN "min (open_bar bar) p" vol
        "state_of (open_signal self (min (open_bar bar) p) (- vol) w)"]
    by (auto simp add: short_def calculate_trade_price_def)
  then show ?thesis using Some by simp
qed

lemma close_order_unit:
  "unit (heap (state_of
      (and_then (close_signal self P w) (\<lambda>_ w. new_signal self dir off P vol w))) a) =
   (if a = self then 0 else unit (heap w a))"
proof (cases "close_signal self P w")
  case (Raise e w1)
  then show ?thesis using close_signal_unit [of self P w a] by simp
next
  case (Return v w1)
  then show ?thesis using close_signal_unit [of self P w a] new_signal_heap [of self dir off P vol w1]
    by simp
qed

lemma sell_unit:
  "unit (heap (state_of (sell self p w)) a) =
     (if a = self \<and> last_bar (heap w self) \<noteq> None then 0 else unit (heap w a))"
  by (cases "last_bar (heap w self)")
    (simp_all add: sell_def calculate_trade_price_def Let_def close_order_unit)

lemma cover_unit:
  "unit (heap (state_of (cover self p w)) a) =
     (if a = self \<and> last_bar (heap w self) \<noteq> None then 0 else unit (heap w a))"
  by (cases "last_bar (heap w self)")
    (simp_all add: cover_def calculate_trade_price_def Let_def close_order_unit)

lemma and_then_assoc:
  "and_then (and_then r f) g = and_then r (\<lambda>v s. and_then (f v s) g)"
  by (cases r) simp_all

lemma and_then_inv:
  assumes "P (state_of r)" and "\<And>v s. P s \<Longrightarrow> P (state_of (f v s))"
  shows "P (state_of (and_then r f))"
  using assms by (cases r) simp_all

lemma long_progress_refl: "long_progress self w0 w0"
  by (simp add: long_progress_def)

lemma long_entry_ok:
  assumes "k \<le> 4" and "trade \<longrightarrow> long_progress self w0 w" and "\<not> trade \<longrightarrow> w = w0"
  shows "long_block_ok self w0 (long_entry self bar level k trade w)"
proof -
  have p: "long_progress self w0 w" using assms long_progress_refl by blast
  show ?thesis
  proof (cases "high bar \<ge> level (heap w self) \<and> unit (heap w self) < k")
    case False
    then show ?thesis using assms by (auto simp add: long_entry_def long_block_ok_def)
  next
    case True
    have "long_progress self w0 (state_of (buy self (level (heap w self)) 1 w))"
      using p True assms(1) unfolding long_progress_def by (auto simp add: buy_unit)
    then show ?thesis using True
      by (cases "buy self (level (heap w self)) 1 w") (simp_all add: long_entry_def long_block_ok_def)
  qed
qed

lemma long_block_step:
  assumes "long_block_ok self w0 r" and "k \<le> 4"
  shows "long_block_ok self w0 (and_then r (\<lambda>trade w. long_entry self bar level k trade w))"
proof (cases r)
  case (Raise e w)
  then show ?thesis using assms by (simp add: long_block_ok_def)
next
  case (Return trade w)
  then have "trade \<longrightarrow> long_progress self w0 w" and "\<not> trade \<longrightarrow> w = w0"
    using assms(1) by (auto simp add: long_block_ok_def)
  then show ?thesis using Return long_entry_ok [OF assms(2), of trade self w0 w bar level] by simp
qed

lemma long_block:
  "long_block_ok self w0
     (and_then (long_entry self bar long_entry_1 1 False w0) (\<lambda>trade w.
      and_then (long_entry self bar long_entry_2 2 trade w) (\<lambda>trade w.
      and_then (long_entry self bar long_entry_3 3 trade w) (\<lambda>trade w.
        long_entry self bar long_entry_4 4 trade w))))"
proof -
  have 1: "long_block_ok self w0 (long_entry self bar long_entry_1 1 False w0)"
    by (rule long_entry_ok) simp_all
  have 2: "long_block_ok self w0
     (and_then (long_entry self bar long_entry_1 1 False w0)
        (\<lambda>trade w. long_entry self bar long_entry_2 2 trade w))"
    by (rule long_block_step [OF 1]) simp
  have 3: "long_block_ok self w0
     (and_then (and_then (long_entry self bar long_entry_1 1 False w0)
        (\<lambda>trade w. long_entry self bar long_entry_2 2 trade w))
        (\<lambda>trade w. long_entry self bar long_entry_3 3 trade w))"
    by (rule long_block_step [OF 2]) simp
  have 4: "long_block_ok self w0
     (and_then (and_then (and_then (long_entry self bar long_entry_1 1 False w0)
        (\<lambda>trade w. long_entry self bar long_entry_2 2 trade w))
        (\<lambda>trade w. long_entry self bar long_entry_3 3 trade w))
        (\<lambda>trade w. long_entry self bar long_entry_4 4 trade w))"
    by (rule long_block_step [OF 3]) simp
  then show ?thesis by (simp only: and_then_assoc)
qed

lemma short_entry_ok:
  assumes "k \<le> 4" and "short_progress self w0 w"
  shows "short_progress self w0 (state_of (short_entry self bar level k w))"
  using assms unfolding short_progress_def
  by (auto simp add: short_entry_def short_unit)

lemma short_block:
  "short_progress self w0
     (state_of
       (and_then (short_entry self bar short_entry_1 1 w0) (\<lambda>_ w.
        and_then (short_entry self bar short_entry_2 2 w) (\<lambda>_ w.
        and_then (short_entry self bar short_entry_3 3 w) (\<lambda>_ w.
          short_entry self bar short_entry_4 4 w)))))"
proof -
  have 0: "short_progress self w0 w0" by (simp add: short_progress_def)
  show ?thesis
    by (intro and_then_inv [where P = "short_progress self w0"] short_entry_ok 0) simp_all
qed

lemma generate_signal_unit:
  "unit_move (unit (heap w self)) (unit (heap (state_of (generate_signal self bar w)) self)) \<and>
   (\<forall>a. a \<noteq> self \<longrightarrow> unit (heap (state_of (generate_signal self bar w)) a) = unit (heap w a))"
proof -
  let ?s = "heap w self"
  let ?L = "and_then (long_entry self bar long_entry_1 1 False w) (\<lambda>trade w.
      and_then (long_entry self bar long_entry_2 2 trade w) (\<lambda>trade w.
      and_then (long_entry self bar long_entry_3 3 trade w) (\<lambda>trade w.
        long_entry self bar long_entry_4 4 trade w)))"
  let ?S = "\<lambda>w. and_then (short_entry self bar short_entry_1 1 w) (\<lambda>_ w.
        and_then (short_entry self bar short_entry_2 2 w) (\<lambda>_ w.
        and_then (short_entry self bar short_entry_3 3 w) (\<lambda>_ w.
          short_entry self bar short_entry_4 4 w)))"
  consider (idle) "long_entry_1 ?s = 0"
    | (sell) "long_entry_1 ?s \<noteq> 0" "unit ?s > 0 \<and> low bar \<le> max (long_stop ?s) (exit_down ?s)"
    | (cover) "long_entry_1 ?s \<noteq> 0" "\<not> (unit ?s > 0 \<and> low bar \<le> max (long_stop ?s) (exit_down ?s))"
        "unit ?s < 0 \<and> high bar \<ge> min (short_stop ?s) (exit_up ?s)"
    | (entries) "long_entry_1 ?s \<noteq> 0" "\<not> (unit ?s > 0 \<and> low bar \<le> max (long_stop ?s) (exit_down ?s))"
        "\<not> (unit ?s < 0 \<and> high bar \<ge> min (short_stop ?s) (exit_up ?s))"
    by blast
  then show ?thesis
  proof cases
    case idle
    then show ?thesis by (simp add: generate_signal_def Let_def unit_move_def)
  next
    case sell
    then show ?thesis by (simp add: generate_signal_def Let_def unit_move_def sell_unit)
  next
    case cover
    then show ?thesis by (simp add: generate_signal_def Let_def unit_move_def cover_unit)
  next
    case entries
    show ?thesis
    proof (cases "unit ?s \<ge> 0")
      case False
      then have g: "generate_signal self bar w = ?S w"
        using entries False by (auto simp add: generate_signal_def Let_def)
      have "short_progress self w (state_of (?S w))" by (rule short_block)
      then show ?thesis using False unfolding g short_progress_def unit_move_def by auto
    next
      case True
      have g: "generate_signal self bar w =
          and_then ?L (\<lambda>trade w. if trade then Return () w
             else if unit (heap w self) \<le> 0 then ?S w else Return () w)"
        using entries True by (auto simp add: generate_signal_def Let_def)
      have lb: "long_block_ok self w ?L" by (rule long_block)
      show ?thesis
      proof (cases ?L)
        case (Raise e w')
        then have "long_progress self w w'" using lb by (simp add: long_block_ok_def)
        then show ?thesis using True Raise unfolding g long_progress_def unit_move_def by auto
      next
        case (Return trade w')
        show ?thesis
        proof (cases trade)
          case True
          then have "long_progress self w w'" using lb Return by (simp add: long_block_ok_def)
          then show ?thesis using \<open>unit ?s \<ge> 0\<close> True Return
            unfolding g long_progress_def unit_move_def by auto
        next
          case False
          then have w': "w' = w" using lb Return by (simp add: long_block_ok_def)
          have "short_progress self w (state_of (?S w))" by (rule short_block)
          then show ?thesis using False Return w'
            unfolding g short_progress_def unit_move_def by auto
        qed
      qed
    qed
  qed
qed

lemma calculate_indicator_unit [simp]: "unit (calculate_indicator AM s) = unit s"
  by (simp add: calculate_indicator_def Let_def)

lemma on_bar_unit:
  "unit_move (unit (heap w self)) (unit (heap (state_of (on_bar AM self bar w)) self)) \<and>
   (\<forall>a. a \<noteq> self \<longrightarrow> unit (heap (state_of (on_bar AM self bar w)) a) = unit (heap w a))"
proof -
  let ?w1 = "upd_signal self (\<lambda>s. s\<lparr>am := update_bar AM (am s) bar\<rparr>)
     (upd_signal self (\<lambda>s. s\<lparr>last_bar := Some bar\<rparr>) w)"
  have u: "\<And>a. unit (heap ?w1 a) = unit (heap w a)" by (simp add: upd_signal_def)
  show ?thesis
  proof (cases "inited AM (am (heap ?w1 self))")
    case False
    then show ?thesis using u by (simp add: on_bar_def Let_def unit_move_def)
  next
    case True
    have "state_of (on_bar AM self bar w) = state_of (generate_signal self bar ?w1) \<or>
      state_of (on_bar AM self bar w) =
        upd_signal self (calculate_indicator AM) (state_of (generate_signal self bar ?w1))"
      using True by (cases "generate_signal self bar ?w1") (simp_all add: on_bar_def Let_def)
    then have "\<And>a. unit (heap (state_of (on_bar AM self bar w)) a) =
        unit (heap (state_of (generate_signal self bar ?w1)) a)"
      by (auto simp add: upd_signal_def)
    then show ?thesis using generate_signal_unit [of ?w1 self bar] u by simp
  qed
qed

lemma long_entry_unit:
  "unit (heap (state_of (long_entry self bar level k trade w)) a) =
     (if a = self \<and> high bar \<ge> level (heap w self) \<and> unit (heap w self) < k \<and>
         last_bar (heap w self) \<noteq> None
      then unit (heap w self) + 1 else unit (heap w a))"
  by (cases "buy self (level (heap w self)) 1 w")
    (use buy_unit [of self "level (heap w self)" 1 w a] in \<open>auto simp add: long_entry_def\<close>)

lemma short_entry_unit:
  "unit (heap (state_of (short_entry self bar level k w)) a) =
     (if a = self \<and> low bar \<le> level (heap w self) \<and> unit (heap w self) > - k \<and>
         last_bar (heap w self) \<noteq> None
      then unit (heap w self) - 1 else unit (heap w a))"
  by (simp add: short_entry_def short_unit)

lemma unit_move_bound: "unit_move u u' \<Longrightarrow> \<bar>u\<bar> \<le> 4 \<Longrightarrow> \<bar>u'\<bar> \<le> 4"
  by (auto simp add: unit_move_def)

lemma on_bar_bound:
  assumes "\<forall>a. \<bar>unit (heap w a)\<bar> \<le> 4"
  shows "\<forall>a. \<bar>unit (heap (state_of (on_bar AM self bar w)) a)\<bar> \<le> 4"
proof
  fix a
  show "\<bar>unit (heap (state_of (on_bar AM self bar w)) a)\<bar> \<le> 4"
  proof (cases "a = self")
    case True
    then show ?thesis using on_bar_unit [of w self AM bar] assms unit_move_bound by blast
  next
    case False
    then show ?thesis using on_bar_unit [of w self AM bar] assms by simp
  qed
qed

lemma on_bar_signals_bound:
  "\<forall>a. \<bar>unit (heap w a)\<bar> \<le> 4 \<Longrightarrow>
   \<forall>a. \<bar>unit (heap (state_of (on_bar_signals AM refs bar w)) a)\<bar> \<le> 4"
proof (induction refs arbitrary: w)
  case Nil
  then show ?case by simp
next
  case (Cons r refs)
  have 1: "\<forall>a. \<bar>unit (heap (state_of (on_bar AM r bar w)) a)\<bar> \<le> 4"
    using Cons.prems by (rule on_bar_bound)
  show ?case unfolding on_bar_signals.simps
    by (rule and_then_inv [where P = "\<lambda>w. \<forall>a. \<bar>unit (heap w a)\<bar> \<le> 4", OF 1])
      (rule Cons.IH)
qed

lemma run_bound:
  "\<forall>a. \<bar>unit (heap w a)\<bar> \<le> 4 \<Longrightarrow> \<forall>a. \<bar>unit (heap (state_of (run AM bars w)) a)\<bar> \<le> 4"
proof (induction bars arbitrary: w)
  case Nil
  then show ?case by simp
next
  case (Cons bar bars)
  have 1: "\<forall>a. \<bar>unit (heap (state_of (on_bar_portfolio AM bar w)) a)\<bar> \<le> 4"
    unfolding on_bar_portfolio_def using Cons.prems by (rule on_bar_signals_bound)
  show ?case unfolding run.simps
    by (rule and_then_inv [where P = "\<lambda>w. \<forall>a. \<bar>unit (heap w a)\<bar> \<le> 4", OF 1])
      (rule Cons.IH)
qed

lemma init_symbols_flat:
  "\<forall>a. unit (heap w a) = 0 \<and> last_result (heap w a) = None \<Longrightarrow>
   \<forall>a. unit (heap (foldl (\<lambda>w v. init_symbol AM v w) w vs) a) = 0 \<and>
       last_result (heap (foldl (\<lambda>w v. init_symbol AM v w) w vs) a) = None"
  by (induction vs arbitrary: w) (simp_all add: init_symbol_def TurtleSignal_init_def Let_def)

lemma init_flat:
  "unit (heap (init AM pv vs szs (TurtlePortfolio_init AM e)) a) = 0 \<and>
   last_result (heap (init AM pv vs szs (TurtlePortfolio_init AM e)) a) = None"
  unfolding init_def
  by (rule init_symbols_flat [rule_format])
    (simp add: TurtlePortfolio_init_def TurtleSignal_init_def)

lemma breakout_first_signal:
  "unit (heap (state_of (on_bar WindowAM 0 breakout_bar (ready (FillRecorder [])))) 0) = 4 \<and>
   engine (state_of (on_bar WindowAM 0 breakout_bar (ready (FillRecorder [])))) =
     FillRecorder
       [\<lparr>vt_symbol_trade = ''IF'', direction = LONG, offset = OPEN, price = 100, volume = 2000\<rparr>,
        \<lparr>vt_symbol_trade = ''IF'', direction = LONG, offset = OPEN, price = 102.5, volume = 2000\<rparr>,
        \<lparr>vt_symbol_trade = ''IF'', direction = LONG, offset = OPEN, price = 105, volume = 2000\<rparr>,
        \<lparr>vt_symbol_trade = ''IF'', direction = LONG, offset = OPEN, price = 107.5, volume = 2000\<rparr>]"
  by (simp add: exec_defs ready_defs breakout_bar_def update_conv')

lemma run_quiet:
  "run WindowAM (replicate 60 quiet_bar) (portfolio0 e) = Return () (ready e)"
  using run_ready [of "[]" e] by simp

section \<open>The unit of a signal\<close>

text \<open>
  Claim C4. The unit of every signal stays between -4 and 4: a call of \<^verbatim>\<open>on_bar\<close>
  of any signal keeps the bound for all signals (also when the call ends in an
  exception), and the bound holds after every run of bars on a freshly initialised
  portfolio, because entry level \<open>k\<close> fires only under \<open>unit < k\<close> (\<open>unit > -k\<close>),
  adds one unit, and a close sets the unit to 0.
\<close>

theorem unit_bound:
  "((\<forall>a. \<bar>unit (heap w a)\<bar> \<le> 4) \<longrightarrow>
      (\<forall>a. \<bar>unit (heap (state_of (on_bar AM self bar w)) a)\<bar> \<le> 4)) \<and>
   (\<forall>a. \<bar>unit (heap (state_of (run AM bars
       (init AM pv vs szs (TurtlePortfolio_init AM e)))) a)\<bar> \<le> 4)"
proof (intro conjI impI)
  assume "\<forall>a. \<bar>unit (heap w a)\<bar> \<le> 4"
  then show "\<forall>a. \<bar>unit (heap (state_of (on_bar AM self bar w)) a)\<bar> \<le> 4"
    by (rule on_bar_bound)
next
  have "\<forall>a. \<bar>unit (heap (init AM pv vs szs (TurtlePortfolio_init AM e)) a)\<bar> \<le> 4"
    by (simp add: init_flat)
  then show "\<forall>a. \<bar>unit (heap (state_of (run AM bars
       (init AM pv vs szs (TurtlePortfolio_init AM e)))) a)\<bar> \<le> 4"
    by (rule run_bound)
qed

theorem unit_bound_witness:
  "(\<forall>a. \<bar>unit (heap (ready (FillRecorder [])) a)\<bar> \<le> 4) \<and>
   unit (heap (state_of (on_bar WindowAM 0 breakout_bar (ready (FillRecorder [])))) 0) = 4 \<and>
   (\<forall>a. \<bar>unit (heap (state_of (on_bar WindowAM 0 breakout_bar (ready (FillRecorder [])))) a)\<bar> \<le> 4)"
proof -
  have r: "\<forall>a. \<bar>unit (heap (ready (FillRecorder [])) a)\<bar> \<le> 4"
    by (simp add: ready_defs)
  then show ?thesis
    using unit_bound [of "ready (FillRecorder [])" WindowAM 0 breakout_bar "[]" 0 "[]" Map.empty
        "FillRecorder []"] breakout_first_signal
    by blast
qed

text \<open>
  Claim C3, as stated, fails: the four entry tests are consecutive \<^verbatim>\<open>if\<close> statements
  and each that holds buys. After 60 quiet bars the first signal of \<^verbatim>\<open>IF\<close> is flat;
  the bar that rises to 110 crosses all four levels, and that one call of \<^verbatim>\<open>on_bar\<close>
  takes the unit from 0 to 4 and sends four fills.
\<close>

theorem entries_per_bar_counterexample:
  "state_of (run WindowAM (replicate 60 quiet_bar) (portfolio0 (FillRecorder []))) =
     ready (FillRecorder []) \<and>
   unit (heap (ready (FillRecorder [])) 0) = 0 \<and>
   unit (heap (state_of (on_bar WindowAM 0 breakout_bar (ready (FillRecorder [])))) 0) = 4 \<and>
   engine (state_of (on_bar WindowAM 0 breakout_bar (ready (FillRecorder [])))) =
     FillRecorder
       [\<lparr>vt_symbol_trade = ''IF'', direction = LONG, offset = OPEN, price = 100, volume = 2000\<rparr>,
        \<lparr>vt_symbol_trade = ''IF'', direction = LONG, offset = OPEN, price = 102.5, volume = 2000\<rparr>,
        \<lparr>vt_symbol_trade = ''IF'', direction = LONG, offset = OPEN, price = 105, volume = 2000\<rparr>,
        \<lparr>vt_symbol_trade = ''IF'', direction = LONG, offset = OPEN, price = 107.5, volume = 2000\<rparr>]"
proof -
  have "unit (heap (ready (FillRecorder [])) 0) = 0" by (simp add: ready_defs)
  then show ?thesis using breakout_first_signal run_quiet [of "FillRecorder []"] by simp
qed

text \<open>
  Claim C3, amended. One call of \<^verbatim>\<open>on_bar\<close> leaves the unit of the signal as it was,
  or sets it to 0 (a close), or raises it from a value that is not negative by at most one
  unit per entry level to at most 4, or lowers it from a value that is not positive to at
  least -4; it never changes the unit of another signal. Each entry test fires by itself:
  it adds one unit exactly when the bar reaches its level and the unit is below the index
  of the level (and the signal has its bar), whatever the earlier tests did.
\<close>

theorem entries_per_bar:
  "(unit (heap (state_of (on_bar AM self bar w)) self) = unit (heap w self) \<or>
    unit (heap (state_of (on_bar AM self bar w)) self) = 0 \<or>
    (0 \<le> unit (heap w self) \<and>
     unit (heap w self) < unit (heap (state_of (on_bar AM self bar w)) self) \<and>
     unit (heap (state_of (on_bar AM self bar w)) self) \<le> 4) \<or>
    (unit (heap w self) \<le> 0 \<and>
     unit (heap (state_of (on_bar AM self bar w)) self) < unit (heap w self) \<and>
     - 4 \<le> unit (heap (state_of (on_bar AM self bar w)) self))) \<and>
   (\<forall>a. a \<noteq> self \<longrightarrow> unit (heap (state_of (on_bar AM self bar w)) a) = unit (heap w a)) \<and>
   unit (heap (state_of (long_entry self bar level k trade w)) self) =
     (if high bar \<ge> level (heap w self) \<and> unit (heap w self) < k \<and>
         last_bar (heap w self) \<noteq> None
      then unit (heap w self) + 1 else unit (heap w self)) \<and>
   unit (heap (state_of (short_entry self bar level k w)) self) =
     (if low bar \<le> level (heap w self) \<and> unit (heap w self) > - k \<and>
         last_bar (heap w self) \<noteq> None
      then unit (heap w self) - 1 else unit (heap w self))"
  using on_bar_unit [of w self AM bar] long_entry_unit [of self bar level k trade w self]
    short_entry_unit [of self bar level k w self]
  unfolding unit_move_def by simp

theorem entries_per_bar_witness:
  "unit (heap (ready (FillRecorder [])) 0) = 0 \<and>
   unit (heap (state_of (on_bar WindowAM 0 breakout_bar (ready (FillRecorder [])))) 0) = 4 \<and>
   unit (heap (state_of (on_bar WindowAM 0 breakout_bar (ready (FillRecorder [])))) 1) =
     unit (heap (ready (FillRecorder [])) 1) \<and>
   unit (heap (state_of (long_entry 0 breakout_bar long_entry_3 3 False
      (ready (FillRecorder [])))) 0) = 1"
proof -
  have "unit (heap (ready (FillRecorder [])) 0) = 0 \<and>
    high breakout_bar \<ge> long_entry_3 (heap (ready (FillRecorder [])) 0) \<and>
    last_bar (heap (ready (FillRecorder [])) 0) \<noteq> None"
    by (simp add: ready_defs breakout_bar_def)
  then show ?thesis
    using entries_per_bar [of WindowAM 0 breakout_bar "ready (FillRecorder [])" long_entry_3 3 False]
      breakout_first_signal
    by simp
qed

section \<open>The books of the allocator\<close>

lemma send_order_frame:
  "heap (state_of (send_order v dir off p vol m w)) = heap w \<and>
   trading_signals (state_of (send_order v dir off p vol m w)) = trading_signals w \<and>
   multipliers (state_of (send_order v dir off p vol m w)) = multipliers w"
  by (simp add: send_order_def Let_def split: option.splits prod.splits sum.splits)

lemma send_order_units:
  "map_of (units w) v = Some u \<Longrightarrow>
   map_of (units (state_of (send_order v dir off p vol m w))) =
     (map_of (units w))(v \<mapsto> u + (if dir = LONG then vol else - vol))"
  by (simp add: send_order_def Let_def update_conv' split: option.splits prod.splits sum.splits)

lemma owner_ok_cong:
  assumes "trading_signals w' v = trading_signals w v"
    and "map_of (units w') v = map_of (units w) v"
    and "multipliers w v \<noteq> None \<longrightarrow> multipliers w' v \<noteq> None"
    and "\<And>a. trading_signals w v = Some a \<Longrightarrow>
           vt_symbol (heap w' a) = vt_symbol (heap w a) \<and> unit (heap w' a) = unit (heap w a)"
    and "owner_ok w v"
  shows "owner_ok w' v"
  using assms by (auto simp add: owner_ok_def exposure_def split: option.splits)

lemma filter_signal_multipliers [simp]:
  "filter_signal self dir off vol u (w\<lparr>multipliers := ms\<rparr>) = filter_signal self dir off vol u w"
  unfolding filter_signal_def by simp

lemma filter_signal_owner:
  "filter_signal self dir off vol u w = Some vol' \<Longrightarrow>
     trading_signals w (vt_symbol (heap w self)) = None \<or>
     trading_signals w (vt_symbol (heap w self)) = Some self"
  by (auto simp add: filter_signal_def Let_def split: option.splits if_splits)

lemma filter_signal_open:
  "filter_signal self dir OPEN vol u w = Some vol' \<Longrightarrow> vol' = vol"
  by (auto simp add: filter_signal_def Let_def split: option.splits if_splits)

lemma filter_signal_close:
  "filter_signal self dir CLOSE vol u w = Some vol' \<Longrightarrow>
     vol' = min vol \<bar>u\<bar> \<and> (dir = LONG \<longrightarrow> u < 0) \<and> (dir = SHORT \<longrightarrow> 0 < u)"
  by (cases dir) (auto simp add: filter_signal_def Let_def split: option.splits if_splits)

lemma filter_signal_close_owner:
  "trading_signals w (vt_symbol (heap w self)) = Some self \<Longrightarrow>
   (dir = LONG \<longrightarrow> u < 0) \<Longrightarrow> (dir = SHORT \<longrightarrow> 0 < u) \<Longrightarrow>
   filter_signal self dir CLOSE vol u w = Some (min vol \<bar>u\<bar>)"
  by (cases dir) (auto simp add: filter_signal_def Let_def)

lemma get_multiplier_Raise_why:
  "get_multiplier s u w = Raise e w' \<Longrightarrow> u = 0 \<or> multipliers w (vt_symbol s) = None"
  by (auto simp add: get_multiplier_def split: option.splits sum.splits if_splits)

lemma open_signal_frame:
  "trading_signals (state_of (open_signal self p c w)) = trading_signals w \<and>
   units (state_of (open_signal self p c w)) = units w \<and>
   multipliers (state_of (open_signal self p c w)) = multipliers w \<and>
   vt_symbol (heap (state_of (open_signal self p c w)) a) = vt_symbol (heap w a) \<and>
   unit (heap (state_of (open_signal self p c w)) a) =
     (if a = self then unit (heap w self) + c else unit (heap w a)) \<and>
   (last_result (heap w a) \<noteq> None \<or> a = self \<longrightarrow>
      last_result (heap (state_of (open_signal self p c w)) a) \<noteq> None)"
  by (simp add: open_signal_def upd_signal_def Let_def split: option.splits result.splits)

lemma close_signal_frame:
  "trading_signals (state_of (close_signal self p w)) = trading_signals w \<and>
   units (state_of (close_signal self p w)) = units w \<and>
   multipliers (state_of (close_signal self p w)) = multipliers w \<and>
   vt_symbol (heap (state_of (close_signal self p w)) a) = vt_symbol (heap w a) \<and>
   unit (heap (state_of (close_signal self p w)) a) =
     (if a = self then 0 else unit (heap w a)) \<and>
   (a \<noteq> self \<longrightarrow> last_result (heap (state_of (close_signal self p w)) a) = last_result (heap w a))"
  by (simp add: close_signal_def upd_signal_def Let_def split: option.splits)

lemma close_signal_Raise:
  "close_signal self p w = Raise e w' \<Longrightarrow> last_result (heap w self) = None"
  by (auto simp add: close_signal_def upd_signal_def Let_def split: option.splits)

text \<open>
  What \<^verbatim>\<open>new_signal\<close> does to the books, whatever else happens: either no order goes
  out (and then for one of the listed reasons) and the trading signals and units are as
  before, or the order \<open>vol'\<close> that passed the filter is booked.
\<close>

lemma new_signal_summary:
  fixes w :: "'am TurtlePortfolio"
  assumes vs: "vs = vt_symbol (heap w self)" and w': "w' = state_of (new_signal self dir off p vol w)"
  shows "heap w' = heap w \<and> (\<forall>v. multipliers w v \<noteq> None \<longrightarrow> multipliers w' v \<noteq> None) \<and>
    ((trading_signals w' = trading_signals w \<and> map_of (units w') = map_of (units w) \<and>
      (map_of (units w) vs = None \<or>
       (\<exists>u. map_of (units w) vs = Some u \<and>
          (u = 0 \<or> multipliers w vs = None \<or> filter_signal self dir off vol u w = None \<or>
           trading_signals w vs = None)))) \<or>
     (\<exists>u vol'. map_of (units w) vs = Some u \<and> filter_signal self dir off vol u w = Some vol' \<and>
        multipliers w' vs \<noteq> None \<and>
        ((off = OPEN \<and> trading_signals w' = (trading_signals w)(vs \<mapsto> self)) \<or>
         (off = CLOSE \<and> trading_signals w vs \<noteq> None \<and>
          trading_signals w' = (trading_signals w)(vs := None))) \<and>
        map_of (units w') = (map_of (units w))(vs \<mapsto> u + (if dir = LONG then vol' else - vol'))))"
proof (cases rule: new_signal_cases [of w self dir off p vol])
  case nokey
  then show ?thesis using vs w' by simp
next
  case (nomult u e)
  then show ?thesis using vs w' get_multiplier_Raise_why [of "heap w self" u w e w] by auto
next
  case (reject u m w1)
  then show ?thesis using vs w' get_multiplier_Return [of "heap w self" u w m w1] by auto
next
  case (close_nokey u m w1 vol')
  then show ?thesis using vs w' get_multiplier_Return [of "heap w self" u w m w1] by auto
next
  case (order_open u m w1 vol')
  let ?w2 = "w1\<lparr>trading_signals := (trading_signals w1)(vs \<mapsto> self)\<rparr>"
  have w1: "(u = 0 \<and> w1 = w\<lparr>multipliers := (multipliers w)(vs \<mapsto> m)\<rparr>) \<or>
      (u \<noteq> 0 \<and> w1 = w \<and> multipliers w vs = Some m)"
    using get_multiplier_Return [of "heap w self" u w m w1] order_open vs by simp
  have f: "filter_signal self dir off vol u w = Some vol'" using w1 order_open by auto
  have u2: "map_of (units ?w2) vs = Some u" using w1 order_open vs by auto
  have w2eq: "w' = state_of (send_order vs dir off p vol' m ?w2)" using order_open w' vs by simp
  have "heap w' = heap w" "trading_signals w' = (trading_signals w)(vs \<mapsto> self)"
    "multipliers w' = multipliers w1"
    "map_of (units w') = (map_of (units w))(vs \<mapsto> u + (if dir = LONG then vol' else - vol'))"
    using send_order_frame [of vs dir off p vol' m ?w2] send_order_units [OF u2, of dir off p vol' m]
      w1 w2eq by auto
  then show ?thesis using order_open f w1 vs by auto
next
  case (order_close u m w1 vol' c)
  let ?w2 = "w1\<lparr>trading_signals := (trading_signals w1)(vs := None)\<rparr>"
  have w1: "(u = 0 \<and> w1 = w\<lparr>multipliers := (multipliers w)(vs \<mapsto> m)\<rparr>) \<or>
      (u \<noteq> 0 \<and> w1 = w \<and> multipliers w vs = Some m)"
    using get_multiplier_Return [of "heap w self" u w m w1] order_close vs by simp
  have f: "filter_signal self dir off vol u w = Some vol'" using w1 order_close by auto
  have t: "trading_signals w vs \<noteq> None" using w1 order_close vs by auto
  have u2: "map_of (units ?w2) vs = Some u" using w1 order_close vs by auto
  have w2eq: "w' = state_of (send_order vs dir off p vol' m ?w2)" using order_close w' vs by simp
  have "heap w' = heap w" "trading_signals w' = (trading_signals w)(vs := None)"
    "multipliers w' = multipliers w1"
    "map_of (units w') = (map_of (units w))(vs \<mapsto> u + (if dir = LONG then vol' else - vol'))"
    using send_order_frame [of vs dir off p vol' m ?w2] send_order_units [OF u2, of dir off p vol' m]
      w1 w2eq by auto
  then show ?thesis using order_close f t w1 vs by auto
qed

lemma exposure_Some: "map_of (units w) v = Some u \<Longrightarrow> exposure w v = u"
  by (simp add: exposure_def)

lemma exposure_None: "map_of (units w) v = None \<Longrightarrow> exposure w v = 0"
  by (simp add: exposure_def)

text \<open>A state in which every instrument is in order except perhaps the one of \<open>self\<close>.\<close>

lemma owner_ok_other:
  fixes w w' :: "'am TurtlePortfolio"
  assumes "owner_ok w v" and "heap w' = heap w"
    and "\<forall>v. multipliers w v \<noteq> None \<longrightarrow> multipliers w' v \<noteq> None"
    and "trading_signals w' v = trading_signals w v"
    and "map_of (units w') v = map_of (units w) v"
  shows "owner_ok w' v"
  using assms by (auto simp add: owner_ok_def exposure_def split: option.splits)

lemma new_signal_open_exclusive:
  fixes w :: "'am TurtlePortfolio"
  assumes ok: "\<forall>v. owner_ok w v"
    and lr: "\<forall>a. unit (heap w a) \<noteq> 0 \<longrightarrow> last_result (heap w a) \<noteq> None"
    and long: "dir = LONG \<longrightarrow> 1 \<le> unit (heap w self) \<and>
        (trading_signals w (vt_symbol (heap w self)) = Some self \<longrightarrow>
           exposure w (vt_symbol (heap w self)) < unit (heap w self))"
    and short: "dir = SHORT \<longrightarrow> unit (heap w self) \<le> - 1 \<and>
        (trading_signals w (vt_symbol (heap w self)) = Some self \<longrightarrow>
           unit (heap w self) < exposure w (vt_symbol (heap w self)))"
  shows "exclusive (state_of (new_signal self dir OPEN p 1 w))"
proof -
  define vs where "vs = vt_symbol (heap w self)"
  define w' where "w' = state_of (new_signal self dir OPEN p 1 w)"
  note s = new_signal_summary [OF vs_def w'_def]
  have h: "heap w' = heap w" and m: "\<forall>v. multipliers w v \<noteq> None \<longrightarrow> multipliers w' v \<noteq> None"
    using s by auto
  from s consider
      (none) "trading_signals w' = trading_signals w" "map_of (units w') = map_of (units w)"
    | (order) u vol' where "map_of (units w) vs = Some u"
        "filter_signal self dir OPEN 1 u w = Some vol'" "multipliers w' vs \<noteq> None"
        "trading_signals w' = (trading_signals w)(vs \<mapsto> self)"
        "map_of (units w') = (map_of (units w))(vs \<mapsto> u + (if dir = LONG then vol' else - vol'))"
    by auto
  then have "owner_ok w' v" for v
  proof cases
    case none
    then show ?thesis using owner_ok_other [of w v w'] ok h m by simp
  next
    case (order u vol')
    note u = order(1) and f = order(2) and mv = order(3) and t = order(4) and u' = order(5)
    have vol': "vol' = 1" using filter_signal_open [OF f] .
    show ?thesis
    proof (cases "v = vs")
      case False
      then show ?thesis using owner_ok_other [of w v w'] ok h m t u' by simp
    next
      case True
      have own: "trading_signals w vs = None \<or> trading_signals w vs = Some self"
        using filter_signal_owner [OF f] vs_def by simp
      have e: "exposure w vs = u" using u by (rule exposure_Some)
      have e': "exposure w' vs = u + (if dir = LONG then 1 else - 1)"
        using u' vol' by (simp add: exposure_def)
      have "held_by (u + (if dir = LONG then 1 else - 1)) (unit (heap w self))"
      proof (cases dir)
        case LONG
        then show ?thesis using own long ok [rule_format, of vs] e vs_def
          by (auto simp add: owner_ok_def held_by_def)
      next
        case SHORT
        then show ?thesis using own short ok [rule_format, of vs] e vs_def
          by (auto simp add: owner_ok_def held_by_def)
      qed
      then show ?thesis using True t mv e' h vs_def by (simp add: owner_ok_def)
    qed
  qed
  then show ?thesis using lr h unfolding w'_def exclusive_def by auto
qed

lemma new_signal_close_exclusive:
  fixes w :: "'am TurtlePortfolio"
  assumes ok: "\<forall>v. trading_signals w v \<noteq> Some self \<longrightarrow> owner_ok w v"
    and lr: "\<forall>a. unit (heap w a) \<noteq> 0 \<longrightarrow> last_result (heap w a) \<noteq> None"
    and own: "\<forall>v. trading_signals w v = Some self \<longrightarrow>
        v = vt_symbol (heap w self) \<and> multipliers w v \<noteq> None \<and>
        (dir = SHORT \<longrightarrow> 0 < exposure w v \<and> exposure w v \<le> vol) \<and>
        (dir = LONG \<longrightarrow> exposure w v < 0 \<and> - vol \<le> exposure w v)"
  shows "exclusive (state_of (new_signal self dir CLOSE p vol w))"
proof -
  define vs where "vs = vt_symbol (heap w self)"
  define w' where "w' = state_of (new_signal self dir CLOSE p vol w)"
  note s = new_signal_summary [OF vs_def w'_def]
  have h: "heap w' = heap w" and m: "\<forall>v. multipliers w v \<noteq> None \<longrightarrow> multipliers w' v \<noteq> None"
    using s by auto
  from s consider
      (none) "trading_signals w' = trading_signals w" "map_of (units w') = map_of (units w)"
        "map_of (units w) vs = None \<or>
         (\<exists>u. map_of (units w) vs = Some u \<and>
          (u = 0 \<or> multipliers w vs = None \<or> filter_signal self dir CLOSE vol u w = None \<or>
           trading_signals w vs = None))"
    | (order) u vol' where "map_of (units w) vs = Some u"
        "filter_signal self dir CLOSE vol u w = Some vol'" "trading_signals w vs \<noteq> None"
        "trading_signals w' = (trading_signals w)(vs := None)"
        "map_of (units w') = (map_of (units w))(vs \<mapsto> u + (if dir = LONG then vol' else - vol'))"
    by auto
  then have "owner_ok w' v" for v
  proof cases
    case none
    note why = none(3)
    have "trading_signals w vs \<noteq> Some self"
    proof
      assume t: "trading_signals w vs = Some self"
      then have o: "multipliers w vs \<noteq> None"
        "dir = SHORT \<longrightarrow> 0 < exposure w vs \<and> exposure w vs \<le> vol"
        "dir = LONG \<longrightarrow> exposure w vs < 0 \<and> - vol \<le> exposure w vs"
        using own by auto
      then have nz: "exposure w vs \<noteq> 0" by (cases dir) auto
      then obtain u where u: "map_of (units w) vs = Some u" "u \<noteq> 0"
        by (auto simp add: exposure_def split: option.splits)
      then have "exposure w vs = u" by (simp add: exposure_def)
      then have "filter_signal self dir CLOSE vol u w = Some (min vol \<bar>u\<bar>)"
        using filter_signal_close_owner [of w self dir u vol] t o vs_def by auto
      then show False using why u o t by auto
    qed
    then have "trading_signals w v \<noteq> Some self" using own vs_def by auto
    then show ?thesis using owner_ok_other [of w v w'] ok h m none(1,2) by simp
  next
    case (order u vol')
    note u = order(1) and f = order(2) and tn = order(3) and t = order(4) and u' = order(5)
    have ts: "trading_signals w vs = Some self"
      using filter_signal_owner [OF f] tn vs_def by auto
    have e: "exposure w vs = u" using u by (rule exposure_Some)
    have "u + (if dir = LONG then vol' else - vol') = 0"
      using filter_signal_close [OF f] own [rule_format, OF ts] e by (cases dir) auto
    then have e': "exposure w' vs = 0" using u' by (simp add: exposure_def)
    show ?thesis
    proof (cases "v = vs")
      case True
      then show ?thesis using t e' by (simp add: owner_ok_def)
    next
      case False
      then have "trading_signals w v \<noteq> Some self" using own vs_def by auto
      then show ?thesis using owner_ok_other [of w v w'] ok h m t u' False by simp
    qed
  qed
  then show ?thesis using lr h unfolding w'_def exclusive_def by auto
qed

lemma exclusive_owner: "exclusive w \<Longrightarrow> owner_ok w v"
  by (simp add: exclusive_def)

lemma owner_ok_None: "owner_ok w v \<Longrightarrow> trading_signals w v = None \<Longrightarrow> exposure w v = 0"
  by (simp add: owner_ok_def)

lemma owner_ok_Some:
  "owner_ok w v \<Longrightarrow> trading_signals w v = Some a \<Longrightarrow>
     vt_symbol (heap w a) = v \<and> multipliers w v \<noteq> None \<and>
     held_by (exposure w v) (unit (heap w a))"
  by (simp add: owner_ok_def)

lemma exclusive_upd_signal:
  assumes "\<And>s. unit (f s) = unit s \<and> vt_symbol (f s) = vt_symbol s \<and> last_result (f s) = last_result s"
    and "exclusive w"
  shows "exclusive (upd_signal self f w)"
proof -
  have "owner_ok (upd_signal self f w) v" for v
    by (rule owner_ok_cong [of _ _ w])
      (use assms in \<open>simp_all add: exclusive_def upd_signal_def\<close>)
  moreover have "\<forall>a. unit (heap (upd_signal self f w) a) \<noteq> 0 \<longrightarrow>
      last_result (heap (upd_signal self f w) a) \<noteq> None"
    using assms by (simp add: exclusive_def upd_signal_def)
  ultimately show ?thesis by (simp add: exclusive_def)
qed

lemma held_by_grow:
  "held_by x u \<Longrightarrow> 0 \<le> u \<Longrightarrow> held_by x (u + 1) \<and> x < u + 1"
  "held_by x u \<Longrightarrow> u \<le> 0 \<Longrightarrow> held_by x (u - 1) \<and> u - 1 < x"
  by (auto simp add: held_by_def)

lemma open_order_exclusive:
  fixes w :: "'am TurtlePortfolio"
  assumes ex: "exclusive w"
    and long: "dir = LONG \<longrightarrow> c = 1 \<and> 0 \<le> unit (heap w self)"
    and short: "dir = SHORT \<longrightarrow> c = - 1 \<and> unit (heap w self) \<le> 0"
    and f: "\<And>s. unit (f s) = unit s \<and> vt_symbol (f s) = vt_symbol s \<and> last_result (f s) = last_result s"
  shows "exclusive (state_of
      (and_then (open_signal self P c w) (\<lambda>_ w.
       and_then (new_signal self dir OPEN P 1 w) (\<lambda>_ w. Return () (upd_signal self f w)))))"
proof -
  define w1 where "w1 = state_of (open_signal self P c w)"
  note fr = open_signal_frame [of self P c w, folded w1_def]
  have t: "trading_signals w1 = trading_signals w" and u: "units w1 = units w"
    and m: "multipliers w1 = multipliers w"
    and vt: "\<And>a. vt_symbol (heap w1 a) = vt_symbol (heap w a)"
    and un: "\<And>a. unit (heap w1 a) = (if a = self then unit (heap w self) + c else unit (heap w a))"
    and lr: "\<And>a. last_result (heap w a) \<noteq> None \<or> a = self \<longrightarrow> last_result (heap w1 a) \<noteq> None"
    using fr by auto
  have e: "\<And>v. exposure w1 v = exposure w v" using u by (simp add: exposure_def)
  have c: "c = 1 \<or> c = - 1" using long short by (cases dir) auto
  have ok1: "owner_ok w1 v" for v
  proof (cases "trading_signals w v")
    case None
    then show ?thesis using owner_ok_None [OF exclusive_owner [OF ex], of v] t e
      by (simp add: owner_ok_def)
  next
    case (Some a)
    then have o: "vt_symbol (heap w a) = v" "multipliers w v \<noteq> None"
      "held_by (exposure w v) (unit (heap w a))"
      using owner_ok_Some [OF exclusive_owner [OF ex], of v a] by auto
    have "held_by (exposure w v) (unit (heap w1 a))"
      using o(3) un [of a] held_by_grow [of "exposure w v" "unit (heap w self)"] long short
      by (cases dir) auto
    then show ?thesis using Some o t m vt e by (simp add: owner_ok_def)
  qed
  have lr1: "\<forall>a. unit (heap w1 a) \<noteq> 0 \<longrightarrow> last_result (heap w1 a) \<noteq> None"
    using ex lr un unfolding exclusive_def by (metis (full_types))
  have ex1: "exclusive w1" using ok1 lr1 by (simp add: exclusive_def)
  have strict_long: "dir = LONG \<longrightarrow> 1 \<le> unit (heap w1 self) \<and>
        (trading_signals w1 (vt_symbol (heap w1 self)) = Some self \<longrightarrow>
           exposure w1 (vt_symbol (heap w1 self)) < unit (heap w1 self))"
  proof
    assume d: "dir = LONG"
    then have c1: "c = 1" "0 \<le> unit (heap w self)" using long by auto
    have "exposure w (vt_symbol (heap w self)) < unit (heap w self) + 1"
      if "trading_signals w (vt_symbol (heap w self)) = Some self"
      using owner_ok_Some [OF exclusive_owner [OF ex] that] c1
        held_by_grow(1) [of "exposure w (vt_symbol (heap w self))" "unit (heap w self)"]
      by auto
    then show "1 \<le> unit (heap w1 self) \<and>
        (trading_signals w1 (vt_symbol (heap w1 self)) = Some self \<longrightarrow>
           exposure w1 (vt_symbol (heap w1 self)) < unit (heap w1 self))"
      using c1 un [of self] t vt e by simp
  qed
  have strict_short: "dir = SHORT \<longrightarrow> unit (heap w1 self) \<le> - 1 \<and>
        (trading_signals w1 (vt_symbol (heap w1 self)) = Some self \<longrightarrow>
           unit (heap w1 self) < exposure w1 (vt_symbol (heap w1 self)))"
  proof
    assume d: "dir = SHORT"
    then have c1: "c = - 1" "unit (heap w self) \<le> 0" using short by auto
    have "unit (heap w self) - 1 < exposure w (vt_symbol (heap w self))"
      if "trading_signals w (vt_symbol (heap w self)) = Some self"
      using owner_ok_Some [OF exclusive_owner [OF ex] that] c1
        held_by_grow(2) [of "exposure w (vt_symbol (heap w self))" "unit (heap w self)"]
      by auto
    then show "unit (heap w1 self) \<le> - 1 \<and>
        (trading_signals w1 (vt_symbol (heap w1 self)) = Some self \<longrightarrow>
           unit (heap w1 self) < exposure w1 (vt_symbol (heap w1 self)))"
      using c1 un [of self] t vt e by simp
  qed
  have ns: "exclusive (state_of (new_signal self dir OPEN P 1 w1))"
    using new_signal_open_exclusive [OF _ lr1 strict_long strict_short] ok1 by blast
  show ?thesis
  proof (cases "open_signal self P c w")
    case (Raise x w1')
    then show ?thesis using ex1 by (simp add: w1_def)
  next
    case (Return x w1')
    then have w1': "w1' = w1" by (simp add: w1_def)
    show ?thesis
    proof (cases "new_signal self dir OPEN P 1 w1")
      case (Raise y w2)
      then show ?thesis using Return w1' ns by simp
    next
      case (Return y w2)
      then have "exclusive w2" using ns by simp
      then have "exclusive (upd_signal self f w2)" using exclusive_upd_signal [OF f] by blast
      then show ?thesis using Return \<open>open_signal self P c w = Return x w1'\<close> w1' by simp
    qed
  qed
qed

lemma close_order_exclusive:
  fixes w :: "'am TurtlePortfolio"
  assumes ex: "exclusive w"
    and short: "dir = SHORT \<longrightarrow> 0 < unit (heap w self)"
    and long: "dir = LONG \<longrightarrow> unit (heap w self) < 0"
    and vol: "vol = \<bar>unit (heap w self)\<bar>"
  shows "exclusive (state_of
      (and_then (close_signal self P w) (\<lambda>_ w. new_signal self dir CLOSE P vol w)))"
proof -
  have nz: "unit (heap w self) \<noteq> 0" using short long by (cases dir) auto
  then have "last_result (heap w self) \<noteq> None" using ex by (simp add: exclusive_def)
  then obtain x w1 where r: "close_signal self P w = Return x w1"
    using close_signal_Raise [of self P w] by (cases "close_signal self P w") auto
  then have w1: "w1 = state_of (close_signal self P w)" by simp
  note fr = close_signal_frame [of self P w, folded w1]
  have t: "trading_signals w1 = trading_signals w" and u: "units w1 = units w"
    and m: "multipliers w1 = multipliers w"
    and vt: "\<And>a. vt_symbol (heap w1 a) = vt_symbol (heap w a)"
    and un: "\<And>a. unit (heap w1 a) = (if a = self then 0 else unit (heap w a))"
    and lr: "\<And>a. a \<noteq> self \<longrightarrow> last_result (heap w1 a) = last_result (heap w a)"
    using fr by auto
  have e: "\<And>v. exposure w1 v = exposure w v" using u by (simp add: exposure_def)
  have ok: "\<forall>v. trading_signals w1 v \<noteq> Some self \<longrightarrow> owner_ok w1 v"
  proof (intro allI impI)
    fix v assume n: "trading_signals w1 v \<noteq> Some self"
    show "owner_ok w1 v"
    proof (cases "trading_signals w v")
      case None
      then show ?thesis using owner_ok_None [OF exclusive_owner [OF ex], of v] t e
        by (simp add: owner_ok_def)
    next
      case (Some a)
      then have "a \<noteq> self" using n t by auto
      then show ?thesis using owner_ok_Some [OF exclusive_owner [OF ex] Some] Some t m vt un e
        by (simp add: owner_ok_def)
    qed
  qed
  have lr1: "\<forall>a. unit (heap w1 a) \<noteq> 0 \<longrightarrow> last_result (heap w1 a) \<noteq> None"
    using ex lr un unfolding exclusive_def by (metis (full_types))
  have own: "\<forall>v. trading_signals w1 v = Some self \<longrightarrow>
        v = vt_symbol (heap w1 self) \<and> multipliers w1 v \<noteq> None \<and>
        (dir = SHORT \<longrightarrow> 0 < exposure w1 v \<and> exposure w1 v \<le> vol) \<and>
        (dir = LONG \<longrightarrow> exposure w1 v < 0 \<and> - vol \<le> exposure w1 v)"
  proof (intro allI impI)
    fix v assume "trading_signals w1 v = Some self"
    then have "trading_signals w v = Some self" using t by simp
    then have "vt_symbol (heap w self) = v" "multipliers w v \<noteq> None"
      "held_by (exposure w v) (unit (heap w self))"
      using owner_ok_Some [OF exclusive_owner [OF ex], of v self] by auto
    then show "v = vt_symbol (heap w1 self) \<and> multipliers w1 v \<noteq> None \<and>
        (dir = SHORT \<longrightarrow> 0 < exposure w1 v \<and> exposure w1 v \<le> vol) \<and>
        (dir = LONG \<longrightarrow> exposure w1 v < 0 \<and> - vol \<le> exposure w1 v)"
      using short long vol vt m e by (cases dir) (auto simp add: held_by_def)
  qed
  have "exclusive (state_of (new_signal self dir CLOSE P vol w1))"
    using new_signal_close_exclusive [OF ok lr1 own] .
  then show ?thesis using r by simp
qed

lemma buy_exclusive:
  "exclusive w \<Longrightarrow> 0 \<le> unit (heap w self) \<Longrightarrow> exclusive (state_of (buy self p 1 w))"
  unfolding buy_def
  by (cases "calculate_trade_price LONG p (heap w self)")
    (simp_all add: open_order_exclusive [where dir = LONG])

lemma short_exclusive:
  "exclusive w \<Longrightarrow> unit (heap w self) \<le> 0 \<Longrightarrow> exclusive (state_of (short self p 1 w))"
  unfolding short_def
  by (cases "calculate_trade_price SHORT p (heap w self)")
    (simp_all add: open_order_exclusive [where dir = SHORT])

lemma sell_exclusive:
  "exclusive w \<Longrightarrow> 0 < unit (heap w self) \<Longrightarrow> exclusive (state_of (sell self p w))"
  unfolding sell_def Let_def
  by (cases "calculate_trade_price SHORT p (heap w self)")
    (simp_all add: close_order_exclusive [where dir = SHORT])

lemma cover_exclusive:
  "exclusive w \<Longrightarrow> unit (heap w self) < 0 \<Longrightarrow> exclusive (state_of (cover self p w))"
  unfolding cover_def Let_def
  by (cases "calculate_trade_price LONG p (heap w self)")
    (simp_all add: close_order_exclusive [where dir = LONG])

lemma long_entry_exclusive:
  assumes "exclusive w \<and> 0 \<le> unit (heap w self)"
  shows "exclusive (state_of (long_entry self bar level k trade w)) \<and>
     0 \<le> unit (heap (state_of (long_entry self bar level k trade w)) self)"
proof (cases "high bar \<ge> level (heap w self) \<and> unit (heap w self) < k")
  case False
  then show ?thesis using assms by (auto simp add: long_entry_def)
next
  case True
  have "state_of (long_entry self bar level k trade w) = state_of (buy self (level (heap w self)) 1 w)"
    using True by (cases "buy self (level (heap w self)) 1 w") (simp_all add: long_entry_def)
  then show ?thesis using assms buy_exclusive [of w self "level (heap w self)"]
    by (simp add: buy_unit)
qed

lemma short_entry_exclusive:
  assumes "exclusive w \<and> unit (heap w self) \<le> 0"
  shows "exclusive (state_of (short_entry self bar level k w)) \<and>
     unit (heap (state_of (short_entry self bar level k w)) self) \<le> 0"
  using assms short_exclusive [of w self "level (heap w self)"]
  by (auto simp add: short_entry_def short_unit)

lemma generate_signal_exclusive:
  assumes ex: "exclusive w"
  shows "exclusive (state_of (generate_signal self bar w))"
proof -
  let ?s = "heap w self"
  let ?L = "and_then (long_entry self bar long_entry_1 1 False w) (\<lambda>trade w.
      and_then (long_entry self bar long_entry_2 2 trade w) (\<lambda>trade w.
      and_then (long_entry self bar long_entry_3 3 trade w) (\<lambda>trade w.
        long_entry self bar long_entry_4 4 trade w)))"
  let ?S = "\<lambda>w. and_then (short_entry self bar short_entry_1 1 w) (\<lambda>_ w.
        and_then (short_entry self bar short_entry_2 2 w) (\<lambda>_ w.
        and_then (short_entry self bar short_entry_3 3 w) (\<lambda>_ w.
          short_entry self bar short_entry_4 4 w)))"
  have S: "exclusive (state_of (?S w'))" if "exclusive w' \<and> unit (heap w' self) \<le> 0" for w'
  proof -
    have "exclusive (state_of (?S w')) \<and> unit (heap (state_of (?S w')) self) \<le> 0"
      by (intro and_then_inv [where P = "\<lambda>w. exclusive w \<and> unit (heap w self) \<le> 0"]
          short_entry_exclusive that)
    then show ?thesis by simp
  qed
  consider (idle) "long_entry_1 ?s = 0"
    | (sell) "long_entry_1 ?s \<noteq> 0" "unit ?s > 0 \<and> low bar \<le> max (long_stop ?s) (exit_down ?s)"
    | (cover) "long_entry_1 ?s \<noteq> 0" "\<not> (unit ?s > 0 \<and> low bar \<le> max (long_stop ?s) (exit_down ?s))"
        "unit ?s < 0 \<and> high bar \<ge> min (short_stop ?s) (exit_up ?s)"
    | (entries) "long_entry_1 ?s \<noteq> 0" "\<not> (unit ?s > 0 \<and> low bar \<le> max (long_stop ?s) (exit_down ?s))"
        "\<not> (unit ?s < 0 \<and> high bar \<ge> min (short_stop ?s) (exit_up ?s))"
    by blast
  then show ?thesis
  proof cases
    case idle
    then show ?thesis using ex by (simp add: generate_signal_def)
  next
    case sell
    then show ?thesis using ex by (simp add: generate_signal_def Let_def sell_exclusive)
  next
    case cover
    then show ?thesis using ex by (auto simp add: generate_signal_def Let_def cover_exclusive)
  next
    case entries
    show ?thesis
    proof (cases "unit ?s \<ge> 0")
      case False
      then have g: "generate_signal self bar w = ?S w"
        using entries by (auto simp add: generate_signal_def Let_def)
      show ?thesis unfolding g using S [of w] ex False by simp
    next
      case True
      have g: "generate_signal self bar w =
          and_then ?L (\<lambda>trade w. if trade then Return () w
             else if unit (heap w self) \<le> 0 then ?S w else Return () w)"
        using entries True by (auto simp add: generate_signal_def Let_def)
      have L: "exclusive (state_of ?L) \<and> 0 \<le> unit (heap (state_of ?L) self)"
        by (intro and_then_inv [where P = "\<lambda>w. exclusive w \<and> 0 \<le> unit (heap w self)"]
            long_entry_exclusive) (use ex True in simp)
      show ?thesis unfolding g
      proof (cases ?L)
        case (Raise e w')
        then show "exclusive (state_of (and_then ?L (\<lambda>trade w. if trade then Return () w
             else if unit (heap w self) \<le> 0 then ?S w else Return () w)))"
          using L by simp
      next
        case (Return trade w')
        then have "exclusive w'" using L by simp
        then show "exclusive (state_of (and_then ?L (\<lambda>trade w. if trade then Return () w
             else if unit (heap w self) \<le> 0 then ?S w else Return () w)))"
          using Return S [of w'] by simp
      qed
    qed
  qed
qed

lemma calculate_indicator_fields:
  "unit (calculate_indicator AM s) = unit s \<and> vt_symbol (calculate_indicator AM s) = vt_symbol s \<and>
   last_result (calculate_indicator AM s) = last_result s"
  by (simp add: calculate_indicator_def Let_def)

lemma on_bar_exclusive:
  assumes ex: "exclusive w"
  shows "exclusive (state_of (on_bar AM self bar w))"
proof -
  let ?w1 = "upd_signal self (\<lambda>s. s\<lparr>am := update_bar AM (am s) bar\<rparr>)
     (upd_signal self (\<lambda>s. s\<lparr>last_bar := Some bar\<rparr>) w)"
  have 1: "exclusive ?w1"
    by (intro exclusive_upd_signal ex) simp_all
  show ?thesis
  proof (cases "inited AM (am (heap ?w1 self))")
    case False
    then show ?thesis using 1 by (simp add: on_bar_def Let_def)
  next
    case True
    have g: "exclusive (state_of (generate_signal self bar ?w1))"
      using 1 by (rule generate_signal_exclusive)
    then have "exclusive (upd_signal self (calculate_indicator AM) (state_of (generate_signal self bar ?w1)))"
      by (intro exclusive_upd_signal calculate_indicator_fields)
    then show ?thesis using True g
      by (cases "generate_signal self bar ?w1") (simp_all add: on_bar_def Let_def)
  qed
qed

lemma on_bar_signals_exclusive:
  "exclusive w \<Longrightarrow> exclusive (state_of (on_bar_signals AM refs bar w))"
proof (induction refs arbitrary: w)
  case Nil
  then show ?case by simp
next
  case (Cons r refs)
  have 1: "exclusive (state_of (on_bar AM r bar w))" using Cons.prems by (rule on_bar_exclusive)
  show ?case unfolding on_bar_signals.simps
    by (rule and_then_inv [where P = exclusive, OF 1]) (rule Cons.IH)
qed

lemma run_exclusive:
  "exclusive w \<Longrightarrow> exclusive (state_of (run AM bars w))"
proof (induction bars arbitrary: w)
  case Nil
  then show ?case by simp
next
  case (Cons bar bars)
  have 1: "exclusive (state_of (on_bar_portfolio AM bar w))"
    unfolding on_bar_portfolio_def using Cons.prems by (rule on_bar_signals_exclusive)
  show ?case unfolding run.simps
    by (rule and_then_inv [where P = exclusive, OF 1]) (rule Cons.IH)
qed

lemma init_symbols_books:
  "trading_signals w = Map.empty \<and> (\<forall>v. exposure w v = 0) \<Longrightarrow>
   trading_signals (foldl (\<lambda>w v. init_symbol AM v w) w vs) = Map.empty \<and>
   (\<forall>v. exposure (foldl (\<lambda>w v. init_symbol AM v w) w vs) v = 0)"
proof (induction vs arbitrary: w)
  case Nil
  then show ?case by simp
next
  case (Cons x vs)
  have "trading_signals (init_symbol AM x w) = Map.empty \<and> (\<forall>v. exposure (init_symbol AM x w) v = 0)"
    using Cons.prems by (simp add: init_symbol_def Let_def exposure_def update_conv')
  then show ?case using Cons.IH by simp
qed

lemma init_exclusive: "exclusive (init AM pv vs szs (TurtlePortfolio_init AM e))"
proof -
  let ?w = "init AM pv vs szs (TurtlePortfolio_init AM e)"
  have "trading_signals ?w = Map.empty \<and> (\<forall>v. exposure ?w v = 0)"
    unfolding init_def
    by (rule init_symbols_books) (simp add: TurtlePortfolio_init_def exposure_def)
  then have "owner_ok ?w v" for v by (simp add: owner_ok_def)
  then show ?thesis using init_flat [of AM pv vs szs e] by (simp add: exclusive_def)
qed

lemma breakout_both:
  "unit (heap (state_of (run WindowAM [breakout_bar] (ready (FillRecorder [])))) 0) = 4 \<and>
   unit (heap (state_of (run WindowAM [breakout_bar] (ready (FillRecorder [])))) 1) = 4 \<and>
   signals (state_of (run WindowAM [breakout_bar] (ready (FillRecorder [])))) ''IF'' = [0, 1] \<and>
   trading_signals (state_of (run WindowAM [breakout_bar] (ready (FillRecorder [])))) ''IF'' = Some 0 \<and>
   units (state_of (run WindowAM [breakout_bar] (ready (FillRecorder [])))) = [(''IF'', 4)]"
  by (simp add: exec_defs ready_defs breakout_bar_def update_conv')

section \<open>One owner per instrument\<close>

text \<open>
  Claim C2, as stated, fails: a signal counts its own proposals in \<^verbatim>\<open>unit\<close> whether
  the allocator takes them or not. On the bar that rises to 110 both signals of
  \<^verbatim>\<open>IF\<close> break out; the allocator trades the first one only
  (\<^verbatim>\<open>trading_signals\<close> holds it, \<^verbatim>\<open>units\<close> holds 4), and both signals end the
  bar with unit 4.
\<close>

theorem exclusivity_counterexample:
  "unit (heap (state_of (run WindowAM (replicate 60 quiet_bar @ [breakout_bar])
      (portfolio0 (FillRecorder [])))) 0) = 4 \<and>
   unit (heap (state_of (run WindowAM (replicate 60 quiet_bar @ [breakout_bar])
      (portfolio0 (FillRecorder [])))) 1) = 4 \<and>
   signals (state_of (run WindowAM (replicate 60 quiet_bar @ [breakout_bar])
      (portfolio0 (FillRecorder [])))) ''IF'' = [0, 1] \<and>
   trading_signals (state_of (run WindowAM (replicate 60 quiet_bar @ [breakout_bar])
      (portfolio0 (FillRecorder [])))) ''IF'' = Some 0 \<and>
   units (state_of (run WindowAM (replicate 60 quiet_bar @ [breakout_bar])
      (portfolio0 (FillRecorder [])))) = [(''IF'', 4)]"
  unfolding run_ready by (rule breakout_both)

text \<open>
  Claim C2, amended. What is exclusive is the exposure the allocator has accepted: at
  every point of a run and for every instrument, if \<^verbatim>\<open>trading_signals\<close> holds no
  signal the units of the instrument are 0, and if it holds one, that signal belongs to
  the instrument and the units of the instrument are not zero, have the sign of the unit
  of that signal and are at most as large; and the allocator lets an order through only
  if the instrument has no trading signal or the proposing signal is it. The invariant
  holds after \<^verbatim>\<open>init\<close>, and every \<^verbatim>\<open>on_bar\<close> of a signal keeps it (also when it
  ends in an exception), for any \<^verbatim>\<open>ArrayManager\<close> and any engine.
\<close>

theorem exclusive_ownership:
  "(exclusive w \<longrightarrow> exclusive (state_of (on_bar AM self bar w))) \<and>
   exclusive (state_of (run AM bars (init AM pv vs szs (TurtlePortfolio_init AM e)))) \<and>
   (exclusive w \<longrightarrow>
      (case trading_signals w v of
         None \<Rightarrow> exposure w v = 0
       | Some a \<Rightarrow> vt_symbol (heap w a) = v \<and> exposure w v \<noteq> 0 \<and>
           \<bar>exposure w v\<bar> \<le> \<bar>unit (heap w a)\<bar> \<and>
           (0 < exposure w v \<longleftrightarrow> 0 < unit (heap w a)))) \<and>
   (filter_signal self dir off vol u w = Some vol' \<longrightarrow>
      trading_signals w (vt_symbol (heap w self)) = None \<or>
      trading_signals w (vt_symbol (heap w self)) = Some self)"
proof (intro conjI impI)
  assume "exclusive w"
  then show "exclusive (state_of (on_bar AM self bar w))" by (rule on_bar_exclusive)
next
  show "exclusive (state_of (run AM bars (init AM pv vs szs (TurtlePortfolio_init AM e))))"
    by (rule run_exclusive [OF init_exclusive])
next
  assume "exclusive w"
  then have "owner_ok w v" by (rule exclusive_owner)
  then show "case trading_signals w v of
         None \<Rightarrow> exposure w v = 0
       | Some a \<Rightarrow> vt_symbol (heap w a) = v \<and> exposure w v \<noteq> 0 \<and>
           \<bar>exposure w v\<bar> \<le> \<bar>unit (heap w a)\<bar> \<and>
           (0 < exposure w v \<longleftrightarrow> 0 < unit (heap w a))"
    by (auto simp add: owner_ok_def held_by_def split: option.splits)
next
  assume "filter_signal self dir off vol u w = Some vol'"
  then show "trading_signals w (vt_symbol (heap w self)) = None \<or>
      trading_signals w (vt_symbol (heap w self)) = Some self"
    by (rule filter_signal_owner)
qed

theorem exclusive_ownership_witness:
  "exclusive (ready (FillRecorder [])) \<and>
   exclusive (state_of (on_bar WindowAM 0 breakout_bar (ready (FillRecorder [])))) \<and>
   exclusive (state_of (run WindowAM (replicate 60 quiet_bar @ [breakout_bar])
      (portfolio0 (FillRecorder [])))) \<and>
   trading_signals (state_of (run WindowAM (replicate 60 quiet_bar @ [breakout_bar])
      (portfolio0 (FillRecorder [])))) ''IF'' = Some 0 \<and>
   exposure (state_of (run WindowAM (replicate 60 quiet_bar @ [breakout_bar])
      (portfolio0 (FillRecorder [])))) ''IF'' = 4 \<and>
   filter_signal 0 LONG OPEN 1 0 (ready (FillRecorder [])) = Some 1"
proof -
  let ?e = "FillRecorder []"
  let ?w = "state_of (run WindowAM (replicate 60 quiet_bar @ [breakout_bar]) (portfolio0 ?e))"
  note t = exclusive_ownership [where w = "ready ?e" and AM = WindowAM and self = 0
      and bar = breakout_bar and pv = 10000000 and vs = "[''IF'']" and szs = "[''IF'' \<mapsto> 10]"
      and e = ?e and v = "''IF''" and dir = LONG and off = OPEN and vol = 1 and u = 0
      and vol' = 1]
  have r: "exclusive (state_of (run WindowAM (replicate 60 quiet_bar) (portfolio0 ?e)))"
    using t [where bars = "replicate 60 quiet_bar"] by (simp add: portfolio0_def)
  then have 1: "exclusive (ready ?e)" by (simp add: run_quiet)
  then have 2: "exclusive (state_of (on_bar WindowAM 0 breakout_bar (ready ?e)))"
    using t [where bars = "[]"] by blast
  have 3: "exclusive ?w"
    using t [where bars = "replicate 60 quiet_bar @ [breakout_bar]"] by (simp add: portfolio0_def)
  have 4: "trading_signals ?w ''IF'' = Some 0 \<and> exposure ?w ''IF'' = 4"
    unfolding run_ready using breakout_both by (simp add: exposure_def)
  have 5: "filter_signal 0 LONG OPEN 1 0 (ready ?e) = Some 1"
    by (simp add: filter_signal_def ready_defs get_last_pnl_def MAX_PRODUCT_POS_def
        MAX_DIRECTION_POS_def Let_def)
  show ?thesis using 1 2 3 4 5 by simp
qed

section \<open>Rejected proposals\<close>

lemma new_signal_rejected:
  fixes w :: "'am TurtlePortfolio"
  assumes u: "map_of (units w) (vt_symbol (heap w self)) = Some u"
    and f: "filter_signal self dir off vol u w = None"
  shows "state_of (new_signal self dir off p vol w) = w \<or>
     (u = 0 \<and> (\<exists>m. state_of (new_signal self dir off p vol w) =
        w\<lparr>multipliers := (multipliers w)(vt_symbol (heap w self) \<mapsto> m)\<rparr>))"
proof (cases "get_multiplier (heap w self) u w")
  case (Raise e w1)
  then have "w1 = w" by (rule get_multiplier_Raise)
  then show ?thesis using u Raise by (simp add: new_signal_def Let_def)
next
  case (Return m w1)
  from get_multiplier_Return [OF this] have
    w1: "(u = 0 \<and> w1 = w\<lparr>multipliers := (multipliers w)(vt_symbol (heap w self) \<mapsto> m)\<rparr>) \<or>
      (u \<noteq> 0 \<and> w1 = w \<and> multipliers w (vt_symbol (heap w self)) = Some m)" .
  then have "filter_signal self dir off vol u w1 = None" using f by auto
  then have "new_signal self dir off p vol w = Return () w1"
    using u Return by (simp add: new_signal_def Let_def)
  then show ?thesis using w1 by auto
qed

lemma open_signal_atr:
  "atr_volatility (heap (state_of (open_signal self p c w)) a) = atr_volatility (heap w a)"
  by (simp add: open_signal_def upd_signal_def Let_def split: option.splits result.splits)

lemma open_order_stop:
  assumes "and_then (open_signal self P c w) (\<lambda>_ w.
       and_then (new_signal self dir off P vol w) (\<lambda>_ w. Return () (upd_signal self f w))) =
     Return x w'"
  shows "\<exists>s. heap w' self = f s \<and> atr_volatility s = atr_volatility (heap w self)"
proof (cases "open_signal self P c w")
  case (Raise e w1)
  then show ?thesis using assms by simp
next
  case (Return y w1)
  then have a: "atr_volatility (heap w1 self) = atr_volatility (heap w self)"
    using open_signal_atr [of self P c w self] by simp
  show ?thesis
  proof (cases "new_signal self dir off P vol w1")
    case (Raise e w2)
    then show ?thesis using assms Return by simp
  next
    case (Return z w2)
    then have "heap w2 = heap w1" using new_signal_heap [of self dir off P vol w1] by simp
    then show ?thesis using assms Return \<open>open_signal self P c w = Return y w1\<close> a
      by (auto simp add: upd_signal_def intro!: exI [of _ "heap w1 self"])
  qed
qed

lemma buy_stop:
  assumes "last_bar (heap w self) = Some bar" and "buy self p vol w = Return x w'"
  shows "long_stop (heap w' self) = max (open_bar bar) p - atr_volatility (heap w self) * 2"
proof -
  from assms have "and_then (open_signal self (max (open_bar bar) p) vol w) (\<lambda>_ w.
       and_then (new_signal self LONG OPEN (max (open_bar bar) p) vol w) (\<lambda>_ w.
         Return () (upd_signal self
           (\<lambda>s. s\<lparr>long_stop := max (open_bar bar) p - atr_volatility s * 2\<rparr>) w))) = Return x w'"
    by (simp add: buy_def calculate_trade_price_def)
  from open_order_stop [OF this] show ?thesis by auto
qed

lemma short_stop:
  assumes "last_bar (heap w self) = Some bar" and "short self p vol w = Return x w'"
  shows "short_stop (heap w' self) = min (open_bar bar) p + atr_volatility (heap w self) * 2"
proof -
  from assms have "and_then (open_signal self (min (open_bar bar) p) (- vol) w) (\<lambda>_ w.
       and_then (new_signal self SHORT OPEN (min (open_bar bar) p) vol w) (\<lambda>_ w.
         Return () (upd_signal self
           (\<lambda>s. s\<lparr>short_stop := min (open_bar bar) p + atr_volatility s * 2\<rparr>) w))) = Return x w'"
    by (simp add: short_def calculate_trade_price_def)
  from open_order_stop [OF this] show ?thesis by auto
qed

lemma second_signal_rejected:
  "vt_symbol (heap (state_of (on_bar WindowAM 0 breakout_bar (ready (FillRecorder [])))) 1) = ''IF'' \<and>
   map_of (units (state_of (on_bar WindowAM 0 breakout_bar (ready (FillRecorder []))))) ''IF'' = Some 4 \<and>
   filter_signal 1 LONG OPEN 1 4
     (state_of (on_bar WindowAM 0 breakout_bar (ready (FillRecorder [])))) = None \<and>
   last_bar (heap (state_of (on_bar WindowAM 0 breakout_bar (ready (FillRecorder [])))) 1) =
     Some quiet_bar \<and>
   unit (heap (state_of (on_bar WindowAM 0 breakout_bar (ready (FillRecorder [])))) 1) = 0 \<and>
   last_result (heap (state_of (on_bar WindowAM 0 breakout_bar (ready (FillRecorder [])))) 1) = None \<and>
   long_stop (heap (state_of (on_bar WindowAM 0 breakout_bar (ready (FillRecorder [])))) 1) = 0"
  by (simp add: exec_defs ready_defs breakout_bar_def update_conv')

lemma second_signal_buy:
  "unit (heap (state_of (buy 1 100 1
      (state_of (on_bar WindowAM 0 breakout_bar (ready (FillRecorder [])))))) 1) = 1 \<and>
   last_result (heap (state_of (buy 1 100 1
      (state_of (on_bar WindowAM 0 breakout_bar (ready (FillRecorder [])))))) 1) =
     Some \<lparr>unit_r = 1, entry = 100, exit = 0, pnl = 0\<rparr> \<and>
   long_stop (heap (state_of (buy 1 100 1
      (state_of (on_bar WindowAM 0 breakout_bar (ready (FillRecorder [])))))) 1) = 90 \<and>
   units (state_of (buy 1 100 1
      (state_of (on_bar WindowAM 0 breakout_bar (ready (FillRecorder [])))))) =
     units (state_of (on_bar WindowAM 0 breakout_bar (ready (FillRecorder [])))) \<and>
   engine (state_of (buy 1 100 1
      (state_of (on_bar WindowAM 0 breakout_bar (ready (FillRecorder [])))))) =
     engine (state_of (on_bar WindowAM 0 breakout_bar (ready (FillRecorder []))))"
  by (simp add: exec_defs ready_defs breakout_bar_def quiet_bar_def update_conv')

lemma second_signal_returns:
  "raised (buy 1 100 1 (state_of (on_bar WindowAM 0 breakout_bar (ready (FillRecorder []))))) =
     None"
  by (simp add: exec_defs ready_defs breakout_bar_def quiet_bar_def update_conv')

text \<open>
  Claim C1, as stated, fails: \<^verbatim>\<open>buy\<close> calls \<^verbatim>\<open>self.open\<close> before it proposes and
  sets the stop after the proposal returns. On the breakout bar, once the first signal of
  \<^verbatim>\<open>IF\<close> holds 4 units, the proposal of the second signal to buy at 100 is rejected
  (cap of the instrument, and another signal is trading), yet the second signal's unit
  goes from 0 to 1, its open trade is created and its stop is set to 90.
\<close>

theorem rejection_counterexample:
  "vt_symbol (heap (state_of (on_bar WindowAM 0 breakout_bar (ready (FillRecorder [])))) 1) = ''IF'' \<and>
   map_of (units (state_of (on_bar WindowAM 0 breakout_bar (ready (FillRecorder []))))) ''IF'' = Some 4 \<and>
   filter_signal 1 LONG OPEN 1 4
     (state_of (on_bar WindowAM 0 breakout_bar (ready (FillRecorder [])))) = None \<and>
   unit (heap (state_of (on_bar WindowAM 0 breakout_bar (ready (FillRecorder [])))) 1) = 0 \<and>
   last_result (heap (state_of (on_bar WindowAM 0 breakout_bar (ready (FillRecorder [])))) 1) = None \<and>
   long_stop (heap (state_of (on_bar WindowAM 0 breakout_bar (ready (FillRecorder [])))) 1) = 0 \<and>
   unit (heap (state_of (buy 1 100 1
      (state_of (on_bar WindowAM 0 breakout_bar (ready (FillRecorder [])))))) 1) = 1 \<and>
   last_result (heap (state_of (buy 1 100 1
      (state_of (on_bar WindowAM 0 breakout_bar (ready (FillRecorder [])))))) 1) =
     Some \<lparr>unit_r = 1, entry = 100, exit = 0, pnl = 0\<rparr> \<and>
   long_stop (heap (state_of (buy 1 100 1
      (state_of (on_bar WindowAM 0 breakout_bar (ready (FillRecorder [])))))) 1) = 90"
  using second_signal_rejected second_signal_buy by simp

text \<open>
  Claim C1, amended. A rejected proposal leaves the whole state of the allocator, the
  engine and all signals as they were, except that the order unit of the instrument is
  recomputed first if the instrument is flat. The proposing signal keeps its own count
  whatever the allocator decides: \<^verbatim>\<open>buy\<close> and \<^verbatim>\<open>short\<close> change the unit by the
  volume before they propose and, when they return, have set the stop from the trade
  price; \<^verbatim>\<open>sell\<close> and \<^verbatim>\<open>cover\<close> set the unit to 0.
\<close>

theorem rejection_frame:
  "(map_of (units w) (vt_symbol (heap w self)) = Some u \<and>
    filter_signal self dir off vol u w = None \<longrightarrow>
      state_of (new_signal self dir off p vol w) = w \<or>
      (u = 0 \<and> (\<exists>m. state_of (new_signal self dir off p vol w) =
         w\<lparr>multipliers := (multipliers w)(vt_symbol (heap w self) \<mapsto> m)\<rparr>))) \<and>
   (last_bar (heap w self) = Some bar \<longrightarrow>
      unit (heap (state_of (buy self p vol w)) self) = unit (heap w self) + vol \<and>
      unit (heap (state_of (short self p vol w)) self) = unit (heap w self) - vol \<and>
      unit (heap (state_of (sell self p w)) self) = 0 \<and>
      unit (heap (state_of (cover self p w)) self) = 0 \<and>
      (\<forall>x w'. buy self p vol w = Return x w' \<longrightarrow>
         long_stop (heap w' self) = max (open_bar bar) p - atr_volatility (heap w self) * 2) \<and>
      (\<forall>x w'. short self p vol w = Return x w' \<longrightarrow>
         short_stop (heap w' self) = min (open_bar bar) p + atr_volatility (heap w self) * 2))"
proof (intro conjI impI allI)
  assume "map_of (units w) (vt_symbol (heap w self)) = Some u \<and>
    filter_signal self dir off vol u w = None"
  then show "state_of (new_signal self dir off p vol w) = w \<or>
      (u = 0 \<and> (\<exists>m. state_of (new_signal self dir off p vol w) =
         w\<lparr>multipliers := (multipliers w)(vt_symbol (heap w self) \<mapsto> m)\<rparr>))"
    using new_signal_rejected by blast
next
  assume b: "last_bar (heap w self) = Some bar"
  show "unit (heap (state_of (buy self p vol w)) self) = unit (heap w self) + vol"
    using b by (simp add: buy_unit)
  show "unit (heap (state_of (short self p vol w)) self) = unit (heap w self) - vol"
    using b by (simp add: short_unit)
  show "unit (heap (state_of (sell self p w)) self) = 0" using b by (simp add: sell_unit)
  show "unit (heap (state_of (cover self p w)) self) = 0" using b by (simp add: cover_unit)
  show "long_stop (heap w' self) = max (open_bar bar) p - atr_volatility (heap w self) * 2"
    if "buy self p vol w = Return x w'" for x w'
    using b that by (rule buy_stop)
  show "short_stop (heap w' self) = min (open_bar bar) p + atr_volatility (heap w self) * 2"
    if "short self p vol w = Return x w'" for x w'
    using b that by (rule short_stop)
qed

theorem rejection_frame_witness:
  "map_of (units (state_of (on_bar WindowAM 0 breakout_bar (ready (FillRecorder [])))))
     (vt_symbol (heap (state_of (on_bar WindowAM 0 breakout_bar (ready (FillRecorder [])))) 1)) =
     Some 4 \<and>
   filter_signal 1 LONG OPEN 1 4
     (state_of (on_bar WindowAM 0 breakout_bar (ready (FillRecorder [])))) = None \<and>
   state_of (new_signal 1 LONG OPEN 100 1
      (state_of (on_bar WindowAM 0 breakout_bar (ready (FillRecorder []))))) =
     state_of (on_bar WindowAM 0 breakout_bar (ready (FillRecorder []))) \<and>
   last_bar (heap (state_of (on_bar WindowAM 0 breakout_bar (ready (FillRecorder [])))) 1) =
     Some quiet_bar \<and>
   unit (heap (state_of (buy 1 100 1
      (state_of (on_bar WindowAM 0 breakout_bar (ready (FillRecorder [])))))) 1) = 1 \<and>
   raised (buy 1 100 1 (state_of (on_bar WindowAM 0 breakout_bar (ready (FillRecorder []))))) =
     None \<and>
   long_stop (heap (state_of (buy 1 100 1
      (state_of (on_bar WindowAM 0 breakout_bar (ready (FillRecorder [])))))) 1) = 90"
  using rejection_frame [where w = "state_of (on_bar WindowAM 0 breakout_bar (ready (FillRecorder [])))"
      and self = 1 and u = 4 and dir = LONG and off = OPEN and vol = 1 and p = 100
      and bar = quiet_bar]
    second_signal_rejected second_signal_buy second_signal_returns
  by simp

end
